theory Spec2Isabelle
  imports Main "HOL-Library.Word"
begin

section \<open>Strings of the Go standard library\<close>

text \<open>
  A Go string is a sequence of bytes; \<^typ>\<open>string\<close> is \<^typ>\<open>char list\<close> and a
  \<^typ>\<open>char\<close> is one byte. \<^verbatim>\<open>strings.TrimSpace\<close>, \<^verbatim>\<open>strings.Fields\<close> and the scanner
  of package \<^verbatim>\<open>fmt\<close> decode UTF-8 and ask \<^verbatim>\<open>unicode.IsSpace\<close> of every rune. A rune is
  white space exactly when the bytes at that position are the UTF-8 encoding of one of the
  code points of Unicode's White\_Space property: an ill-formed byte decodes to U+FFFD, of
  width one, which is not white space. \<open>space_runes\<close> lists those encodings.
\<close>

definition space_runes :: "string list" where
  "space_runes =
    [[CHR 0x09], [CHR 0x0A], [CHR 0x0B], [CHR 0x0C], [CHR 0x0D], [CHR 0x20],
     [CHR 0xC2, CHR 0x85], [CHR 0xC2, CHR 0xA0],
     [CHR 0xE1, CHR 0x9A, CHR 0x80],
     [CHR 0xE2, CHR 0x80, CHR 0x80], [CHR 0xE2, CHR 0x80, CHR 0x81],
     [CHR 0xE2, CHR 0x80, CHR 0x82], [CHR 0xE2, CHR 0x80, CHR 0x83],
     [CHR 0xE2, CHR 0x80, CHR 0x84], [CHR 0xE2, CHR 0x80, CHR 0x85],
     [CHR 0xE2, CHR 0x80, CHR 0x86], [CHR 0xE2, CHR 0x80, CHR 0x87],
     [CHR 0xE2, CHR 0x80, CHR 0x88], [CHR 0xE2, CHR 0x80, CHR 0x89],
     [CHR 0xE2, CHR 0x80, CHR 0x8A],
     [CHR 0xE2, CHR 0x80, CHR 0xA8], [CHR 0xE2, CHR 0x80, CHR 0xA9],
     [CHR 0xE2, CHR 0x80, CHR 0xAF],
     [CHR 0xE2, CHR 0x81, CHR 0x9F],
     [CHR 0xE3, CHR 0x80, CHR 0x80]]"

text \<open>The input after its first rune, when that rune is white space.\<close>

definition leading_space :: "string \<Rightarrow> string option" where
  "leading_space s =
     (case find (\<lambda>t. take (length t) s = t) space_runes of
        None \<Rightarrow> None
      | Some t \<Rightarrow> Some (drop (length t) s))"

text \<open>The input before its last rune, when that rune is white space.\<close>

definition trailing_space :: "string \<Rightarrow> string option" where
  "trailing_space s =
     (case find (\<lambda>t. length t \<le> length s \<and> drop (length s - length t) s = t) space_runes of
        None \<Rightarrow> None
      | Some t \<Rightarrow> Some (take (length s - length t) s))"

lemma space_runes_nonempty: "t \<in> set space_runes \<Longrightarrow> t \<noteq> []"
  by (auto simp: space_runes_def)

lemma leading_space_shorter: "leading_space s = Some r \<Longrightarrow> length r < length s"
proof -
  assume a: "leading_space s = Some r"
  then obtain t where f: "find (\<lambda>t. take (length t) s = t) space_runes = Some t"
    and r: "r = drop (length t) s"
    by (auto simp: leading_space_def split: option.splits)
  from f have "t \<in> set space_runes" and tk: "take (length t) s = t"
    by (auto simp: find_Some_iff)
  then have "t \<noteq> []" by (simp add: space_runes_nonempty)
  with tk have "s \<noteq> []" by auto
  with \<open>t \<noteq> []\<close> r show ?thesis by simp
qed

lemma trailing_space_shorter: "trailing_space s = Some r \<Longrightarrow> length r < length s"
proof -
  assume a: "trailing_space s = Some r"
  then obtain t
    where f: "find (\<lambda>t. length t \<le> length s \<and> drop (length s - length t) s = t) space_runes = Some t"
    and r: "r = take (length s - length t) s"
    by (auto simp: trailing_space_def split: option.splits)
  from f have "t \<in> set space_runes" and le: "length t \<le> length s"
    by (auto simp: find_Some_iff)
  then have "t \<noteq> []" by (simp add: space_runes_nonempty)
  with le r show ?thesis by (cases t) auto
qed

text \<open>
  \<^verbatim>\<open>strings.TrimSpace\<close>: the white-space runes are cut from the front, then from the back
  of what is left (\<^verbatim>\<open>TrimLeftFunc\<close> and \<^verbatim>\<open>TrimRightFunc\<close> with \<^verbatim>\<open>unicode.IsSpace\<close>).
\<close>

function TrimLeftSpace :: "string \<Rightarrow> string" where
  "TrimLeftSpace s = (case leading_space s of None \<Rightarrow> s | Some r \<Rightarrow> TrimLeftSpace r)"
  by pat_completeness auto
termination
  by (relation "measure length") (auto dest: leading_space_shorter)

function TrimRightSpace :: "string \<Rightarrow> string" where
  "TrimRightSpace s = (case trailing_space s of None \<Rightarrow> s | Some r \<Rightarrow> TrimRightSpace r)"
  by pat_completeness auto
termination
  by (relation "measure length") (auto dest: trailing_space_shorter)

definition TrimSpace :: "string \<Rightarrow> string" where
  "TrimSpace s = TrimRightSpace (TrimLeftSpace s)"

text \<open>
  \<^verbatim>\<open>strings.ReplaceAll(s, old, new)\<close> for a pattern and a replacement of one byte each,
  which is how \<^verbatim>\<open>cachePath\<close> calls it.
\<close>

definition ReplaceAll :: "string \<Rightarrow> char \<Rightarrow> char \<Rightarrow> string" where
  "ReplaceAll s old new = map (\<lambda>ch. if ch = old then new else ch) s"


section \<open>The data of the cache\<close>

text \<open>
  \<^verbatim>\<open>Pkg\<close> and \<^verbatim>\<open>PkgInfo\<close> as the source declares them. Go's \<^verbatim>\<open>int\<close> is taken at 64
  bits; \<open>sint\<close> reads its value.
\<close>

record Pkg =
  Standard :: bool
  ImportPath :: string
  Root :: string
  Imports :: "string list"

record PkgInfo =
  Size :: "64 word"
  NumFuncs :: "64 word"

text \<open>
  The two mutexes of \<^verbatim>\<open>Cache\<close> are left out: the model runs one call at a time. So is
  what \<^verbatim>\<open>verb\<close> prints.
\<close>

record Cache =
  listcache :: "string \<rightharpoonup> Pkg"
  pkgsizecache :: "string \<rightharpoonup> PkgInfo"
  root :: string
  repohash :: string
  goroothash :: string
  vlevel :: int

definition glopath :: string where
  "glopath = ''=glo=''"

section \<open>The file system and the external commands\<close>

text \<open>
  A file is named by its directory and its name in it: the names the cache builds hold no
  path separator, so \<^verbatim>\<open>filepath.Join(c.root, name)\<close> is the file \<open>name\<close> of directory
  \<open>c.root\<close>. The file system maps a directory (by its path as written) to its files; it
  holds no directory inside another.

  Every call of package \<^verbatim>\<open>os\<close> and every external command is recorded in the trace, in
  order, whether it fails or not.
\<close>

type_synonym path = "string \<times> string"

datatype event =
    EvMkdir string
  | EvReadFile path
  | EvRemoveAll string
  | EvRemoveAllFile path
  | EvOpenFile path
  | EvFprintf path
  | EvClose path
  | EvWriteFile path
  | EvStat path
  | EvRemove path
  | EvGoList string string
  | EvGoBuild path string
  | EvGoNm path

record world =
  fs :: "string \<rightharpoonup> (string \<rightharpoonup> string)"
  trace :: "event list"

text \<open>What \<^verbatim>\<open>os.IsExist\<close> and \<^verbatim>\<open>os.IsNotExist\<close> tell apart.\<close>

datatype oserr = ErrExist | ErrNotExist | ErrOther

text \<open>
  What the cache cannot decide is a parameter. \<open>os_fault\<close> says, from the trace so far,
  whether a call of package \<^verbatim>\<open>os\<close> fails for a reason the file system of the model does
  not show (permissions, a full disk); a call that fails so changes nothing.
  \<open>go_list tgt dir\<close> is the standard output of \<^verbatim>\<open>go list -json tgt\<close> run in \<open>dir\<close>, or
  \<open>None\<close> when the command fails. \<open>go_build outfile dir\<close> is the combined output of
  \<^verbatim>\<open>go build -o outfile dir\<close>, whether it succeeded, and the file it left at \<open>outfile\<close>,
  if any. \<open>go_nm apath\<close> is the combined output of \<^verbatim>\<open>go tool nm apath\<close>, or \<open>None\<close> when it
  fails. \<open>json_Unmarshal\<close> is \<^verbatim>\<open>json.Unmarshal\<close> into a zero \<^verbatim>\<open>Pkg\<close>; \<open>None\<close> is its
  error.
\<close>

record env =
  os_fault :: "event list \<Rightarrow> event \<Rightarrow> bool"
  go_list :: "string \<Rightarrow> string \<Rightarrow> string option"
  go_build :: "path \<Rightarrow> string \<Rightarrow> string \<times> bool \<times> string option"
  go_nm :: "path \<Rightarrow> string option"
  json_Unmarshal :: "string \<Rightarrow> Pkg option"

definition emit :: "event \<Rightarrow> world \<Rightarrow> world" where
  "emit e w = w\<lparr>trace := trace w @ [e]\<rparr>"

definition read_file :: "world \<Rightarrow> path \<Rightarrow> string option" where
  "read_file w p = (case fs w (fst p) of None \<Rightarrow> None | Some files \<Rightarrow> files (snd p))"

definition put_file :: "path \<Rightarrow> string \<Rightarrow> world \<Rightarrow> world" where
  "put_file p b w =
     (case fs w (fst p) of
        None \<Rightarrow> w
      | Some files \<Rightarrow> w\<lparr>fs := (fs w)(fst p \<mapsto> files(snd p \<mapsto> b))\<rparr>)"

definition del_file :: "path \<Rightarrow> world \<Rightarrow> world" where
  "del_file p w =
     (case fs w (fst p) of
        None \<Rightarrow> w
      | Some files \<Rightarrow> w\<lparr>fs := (fs w)(fst p \<mapsto> files(snd p := None))\<rparr>)"

text \<open>\<^verbatim>\<open>os.Mkdir\<close>: fails with \<open>ErrExist\<close> on a directory that is there.\<close>

definition os_Mkdir :: "env \<Rightarrow> string \<Rightarrow> world \<Rightarrow> oserr option \<times> world" where
  "os_Mkdir env d w =
     (if os_fault env (trace w) (EvMkdir d) then (Some ErrOther, emit (EvMkdir d) w)
      else if fs w d \<noteq> None then (Some ErrExist, emit (EvMkdir d) w)
      else (None, emit (EvMkdir d) (w\<lparr>fs := (fs w)(d \<mapsto> Map.empty)\<rparr>)))"

text \<open>\<^verbatim>\<open>os.ReadFile\<close>: the contents and the error, as Go returns them.\<close>

definition os_ReadFile :: "env \<Rightarrow> path \<Rightarrow> world \<Rightarrow> string \<times> oserr option \<times> world" where
  "os_ReadFile env p w =
     (if os_fault env (trace w) (EvReadFile p) then ([], Some ErrOther, emit (EvReadFile p) w)
      else case read_file w p of
             None \<Rightarrow> ([], Some ErrNotExist, emit (EvReadFile p) w)
           | Some b \<Rightarrow> (b, None, emit (EvReadFile p) w))"

text \<open>\<^verbatim>\<open>os.RemoveAll\<close> of a directory: no error when it is not there.\<close>

definition os_RemoveAll :: "env \<Rightarrow> string \<Rightarrow> world \<Rightarrow> oserr option \<times> world" where
  "os_RemoveAll env d w =
     (if os_fault env (trace w) (EvRemoveAll d) then (Some ErrOther, emit (EvRemoveAll d) w)
      else (None, emit (EvRemoveAll d) (w\<lparr>fs := (fs w)(d := None)\<rparr>)))"

text \<open>\<^verbatim>\<open>os.RemoveAll\<close> and \<^verbatim>\<open>os.Remove\<close> of a file; \<^verbatim>\<open>PkgSize\<close> drops their errors.\<close>

definition os_RemoveAllFile :: "env \<Rightarrow> path \<Rightarrow> world \<Rightarrow> world" where
  "os_RemoveAllFile env p w =
     (if os_fault env (trace w) (EvRemoveAllFile p) then emit (EvRemoveAllFile p) w
      else emit (EvRemoveAllFile p) (del_file p w))"

definition os_Remove :: "env \<Rightarrow> path \<Rightarrow> world \<Rightarrow> world" where
  "os_Remove env p w =
     (if os_fault env (trace w) (EvRemove p) then emit (EvRemove p) w
      else emit (EvRemove p) (del_file p w))"

text \<open>\<^verbatim>\<open>os.OpenFile\<close> with \<^verbatim>\<open>O_WRONLY|O_CREATE|O_TRUNC\<close>: the file is there and empty.\<close>

definition os_OpenFile :: "env \<Rightarrow> path \<Rightarrow> world \<Rightarrow> oserr option \<times> world" where
  "os_OpenFile env p w =
     (if os_fault env (trace w) (EvOpenFile p) then (Some ErrOther, emit (EvOpenFile p) w)
      else if fs w (fst p) = None then (Some ErrNotExist, emit (EvOpenFile p) w)
      else (None, emit (EvOpenFile p) (put_file p [] w)))"

text \<open>\<^verbatim>\<open>fmt.Fprintf\<close> to the file just opened, and its \<^verbatim>\<open>Close\<close>.\<close>

definition os_Fprintf :: "env \<Rightarrow> path \<Rightarrow> string \<Rightarrow> world \<Rightarrow> oserr option \<times> world" where
  "os_Fprintf env p b w =
     (if os_fault env (trace w) (EvFprintf p) then (Some ErrOther, emit (EvFprintf p) w)
      else (None, emit (EvFprintf p) (put_file p b w)))"

definition os_Close :: "env \<Rightarrow> path \<Rightarrow> world \<Rightarrow> oserr option \<times> world" where
  "os_Close env p w =
     (if os_fault env (trace w) (EvClose p) then (Some ErrOther, emit (EvClose p) w)
      else (None, emit (EvClose p) w))"

text \<open>\<^verbatim>\<open>os.WriteFile\<close>: the file holds the content, in a directory that is there.\<close>

definition os_WriteFile :: "env \<Rightarrow> path \<Rightarrow> string \<Rightarrow> world \<Rightarrow> oserr option \<times> world" where
  "os_WriteFile env p b w =
     (if os_fault env (trace w) (EvWriteFile p) then (Some ErrOther, emit (EvWriteFile p) w)
      else if fs w (fst p) = None then (Some ErrNotExist, emit (EvWriteFile p) w)
      else (None, emit (EvWriteFile p) (put_file p b w)))"

text \<open>\<^verbatim>\<open>os.Stat\<close>, of which the source reads \<^verbatim>\<open>fi.Size()\<close>, an \<^verbatim>\<open>int64\<close>.\<close>

definition os_Stat :: "env \<Rightarrow> path \<Rightarrow> world \<Rightarrow> 64 word \<times> oserr option \<times> world" where
  "os_Stat env p w =
     (if os_fault env (trace w) (EvStat p) then (0, Some ErrOther, emit (EvStat p) w)
      else case read_file w p of
             None \<Rightarrow> (0, Some ErrNotExist, emit (EvStat p) w)
           | Some b \<Rightarrow> (of_nat (length b), None, emit (EvStat p) w))"

text \<open>
  \<^verbatim>\<open>exec.Command("go", "build", "-o", outfile, dir).CombinedOutput()\<close>: the output,
  whether the command failed, and \<open>outfile\<close> as the command left it.
\<close>

definition run_go_build :: "env \<Rightarrow> path \<Rightarrow> string \<Rightarrow> world \<Rightarrow> string \<times> bool \<times> world" where
  "run_go_build env outfile dir w =
     (case go_build env outfile dir of
        (out, ok, artifact) \<Rightarrow>
          (out, \<not> ok,
           emit (EvGoBuild outfile dir)
             (case artifact of None \<Rightarrow> w | Some a \<Rightarrow> put_file outfile a w)))"


section \<open>Printing and scanning integers\<close>

text \<open>The verb \<^verbatim>\<open>%d\<close> of \<^verbatim>\<open>fmt.Sprintf\<close>: decimal digits, with a minus sign below zero.\<close>

definition digit_char :: "nat \<Rightarrow> char" where
  "digit_char n = char_of (48 + n)"

function digits_of :: "nat \<Rightarrow> string" where
  "digits_of n = (if n < 10 then [digit_char n] else digits_of (n div 10) @ [digit_char (n mod 10)])"
  by pat_completeness auto
termination
  by (relation "measure id") auto

definition fmt_d :: "int \<Rightarrow> string" where
  "fmt_d i = (if i < 0 then CHR ''-'' # digits_of (nat (- i)) else digits_of (nat i))"

definition is_digit :: "char \<Rightarrow> bool" where
  "is_digit ch = (ch \<in> set ''0123456789'')"

definition digit_val :: "char \<Rightarrow> nat" where
  "digit_val ch = of_char ch - 48"

definition decimal :: "string \<Rightarrow> nat" where
  "decimal ds = foldl (\<lambda>v ch. 10 * v + digit_val ch) 0 ds"

datatype scan_error =
    ErrUnexpectedNewline
  | ErrUnexpectedEOF
  | ErrExpectedInteger
  | ErrExpectedSpace
  | ErrNewlineInInput
  | ErrSyntax
  | ErrRange

text \<open>
  \<^verbatim>\<open>strconv.ParseInt(tok, 10, 64)\<close>: an optional sign, then digits; a value outside the
  64-bit range is an error.
\<close>

definition ParseInt :: "string \<Rightarrow> scan_error + int" where
  "ParseInt s =
     (let neg = (s \<noteq> [] \<and> hd s = CHR ''-'');
          ds = (if s \<noteq> [] \<and> (hd s = CHR ''+'' \<or> hd s = CHR ''-'') then tl s else s);
          un = decimal ds
      in if ds = [] \<or> \<not> list_all is_digit ds then Inl ErrSyntax
         else if \<not> neg \<and> un \<ge> 2 ^ 63 then Inl ErrRange
         else if neg \<and> un > 2 ^ 63 then Inl ErrRange
         else Inr (if neg then - int un else int un))"

text \<open>
  The scanner of \<^verbatim>\<open>fmt.Sscanf\<close>, on the input that is left. \<^verbatim>\<open>SkipSpace\<close> with
  \<^verbatim>\<open>nlIsSpace\<close> false, as \<^verbatim>\<open>Sscanf\<close> sets it: a newline is an error. (The scanner also
  stops after \<open>2 ^ 30\<close> runes; the model reads inputs shorter than that.)
\<close>

function SkipSpace :: "string \<Rightarrow> scan_error + string" where
  "SkipSpace s =
     (if s = [] then Inr []
      else if hd s = CHR 0x0D \<and> tl s \<noteq> [] \<and> hd (tl s) = CHR 0x0A then SkipSpace (tl s)
      else if hd s = CHR 0x0A then Inl ErrUnexpectedNewline
      else case leading_space s of None \<Rightarrow> Inr s | Some r \<Rightarrow> SkipSpace r)"
  by pat_completeness auto
termination
  by (relation "measure length") (auto dest: leading_space_shorter)

text \<open>\<^verbatim>\<open>scanInt\<close> for the verb \<^verbatim>\<open>d\<close> into an \<^verbatim>\<open>int\<close>: the value and the input after it.\<close>

definition scanInt :: "string \<Rightarrow> scan_error + (64 word \<times> string)" where
  "scanInt s =
     (case SkipSpace s of
        Inl e \<Rightarrow> Inl e
      | Inr s1 \<Rightarrow>
          if s1 = [] then Inl ErrUnexpectedEOF
          else let sgn = (if hd s1 = CHR ''+'' \<or> hd s1 = CHR ''-'' then [hd s1] else []);
                   s2 = drop (length sgn) s1
               in if s2 = [] then Inl ErrUnexpectedEOF
                  else if \<not> is_digit (hd s2) then Inl ErrExpectedInteger
                  else (case ParseInt (sgn @ takeWhile is_digit s2) of
                          Inl e \<Rightarrow> Inl e
                        | Inr i \<Rightarrow> Inr (word_of_int i, dropWhile is_digit s2)))"

text \<open>One \<^verbatim>\<open>%d\<close> of the format, as \<^verbatim>\<open>doScanf\<close> runs it: \<^verbatim>\<open>SkipSpace\<close>, then \<^verbatim>\<open>scanOne\<close>.\<close>

definition verb_d :: "string \<Rightarrow> scan_error + (64 word \<times> string)" where
  "verb_d s = (case SkipSpace s of Inl e \<Rightarrow> Inl e | Inr s1 \<Rightarrow> scanInt s1)"

text \<open>
  The space of the format, as \<^verbatim>\<open>advance\<close> runs it: at the end of the input it matches
  nothing; otherwise the input must bring a white-space rune that is no newline, and the
  white space after it is read up to a newline.
\<close>

function skip_blanks :: "string \<Rightarrow> string" where
  "skip_blanks s =
     (if s \<noteq> [] \<and> hd s \<noteq> CHR 0x0A
      then (case leading_space s of None \<Rightarrow> s | Some r \<Rightarrow> skip_blanks r)
      else s)"
  by pat_completeness auto
termination
  by (relation "measure length") (auto dest: leading_space_shorter)

definition format_space :: "string \<Rightarrow> scan_error + string" where
  "format_space s =
     (if s = [] then Inr []
      else if leading_space s = None then Inl ErrExpectedSpace
      else if hd s = CHR 0x0A then Inl ErrNewlineInInput
      else Inr (skip_blanks s))"

text \<open>
  \<^verbatim>\<open>fmt.Sscanf(str, "%d %d", &sz, &nf)\<close>: the count of operands scanned, the error, and the
  two variables (zero until assigned). What follows the second integer is not read.
\<close>

definition Sscanf_d_d :: "string \<Rightarrow> (nat \<times> scan_error option) \<times> (64 word \<times> 64 word)" where
  "Sscanf_d_d str =
     (case verb_d str of
        Inl e \<Rightarrow> ((0, Some e), (0, 0))
      | Inr (sz, s1) \<Rightarrow>
          (case format_space s1 of
             Inl e \<Rightarrow> ((1, Some e), (sz, 0))
           | Inr s2 \<Rightarrow>
               (case verb_d s2 of
                  Inl e \<Rightarrow> ((1, Some e), (sz, 0))
                | Inr (nf, s3) \<Rightarrow> ((2, None), (sz, nf)))))"

section \<open>Splitting the symbol table\<close>

text \<open>\<^verbatim>\<open>strings.Split(s, "\n")\<close> for a separator of one byte.\<close>

fun Split :: "string \<Rightarrow> char \<Rightarrow> string list" where
  "Split [] sep = [[]]"
| "Split (x # xs) sep =
     (if x = sep then [] # Split xs sep
      else (case Split xs sep of [] \<Rightarrow> [[x]] | l # ls \<Rightarrow> (x # l) # ls))"

text \<open>\<^verbatim>\<open>strings.Fields\<close>: the maximal runs of runes that are not white space.\<close>

fun until_space :: "string \<Rightarrow> string \<times> string" where
  "until_space [] = ([], [])"
| "until_space (x # xs) =
     (if leading_space (x # xs) \<noteq> None then ([], x # xs)
      else (case until_space xs of (f, r) \<Rightarrow> (x # f, r)))"

lemma until_space_length: "length (snd (until_space s)) \<le> length s"
  by (induction s) (auto split: prod.splits)

lemma until_space_shorter:
  "s \<noteq> [] \<Longrightarrow> leading_space s = None \<Longrightarrow> length (snd (until_space s)) < length s"
proof (cases s)
  case Nil
  assume "s \<noteq> []"
  with Nil show ?thesis by simp
next
  case (Cons x xs)
  assume "leading_space s = None"
  with Cons until_space_length [of xs] show ?thesis
    by (auto split: prod.splits)
qed

function Fields :: "string \<Rightarrow> string list" where
  "Fields s =
     (if s = [] then []
      else case leading_space s of
             Some r \<Rightarrow> Fields r
           | None \<Rightarrow> fst (until_space s) # Fields (snd (until_space s)))"
  by pat_completeness auto
termination
  by (relation "measure length") (auto dest: leading_space_shorter until_space_shorter)

text \<open>The loop of \<^verbatim>\<open>computePkgInfo\<close> over the lines of \<^verbatim>\<open>go tool nm\<close>.\<close>

definition count_funcs :: "string list \<Rightarrow> 64 word" where
  "count_funcs lines =
     foldl (\<lambda>totf line.
              let m = Fields line
              in if length m = 3 \<and> m ! 1 = ''T'' then totf + 1
                 else if length m = 4 \<and> m ! 2 = ''T'' then totf + 1
                 else totf)
       0 lines"


section \<open>The cache\<close>

text \<open>
  Errors are values. \<open>Errorf\<close> is \<^verbatim>\<open>fmt.Errorf\<close>: the text the source puts in front, and
  the error it wraps.
\<close>

datatype error =
    OsError oserr
  | ExitError
  | SyntaxError
  | ScanError nat "scan_error option"
  | Errorf string error

definition writeToken :: "env \<Rightarrow> Cache \<Rightarrow> world \<Rightarrow> error option \<times> world" where
  "writeToken env c w =
     (let p = (root c, glopath) in
      case os_OpenFile env p w of
        (Some e, w1) \<Rightarrow> (Some (Errorf ''opening'' (OsError e)), w1)
      | (None, w1) \<Rightarrow>
          (case os_Fprintf env p (repohash c @ '' '' @ goroothash c @ [CHR 0x0A]) w1 of
             (Some e, w2) \<Rightarrow> (Some (Errorf ''writing'' (OsError e)), w2)
           | (None, w2) \<Rightarrow>
               (case os_Close env p w2 of
                  (Some e, w3) \<Rightarrow> (Some (OsError e), w3)
                | (None, w3) \<Rightarrow> (None, w3))))"

definition checkValid :: "env \<Rightarrow> Cache \<Rightarrow> world \<Rightarrow> error option \<times> world" where
  "checkValid env c w =
     (let p = (root c, glopath) in
      case os_ReadFile env p w of
        (contents, err, w1) \<Rightarrow>
          if err \<noteq> None \<and> err \<noteq> Some ErrNotExist then (map_option OsError err, w1)
          else let val = TrimSpace contents;
                   want = repohash c @ '' '' @ goroothash c
               in if val \<noteq> want
                  then (case os_RemoveAll env (root c) w1 of
                          (Some e, w2) \<Rightarrow> (Some (OsError e), w2)
                        | (None, w2) \<Rightarrow>
                            (case os_Mkdir env (root c) w2 of
                               (Some e, w3) \<Rightarrow> (Some (OsError e), w3)
                             | (None, w3) \<Rightarrow> writeToken env c w3))
                  else (None, w1))"

definition Make ::
  "env \<Rightarrow> string \<Rightarrow> string \<Rightarrow> string \<Rightarrow> int \<Rightarrow> world \<Rightarrow> (error + Cache) \<times> world" where
  "Make env rhash ghash rootcachedir verblevel w =
     (case os_Mkdir env rootcachedir w of
        (err, w1) \<Rightarrow>
          if err \<noteq> None \<and> err \<noteq> Some ErrExist
          then (Inl (Errorf ''unable to create cache'' (OsError (the err))), w1)
          else let rv = \<lparr>listcache = Map.empty, pkgsizecache = Map.empty,
                          root = rootcachedir, repohash = rhash, goroothash = ghash,
                          vlevel = verblevel\<rparr>
               in (case checkValid env rv w1 of
                     (Some e, w2) \<Rightarrow> (Inl e, w2)
                   | (None, w2) \<Rightarrow> (Inr rv, w2)))"

definition cachePath :: "Cache \<Rightarrow> string \<Rightarrow> string \<Rightarrow> path" where
  "cachePath c dir tag =
     (let dtag = ReplaceAll dir CHR ''/'' CHR ''%'' in (root c, dtag @ ''.'' @ tag))"

text \<open>
  \<^verbatim>\<open>tryCache\<close> returns \<^verbatim>\<open>(contents, true, nil)\<close>, \<^verbatim>\<open>(nil, false, nil)\<close> or
  \<^verbatim>\<open>(nil, false, err)\<close>: here \<open>Inr (Some contents)\<close>, \<open>Inr None\<close> and \<open>Inl err\<close>.
\<close>

definition tryCache ::
  "env \<Rightarrow> Cache \<Rightarrow> string \<Rightarrow> string \<Rightarrow> world \<Rightarrow> (error + string option) \<times> world" where
  "tryCache env c dir tag w =
     (case checkValid env c w of
        (Some e, w1) \<Rightarrow> (Inl (Errorf ''problems reading cache'' e), w1)
      | (None, w1) \<Rightarrow>
          (case os_ReadFile env (cachePath c dir tag) w1 of
             (contents, Some e, w2) \<Rightarrow>
               if e = ErrNotExist then (Inr None, w2)
               else (Inl (Errorf ''problems reading cache'' (OsError e)), w2)
           | (contents, None, w2) \<Rightarrow> (Inr (Some contents), w2)))"

definition WriteCache ::
  "env \<Rightarrow> Cache \<Rightarrow> string \<Rightarrow> string \<Rightarrow> string \<Rightarrow> world \<Rightarrow> error option \<times> world" where
  "WriteCache env c dir tag content w =
     (case os_WriteFile env (cachePath c dir tag) content w of
        (Some e, w1) \<Rightarrow> (Some (OsError e), w1)
      | (None, w1) \<Rightarrow> (None, w1))"

definition goListUncached ::
  "env \<Rightarrow> string \<Rightarrow> string \<Rightarrow> world \<Rightarrow> (error + (Pkg \<times> string)) \<times> world" where
  "goListUncached env tgt dir w =
     (let w1 = emit (EvGoList tgt dir) w in
      case go_list env tgt dir of
        None \<Rightarrow> (Inl (Errorf ''go list -json'' ExitError), w1)
      | Some out \<Rightarrow>
          (case json_Unmarshal env out of
             None \<Rightarrow> (Inl (Errorf ''go list -json: unmarshal'' SyntaxError), w1)
           | Some pkg \<Rightarrow> (Inr (pkg, out), w1)))"

definition GoList :: "env \<Rightarrow> Cache \<Rightarrow> string \<Rightarrow> world \<Rightarrow> (error + Pkg) \<times> Cache \<times> world" where
  "GoList env c dir w =
     (case listcache c dir of
        Some cpk \<Rightarrow> (Inr cpk, c, w)
      | None \<Rightarrow>
          (case tryCache env c dir ''list'' w of
             (Inl err, w1) \<Rightarrow> (Inl err, c, w1)
           | (Inr None, w1) \<Rightarrow>
               (case goListUncached env dir [] w1 of
                  (Inl err, w2) \<Rightarrow> (Inl err, c, w2)
                | (Inr (pk, out), w2) \<Rightarrow>
                    (let c' = c\<lparr>listcache := (listcache c)(dir \<mapsto> pk)\<rparr> in
                     case WriteCache env c' dir ''list'' out w2 of
                       (Some e, w3) \<Rightarrow> (Inl (Errorf ''writing cache'' e), c', w3)
                     | (None, w3) \<Rightarrow> (Inr pk, c', w3)))
           | (Inr (Some out), w1) \<Rightarrow>
               (case json_Unmarshal env out of
                  None \<Rightarrow> (Inl (Errorf ''go list -json: unmarshal'' SyntaxError), c, w1)
                | Some pkg \<Rightarrow> (Inr pkg, c\<lparr>listcache := (listcache c)(dir \<mapsto> pkg)\<rparr>, w1))))"

definition computePkgInfo :: "env \<Rightarrow> path \<Rightarrow> world \<Rightarrow> (error + string) \<times> world" where
  "computePkgInfo env apath w =
     (case os_Stat env apath w of
        (sz, Some ferr, w1) \<Rightarrow> (Inl (Errorf ''stat'' (OsError ferr)), w1)
      | (sz, None, w1) \<Rightarrow>
          (let w2 = emit (EvGoNm apath) w1 in
           case go_nm env apath of
             None \<Rightarrow> (Inl (Errorf ''go tool nm'' ExitError), w2)
           | Some out \<Rightarrow>
               (let lines = Split out CHR 0x0A;
                    totf = count_funcs lines
                in (Inr (fmt_d (sint sz) @ '' '' @ fmt_d (sint totf) @ [CHR 0x0A]), w2))))"

text \<open>
  In \<^verbatim>\<open>PkgSize\<close> the branch of the miss either returns its error or leaves the payload in
  \<^verbatim>\<open>out\<close> for the lines that unpack it: \<open>Inl\<close> and \<open>Inr\<close> of the inner case.
\<close>

definition PkgSize ::
  "env \<Rightarrow> Cache \<Rightarrow> string \<Rightarrow> world \<Rightarrow> (error + PkgInfo) \<times> Cache \<times> world" where
  "PkgSize env c dir w =
     (if dir = ''unsafe'' then (Inr \<lparr>Size = 1, NumFuncs = 0\<rparr>, c, w)
      else case pkgsizecache c dir of
        Some cachedv \<Rightarrow> (Inr cachedv, c, w)
      | None \<Rightarrow>
          (case tryCache env c dir ''build'' w of
             (Inl err, w1) \<Rightarrow> (Inl err, c, w1)
           | (Inr valid, w1) \<Rightarrow>
               (case (case valid of
                        Some out \<Rightarrow> (Inr out, w1)
                      | None \<Rightarrow>
                          (let outfile = cachePath c dir ''archive'';
                               w2 = os_RemoveAllFile env outfile w1
                           in case run_go_build env outfile dir w2 of
                                (out, True, w3) \<Rightarrow> (Inl (Errorf ''go build'' ExitError), w3)
                              | (out, False, w3) \<Rightarrow>
                                  (case computePkgInfo env outfile w3 of
                                     (Inl perr, w4) \<Rightarrow> (Inl perr, w4)
                                   | (Inr payload, w4) \<Rightarrow>
                                       (case WriteCache env c dir ''build'' payload w4 of
                                          (Some e, w5) \<Rightarrow> (Inl (Errorf ''writing cache'' e), w5)
                                        | (None, w5) \<Rightarrow>
                                            (Inr payload, os_Remove env outfile w5))))) of
                  (Inl err, w') \<Rightarrow> (Inl err, c, w')
                | (Inr out, w') \<Rightarrow>
                    (case Sscanf_d_d out of
                       ((n, err), (sz, nf)) \<Rightarrow>
                         if err \<noteq> None \<or> n \<noteq> 2
                         then (Inl (Errorf ''interpreting pksize'' (ScanError n err)), c, w')
                         else (let pi = \<lparr>Size = sz, NumFuncs = nf\<rparr>
                               in (Inr pi, c\<lparr>pkgsizecache := (pkgsizecache c)(dir \<mapsto> pi)\<rparr>, w'))))))"


text \<open>
  Short names for the token file, for the pair of hashes as \<^verbatim>\<open>checkValid\<close> expects it, and
  for what \<^verbatim>\<open>checkValid\<close> reads of the token file when the read does not fail (nothing, when
  the file is not there).
\<close>

abbreviation token_file :: "Cache \<Rightarrow> path" where
  "token_file c \<equiv> (root c, glopath)"

abbreviation hash_pair :: "Cache \<Rightarrow> string" where
  "hash_pair c \<equiv> repohash c @ '' '' @ goroothash c"

abbreviation token_read :: "Cache \<Rightarrow> world \<Rightarrow> string" where
  "token_read c w \<equiv> (case read_file w (root c, glopath) of None \<Rightarrow> [] | Some b \<Rightarrow> b)"

text \<open>The first bytes of the encodings of white space.\<close>

definition space_starts :: "char list" where
  "space_starts = [CHR 0x09, CHR 0x0A, CHR 0x0B, CHR 0x0C, CHR 0x0D, CHR 0x20,
     CHR 0xC2, CHR 0xE1, CHR 0xE2, CHR 0xE3]"

section \<open>An environment to run the cache in\<close>

text \<open>
  The cache of the repository's tests (\<^verbatim>\<open>Make("xyz", "def", cachedir, 3)\<close>), an environment
  where no call of package \<^verbatim>\<open>os\<close> fails and the commands answer for the package \<^verbatim>\<open>io\<close>
  only, and a file system with nothing in it.
\<close>

definition example_cache :: Cache where
  "example_cache =
     \<lparr>listcache = Map.empty, pkgsizecache = Map.empty, root = ''cachedir'',
      repohash = ''xyz'', goroothash = ''def'', vlevel = 3\<rparr>"

definition io_pkg :: Pkg where
  "io_pkg = \<lparr>Standard = True, ImportPath = ''io'', Root = ''/go'', Imports = [''errors'', ''sync'']\<rparr>"

definition example_env :: env where
  "example_env =
     \<lparr>os_fault = (\<lambda>t e. False),
      go_list = (\<lambda>tgt dir. if tgt = ''io'' then Some ''{io}'' else None),
      go_build = (\<lambda>outfile dir. if dir = ''io'' then ([], True, Some ''!<arch>'') else (''no package'', False, None)),
      go_nm = (\<lambda>apath. Some (''  1f T io.Copy'' @ [CHR 0x0A] @ ''     U io.EOF'' @ [CHR 0x0A] @ ''  2f T io.ReadAll'' @ [CHR 0x0A])),
      json_Unmarshal = (\<lambda>out. if out = ''{io}'' then Some io_pkg else None)\<rparr>"

definition example_world :: world where
  "example_world = \<lparr>fs = Map.empty, trace = []\<rparr>"

text \<open>
  A cache directory left by another revision of the tree, with one entry; a cache whose two
  hashes are empty; and a cache directory as that cache leaves it.
\<close>

definition stale_world :: world where
  "stale_world =
     \<lparr>fs = [''cachedir'' \<mapsto> [''=glo='' \<mapsto> ''abc def'' @ [CHR 0x0A], ''io.list'' \<mapsto> ''{io}'']],
      trace = []\<rparr>"

definition empty_hash_cache :: Cache where
  "empty_hash_cache = example_cache\<lparr>repohash := [], goroothash := []\<rparr>"

definition blank_world :: world where
  "blank_world =
     \<lparr>fs = [''cachedir'' \<mapsto> [''=glo='' \<mapsto> '' '' @ [CHR 0x0A], ''io.list'' \<mapsto> ''{io}'']],
      trace = []\<rparr>"

text \<open>
  A cache directory of the current revision that holds a built artifact, and one that holds
  a size entry with three integers.
\<close>

definition built_world :: world where
  "built_world =
     \<lparr>fs = [''cachedir'' \<mapsto> [''=glo='' \<mapsto> ''xyz def'' @ [CHR 0x0A], ''io.archive'' \<mapsto> ''!<arch>'']],
      trace = []\<rparr>"


text \<open>
  A cache directory of the current revision with no entry, and an environment where every
  \<^verbatim>\<open>os.WriteFile\<close> fails.
\<close>

definition fresh_world :: world where
  "fresh_world = \<lparr>fs = [''cachedir'' \<mapsto> [''=glo='' \<mapsto> ''xyz def'' @ [CHR 0x0A]]], trace = []\<rparr>"

definition write_fails_env :: env where
  "write_fails_env =
     example_env\<lparr>os_fault := (\<lambda>t e. case e of EvWriteFile p \<Rightarrow> True | _ \<Rightarrow> False)\<rparr>"

text \<open>An environment where the external commands fail.\<close>

definition offline_env :: env where
  "offline_env =
     example_env\<lparr>go_list := (\<lambda>tgt dir. None),
                 go_build := (\<lambda>outfile dir. (''go: no network'', False, None))\<rparr>"

text \<open>
  A cache directory of the current revision whose two entries for \<^verbatim>\<open>io\<close> do not decode, one
  left by another revision with such an entry, and an environment where \<^verbatim>\<open>go tool nm\<close>
  fails.
\<close>

definition corrupt_world :: world where
  "corrupt_world =
     \<lparr>fs = [''cachedir'' \<mapsto> [''=glo='' \<mapsto> ''xyz def'' @ [CHR 0x0A], ''io.list'' \<mapsto> ''{io'',
              ''io.build'' \<mapsto> ''7'']],
      trace = []\<rparr>"

definition corrupt_stale_world :: world where
  "corrupt_stale_world =
     \<lparr>fs = [''cachedir'' \<mapsto> [''=glo='' \<mapsto> ''abc def'' @ [CHR 0x0A], ''io.list'' \<mapsto> ''{io'']],
      trace = []\<rparr>"

definition nm_fails_env :: env where
  "nm_fails_env = example_env\<lparr>go_nm := (\<lambda>apath. None)\<rparr>"

text \<open>
  The cache object that \<^verbatim>\<open>Make\<close> builds: the two mappings are empty.
\<close>

abbreviation new_cache :: "string \<Rightarrow> string \<Rightarrow> string \<Rightarrow> int \<Rightarrow> Cache" where
  "new_cache rhash ghash rootcachedir verblevel \<equiv>
     \<lparr>listcache = Map.empty, pkgsizecache = Map.empty, root = rootcachedir,
      repohash = rhash, goroothash = ghash, vlevel = verblevel\<rparr>"

text \<open>
  Two processes with an empty pair of hashes on the same cache directory: the first one
  asks for the package \<^verbatim>\<open>io\<close>, the second one is made on what the first one left.
\<close>

definition first_process :: "(error + Pkg) \<times> Cache \<times> world" where
  "first_process =
     GoList example_env empty_hash_cache ''io''
       (snd (Make example_env [] [] ''cachedir'' 3 example_world))"

definition second_process :: "(error + Cache) \<times> world" where
  "second_process = Make offline_env [] [] ''cachedir'' 3 (snd (snd first_process))"

section \<open>Entry names\<close>

lemma ReplaceAll_inj:
  "new \<notin> set x \<Longrightarrow> new \<notin> set y \<Longrightarrow> ReplaceAll x old new = ReplaceAll y old new \<Longrightarrow> x = y"
proof (induction x arbitrary: y)
  case Nil
  then show ?case by (simp add: ReplaceAll_def)
next
  case (Cons a x)
  then obtain b y' where y: "y = b # y'" by (cases y) (auto simp: ReplaceAll_def)
  with Cons.prems have "ReplaceAll x old new = ReplaceAll y' old new" and ab: "a = b"
    by (auto simp: ReplaceAll_def split: if_splits)
  with Cons y show ?case by simp
qed

text \<open>
  C8, as the code has it. Replacing every \<^verbatim>\<open>/\<close> by \<^verbatim>\<open>%\<close> is one-to-one on the identifiers
  that hold no \<^verbatim>\<open>%\<close>: two distinct identifiers without \<^verbatim>\<open>%\<close> get distinct entry names
  for the same query kind.
\<close>

theorem cachePath_one_to_one:
  "CHR ''%'' \<notin> set x \<Longrightarrow> CHR ''%'' \<notin> set y \<Longrightarrow> x \<noteq> y \<Longrightarrow>
     cachePath c x tag \<noteq> cachePath c y tag"
  by (auto simp: cachePath_def dest: ReplaceAll_inj)

theorem cachePath_one_to_one_witness:
  "CHR ''%'' \<notin> set ''a/b'' \<and> CHR ''%'' \<notin> set ''a/c'' \<and> ''a/b'' \<noteq> ''a/c'' \<and>
   cachePath example_cache ''a/b'' ''list'' \<noteq> cachePath example_cache ''a/c'' ''list''"
  using cachePath_one_to_one [of "''a/b''" "''a/c''" example_cache "''list''"] by simp

text \<open>
  C8 as stated fails: the identifiers \<^verbatim>\<open>a/b\<close> and \<^verbatim>\<open>a%b\<close> are distinct and get the same
  entry name.
\<close>

theorem cachePath_collision:
  "''a/b'' \<noteq> ''a%b'' \<and>
   cachePath example_cache ''a/b'' ''list'' = cachePath example_cache ''a%b'' ''list''"
  by (simp add: cachePath_def ReplaceAll_def)

section \<open>The special case of \<^verbatim>\<open>PkgSize\<close>\<close>

text \<open>
  C5. \<^verbatim>\<open>PkgSize("unsafe")\<close> returns \<^verbatim>\<open>{Size: 1, NumFuncs: 0}\<close> in every environment and
  every state of the cache: the cache object (its two mappings) and the world (the file
  system and the trace of calls of package \<^verbatim>\<open>os\<close> and of external commands) are returned
  as they were.
\<close>

theorem PkgSize_unsafe:
  "PkgSize env c ''unsafe'' w = (Inr \<lparr>Size = 1, NumFuncs = 0\<rparr>, c, w)"
  by (simp add: PkgSize_def)

theorem PkgSize_unsafe_witness:
  "PkgSize example_env example_cache ''unsafe'' example_world =
     (Inr \<lparr>Size = 1, NumFuncs = 0\<rparr>, example_cache, example_world)"
  by (rule PkgSize_unsafe)


section \<open>Trimming twice\<close>

text \<open>
  What \<^verbatim>\<open>strings.TrimSpace\<close> returns has no white space at either end, so trimming it
  again changes nothing: a string that trimming changes is the trimmed form of no string.
\<close>

declare TrimLeftSpace.simps [simp del] TrimRightSpace.simps [simp del]

lemma leading_space_TrimLeftSpace: "leading_space (TrimLeftSpace s) = None"
proof (induction s rule: TrimLeftSpace.induct)
  case (1 s)
  then show ?case
    by (cases "leading_space s") (simp_all add: TrimLeftSpace.simps [of s])
qed

lemma TrimLeftSpace_id: "leading_space s = None \<Longrightarrow> TrimLeftSpace s = s"
  by (simp add: TrimLeftSpace.simps [of s])

lemma trailing_space_TrimRightSpace: "trailing_space (TrimRightSpace s) = None"
proof (induction s rule: TrimRightSpace.induct)
  case (1 s)
  then show ?case
    by (cases "trailing_space s") (simp_all add: TrimRightSpace.simps [of s])
qed

lemma TrimRightSpace_id: "trailing_space s = None \<Longrightarrow> TrimRightSpace s = s"
  by (simp add: TrimRightSpace.simps [of s])

lemma trailing_space_take: "trailing_space s = Some r \<Longrightarrow> \<exists>k. r = take k s"
  by (auto simp: trailing_space_def split: option.splits)

lemma TrimRightSpace_take: "\<exists>k. TrimRightSpace s = take k s"
proof (induction s rule: TrimRightSpace.induct)
  case (1 s)
  show ?case
  proof (cases "trailing_space s")
    case None
    then have "TrimRightSpace s = take (length s) s" by (simp add: TrimRightSpace_id)
    then show ?thesis by blast
  next
    case (Some r)
    with 1 obtain k where k: "TrimRightSpace r = take k r" by blast
    from Some obtain j where "r = take j s" using trailing_space_take by blast
    with k Some have "TrimRightSpace s = take (min k j) s"
      by (simp add: TrimRightSpace.simps [of s] min.commute)
    then show ?thesis by blast
  qed
qed

lemma leading_space_take:
  assumes "leading_space s = None"
  shows "leading_space (take k s) = None"
proof (cases "find (\<lambda>t. take (length t) (take k s) = t) space_runes")
  case None
  then show ?thesis by (simp only: leading_space_def option.case)
next
  case (Some t)
  then have t: "t \<in> set space_runes" and tk: "take (length t) (take k s) = t"
    unfolding find_Some_iff by (metis nth_mem)+
  have "length (take (length t) (take k s)) = min (length t) (min k (length s))"
    by simp
  with tk have "length t \<le> k" by simp
  with tk have "take (length t) s = t" by (simp add: min_absorb1)
  with t have "find (\<lambda>t. take (length t) s = t) space_runes \<noteq> None"
    by (auto simp: find_None_iff)
  with assms show ?thesis by (simp add: leading_space_def split: option.splits)
qed

lemma TrimSpace_idem: "TrimSpace (TrimSpace s) = TrimSpace s"
proof -
  obtain k where k: "TrimRightSpace (TrimLeftSpace s) = take k (TrimLeftSpace s)"
    using TrimRightSpace_take by blast
  have "leading_space (TrimSpace s) = None"
    unfolding TrimSpace_def k by (rule leading_space_take) (rule leading_space_TrimLeftSpace)
  then have "TrimLeftSpace (TrimSpace s) = TrimSpace s" by (rule TrimLeftSpace_id)
  moreover have "TrimRightSpace (TrimSpace s) = TrimSpace s"
    unfolding TrimSpace_def by (rule TrimRightSpace_id) (rule trailing_space_TrimRightSpace)
  ultimately show ?thesis by (simp add: TrimSpace_def)
qed

lemma TrimSpace_neq:
  "want \<noteq> TrimSpace want \<Longrightarrow> TrimSpace contents \<noteq> want"
  using TrimSpace_idem [of contents] by auto



section \<open>The file system under the calls of the cache\<close>

lemmas os_defs = os_Mkdir_def os_ReadFile_def os_RemoveAll_def os_RemoveAllFile_def os_Remove_def
  os_OpenFile_def os_Fprintf_def os_Close_def os_WriteFile_def os_Stat_def

lemma fs_emit [simp]: "fs (emit e w) = fs w"
  and trace_emit [simp]: "trace (emit e w) = trace w @ [e]"
  by (simp_all add: emit_def)

lemma trace_put_file [simp]: "trace (put_file p b w) = trace w"
  and trace_del_file [simp]: "trace (del_file p w) = trace w"
  by (simp_all add: put_file_def del_file_def split: option.splits)

lemma read_file_emit [simp]: "read_file (emit e w) p = read_file w p"
  by (simp add: read_file_def)

lemma read_file_put_file [simp]:
  "read_file (put_file p b w) q =
     (if q = p \<and> fs w (fst p) \<noteq> None then Some b else read_file w q)"
  by (cases p; cases q) (auto simp: read_file_def put_file_def split: option.splits)

lemma read_file_del_file [simp]:
  "read_file (del_file p w) q = (if q = p then None else read_file w q)"
  by (cases p; cases q) (auto simp: read_file_def del_file_def split: option.splits)

lemma dir_put_file [simp]: "(fs (put_file p b w) d = None) = (fs w d = None)"
  and dir_del_file [simp]: "(fs (del_file p w) d = None) = (fs w d = None)"
  by (auto simp: put_file_def del_file_def split: option.splits)

lemma read_file_dir: "read_file w p = Some b \<Longrightarrow> fs w (fst p) \<noteq> None"
  by (auto simp: read_file_def split: option.splits)

lemma cachePath_root [simp]: "fst (cachePath c dir tag) = root c"
  by (simp add: cachePath_def)

lemma cachePath_not_token [simp]: "cachePath c dir tag \<noteq> (d, glopath)"
proof
  assume "cachePath c dir tag = (d, glopath)"
  then have "ReplaceAll dir CHR ''/'' CHR ''%'' @ ''.'' @ tag = ''=glo=''"
    by (simp add: cachePath_def glopath_def)
  then have "CHR ''.'' \<in> set ''=glo=''"
    by (metis append_Cons in_set_conv_decomp)
  then show False by simp
qed

lemma cachePath_tags [simp]:
  "(cachePath c dir tag = cachePath c dir tag') = (tag = tag')"
  by (simp add: cachePath_def)

text \<open>What a validity check that returns no error has done.\<close>

lemma checkValid_fault:
  "os_fault env (trace w) (EvReadFile (token_file c)) \<Longrightarrow>
   checkValid env c w = (Some (OsError ErrOther), emit (EvReadFile (token_file c)) w)"
  by (simp add: checkValid_def os_ReadFile_def)

lemma checkValid_trusted:
  "\<not> os_fault env (trace w) (EvReadFile (token_file c)) \<Longrightarrow>
   TrimSpace (token_read c w) = hash_pair c \<Longrightarrow>
   checkValid env c w = (None, emit (EvReadFile (token_file c)) w)"
  by (simp add: checkValid_def os_ReadFile_def split: option.splits)

lemma checkValid_wipes:
  assumes "\<not> os_fault env (trace w) (EvReadFile (token_file c))"
    and "TrimSpace (token_read c w) \<noteq> hash_pair c"
    and "checkValid env c w = (None, w')"
  shows "fs w' = (fs w)(root c \<mapsto> [glopath \<mapsto> hash_pair c @ [CHR 0x0A]])"
    and "trace w' = trace w @
       [EvReadFile (token_file c), EvRemoveAll (root c), EvMkdir (root c),
        EvOpenFile (token_file c), EvFprintf (token_file c), EvClose (token_file c)]"
  using assms
  by (auto simp: checkValid_def writeToken_def os_defs emit_def put_file_def Let_def
      split: option.splits if_splits prod.splits)

lemma checkValid_no_fault:
  "(\<forall>t e. \<not> os_fault env t e) \<Longrightarrow> fst (checkValid env c w) = None"
  by (auto simp: checkValid_def writeToken_def os_defs emit_def put_file_def Let_def
      split: option.splits if_splits prod.splits)

lemma checkValid_ok_cases:
  assumes "checkValid env c w = (None, w')"
  obtains (trusted) "TrimSpace (token_read c w) = hash_pair c"
      "w' = emit (EvReadFile (token_file c)) w"
      "\<not> os_fault env (trace w) (EvReadFile (token_file c))"
  | (wiped) "TrimSpace (token_read c w) \<noteq> hash_pair c"
      "fs w' = (fs w)(root c \<mapsto> [glopath \<mapsto> hash_pair c @ [CHR 0x0A]])"
      "trace w' = trace w @
       [EvReadFile (token_file c), EvRemoveAll (root c), EvMkdir (root c),
        EvOpenFile (token_file c), EvFprintf (token_file c), EvClose (token_file c)]"
proof (cases "os_fault env (trace w) (EvReadFile (token_file c))")
  case True
  with assms show ?thesis by (simp add: checkValid_fault)
next
  case False
  show ?thesis
  proof (cases "TrimSpace (token_read c w) = hash_pair c")
    case True
    with False assms trusted show ?thesis by (simp add: checkValid_trusted)
  next
    case ne: False
    with False assms wiped show ?thesis using checkValid_wipes by blast
  qed
qed

text \<open>Whatever it returns, a validity check creates no entry and changes none.\<close>

lemma checkValid_entry:
  assumes "checkValid env c w = (r, w')" and "name \<noteq> glopath"
  shows "read_file w' (root c, name) = None \<or> fs w' = fs w"
  using assms
  by (auto simp: checkValid_def writeToken_def os_defs emit_def put_file_def read_file_def Let_def
      split: option.splits if_splits prod.splits)

lemmas TrimSpace_eval = TrimSpace_def TrimLeftSpace.simps TrimRightSpace.simps
  leading_space_def trailing_space_def space_runes_def

section \<open>The validity check\<close>

lemma tryCache_checks_first:
  "checkValid env c w = (Some e, w1) \<Longrightarrow>
   tryCache env c dir tag w = (Inl (Errorf ''problems reading cache'' e), w1)"
  by (simp add: tryCache_def)

text \<open>
  C2. The validity check reads the token file and compares its trimmed content with
  \<open>repohash + " " + goroothash\<close>. When the read fails for another reason than the file's
  absence, the error is returned and nothing is changed. When the two are equal, the file
  system is left as it is: the read is the only call. When they differ and the check returns
  no error, the cache directory has been removed, made again and holds the token file alone,
  with the current pair of hashes and a newline: every entry is gone. Without a failing call
  the check returns no error. \<^verbatim>\<open>tryCache\<close> runs the check before it reads an entry: an
  error of the check is the error of \<^verbatim>\<open>tryCache\<close>.
\<close>

theorem checkValid_compares_token:
  assumes "checkValid env c w = (r, w')"
  shows "(os_fault env (trace w) (EvReadFile (token_file c)) \<longrightarrow>
            r = Some (OsError ErrOther) \<and> fs w' = fs w) \<and>
         (\<not> os_fault env (trace w) (EvReadFile (token_file c)) \<and>
          TrimSpace (token_read c w) = hash_pair c \<longrightarrow>
            r = None \<and> w' = emit (EvReadFile (token_file c)) w) \<and>
         (\<not> os_fault env (trace w) (EvReadFile (token_file c)) \<and>
          TrimSpace (token_read c w) \<noteq> hash_pair c \<and> r = None \<longrightarrow>
            fs w' = (fs w)(root c \<mapsto> [glopath \<mapsto> hash_pair c @ [CHR 0x0A]]) \<and>
            trace w' = trace w @
              [EvReadFile (token_file c), EvRemoveAll (root c), EvMkdir (root c),
               EvOpenFile (token_file c), EvFprintf (token_file c), EvClose (token_file c)]) \<and>
         ((\<forall>t e. \<not> os_fault env t e) \<longrightarrow> r = None) \<and>
         (r \<noteq> None \<longrightarrow>
            tryCache env c dir tag w = (Inl (Errorf ''problems reading cache'' (the r)), w'))"
proof (intro conjI impI)
  assume "os_fault env (trace w) (EvReadFile (token_file c))"
  with assms show "r = Some (OsError ErrOther)" and "fs w' = fs w"
    by (auto simp: checkValid_fault)
next
  assume "\<not> os_fault env (trace w) (EvReadFile (token_file c)) \<and>
    TrimSpace (token_read c w) = hash_pair c"
  with assms show "r = None" and "w' = emit (EvReadFile (token_file c)) w"
    by (simp_all add: checkValid_trusted)
next
  assume a: "\<not> os_fault env (trace w) (EvReadFile (token_file c)) \<and>
    TrimSpace (token_read c w) \<noteq> hash_pair c \<and> r = None"
  with assms have cv: "checkValid env c w = (None, w')" by simp
  from a cv show "fs w' = (fs w)(root c \<mapsto> [glopath \<mapsto> hash_pair c @ [CHR 0x0A]])"
    by (blast intro: checkValid_wipes(1))
  from a cv show "trace w' = trace w @
      [EvReadFile (token_file c), EvRemoveAll (root c), EvMkdir (root c),
       EvOpenFile (token_file c), EvFprintf (token_file c), EvClose (token_file c)]"
    by (blast intro: checkValid_wipes(2))
next
  assume "\<forall>t e. \<not> os_fault env t e"
  then have "fst (checkValid env c w) = None" by (rule checkValid_no_fault)
  with assms show "r = None" by simp
next
  assume "r \<noteq> None"
  with assms show "tryCache env c dir tag w = (Inl (Errorf ''problems reading cache'' (the r)), w')"
    by (auto simp: tryCache_checks_first)
qed

lemma stale_world_check:
  "checkValid example_env example_cache stale_world =
     (None, \<lparr>fs = [''cachedir'' \<mapsto> [''=glo='' \<mapsto> ''xyz def'' @ [CHR 0x0A]]],
             trace = [EvReadFile (''cachedir'', ''=glo=''), EvRemoveAll ''cachedir'', EvMkdir ''cachedir'',
               EvOpenFile (''cachedir'', ''=glo=''), EvFprintf (''cachedir'', ''=glo=''),
               EvClose (''cachedir'', ''=glo='')]\<rparr>)"
  by (simp add: checkValid_def writeToken_def os_defs emit_def put_file_def read_file_def
      example_env_def example_cache_def stale_world_def glopath_def TrimSpace_eval Let_def)

theorem checkValid_compares_token_witness:
  "\<not> os_fault example_env (trace stale_world) (EvReadFile (token_file example_cache)) \<and>
   TrimSpace (token_read example_cache stale_world) \<noteq> hash_pair example_cache \<and>
   read_file stale_world (cachePath example_cache ''io'' ''list'') = Some ''{io}'' \<and>
   fst (checkValid example_env example_cache stale_world) = None \<and>
   fs (snd (checkValid example_env example_cache stale_world)) =
     (fs stale_world)(''cachedir'' \<mapsto> [''=glo='' \<mapsto> ''xyz def'' @ [CHR 0x0A]]) \<and>
   read_file (snd (checkValid example_env example_cache stale_world))
     (cachePath example_cache ''io'' ''list'') = None"
proof -
  have h1: "\<not> os_fault example_env (trace stale_world) (EvReadFile (token_file example_cache))"
    by (simp add: example_env_def)
  have h2: "TrimSpace (token_read example_cache stale_world) \<noteq> hash_pair example_cache"
    by (simp add: example_cache_def stale_world_def read_file_def glopath_def TrimSpace_eval)
  have cp: "cachePath example_cache ''io'' ''list'' = (''cachedir'', ''io.list'')"
    by (simp add: example_cache_def cachePath_def ReplaceAll_def)
  have h3: "read_file stale_world (cachePath example_cache ''io'' ''list'') = Some ''{io}''"
    by (simp add: cp stale_world_def read_file_def)
  have h4: "fst (checkValid example_env example_cache stale_world) = None"
    by (simp add: stale_world_check)
  have h5: "read_file (snd (checkValid example_env example_cache stale_world))
     (cachePath example_cache ''io'' ''list'') = None"
    by (simp add: stale_world_check cp read_file_def)
  from checkValid_compares_token
         [where env = example_env and c = example_cache and w = stale_world, OF surjective_pairing]
    h1 h2 h4
  have "fs (snd (checkValid example_env example_cache stale_world)) =
     (fs stale_world)(root example_cache \<mapsto> [glopath \<mapsto> hash_pair example_cache @ [CHR 0x0A]])"
    by blast
  then have "fs (snd (checkValid example_env example_cache stale_world)) =
     (fs stale_world)(''cachedir'' \<mapsto> [''=glo='' \<mapsto> ''xyz def'' @ [CHR 0x0A]])"
    by (simp add: example_cache_def glopath_def)
  with h1 h2 h3 h4 h5 show ?thesis by blast
qed

lemma tryCache_result:
  "tryCache env c dir tag w = (Inr v, w2) \<Longrightarrow>
   \<exists>w1. checkValid env c w = (None, w1) \<and> v = read_file w1 (cachePath c dir tag) \<and>
        w2 = emit (EvReadFile (cachePath c dir tag)) w1 \<and>
        \<not> os_fault env (trace w1) (EvReadFile (cachePath c dir tag))"
  by (auto simp: tryCache_def os_ReadFile_def split: prod.splits option.splits if_splits)

lemma untrimmed_never_hit:
  assumes u: "hash_pair c \<noteq> TrimSpace (hash_pair c)"
  shows "fst (tryCache env c dir tag w) \<noteq> Inr (Some out)"
proof
  assume "fst (tryCache env c dir tag w) = Inr (Some out)"
  then obtain w2 where "tryCache env c dir tag w = (Inr (Some out), w2)"
    by (metis prod.collapse)
  then obtain w1 where cv: "checkValid env c w = (None, w1)"
    and rd: "Some out = read_file w1 (cachePath c dir tag)"
    using tryCache_result by blast
  from u have ne: "TrimSpace (token_read c w) \<noteq> hash_pair c" by (rule TrimSpace_neq)
  from cv ne have "fs w1 = (fs w)(root c \<mapsto> [glopath \<mapsto> hash_pair c @ [CHR 0x0A]])"
    by (cases rule: checkValid_ok_cases) simp_all
  then have "read_file w1 (cachePath c dir tag) = None"
    using cachePath_not_token [of c dir tag "root c"]
    by (cases "cachePath c dir tag") (auto simp: read_file_def cachePath_def)
  with rd show False by simp
qed

lemma Make_ok:
  "Make env rh gh rt v w = (Inr c, w') \<Longrightarrow>
   c = \<lparr>listcache = Map.empty, pkgsizecache = Map.empty, root = rt, repohash = rh,
        goroothash = gh, vlevel = v\<rparr> \<and>
   checkValid env c (snd (os_Mkdir env rt w)) = (None, w')"
  by (auto simp: Make_def Let_def split: prod.splits option.splits if_splits)

lemma fs_os_Mkdir:
  "fs (snd (os_Mkdir env d w)) = fs w \<or> fs (snd (os_Mkdir env d w)) = (fs w)(d \<mapsto> Map.empty)"
  by (simp add: os_Mkdir_def)

text \<open>
  C9. Take a cache whose \<open>repohash + " " + goroothash\<close> is not its own trimmed form (two
  empty hashes, say: a single space, which trims to nothing). A validity check that returns
  no error has then removed the cache directory, made it again and written the token,
  whatever the token file held; a second check right after the first does the same again,
  on the token the first one wrote; without a failing call the check returns no error;
  \<^verbatim>\<open>tryCache\<close> never returns an entry; and \<^verbatim>\<open>Make\<close> leaves the directory with the token file
  alone.
\<close>

theorem untrimmed_hash_pair_never_trusted:
  assumes u: "hash_pair c \<noteq> TrimSpace (hash_pair c)"
  shows "(checkValid env c w = (None, w') \<longrightarrow>
            fs w' = (fs w)(root c \<mapsto> [glopath \<mapsto> hash_pair c @ [CHR 0x0A]]) \<and>
            trace w' = trace w @
              [EvReadFile (token_file c), EvRemoveAll (root c), EvMkdir (root c),
               EvOpenFile (token_file c), EvFprintf (token_file c), EvClose (token_file c)]) \<and>
         (checkValid env c w = (None, w') \<and> checkValid env2 c w' = (None, w'') \<longrightarrow>
            fs w'' = fs w' \<and>
            trace w'' = trace w' @
              [EvReadFile (token_file c), EvRemoveAll (root c), EvMkdir (root c),
               EvOpenFile (token_file c), EvFprintf (token_file c), EvClose (token_file c)]) \<and>
         ((\<forall>t e. \<not> os_fault env t e) \<longrightarrow> fst (checkValid env c w) = None) \<and>
         fst (tryCache env c dir tag w) \<noteq> Inr (Some out) \<and>
         (Make env (repohash c) (goroothash c) (root c) v w = (Inr c2, w') \<longrightarrow>
            fs w' = (fs w)(root c \<mapsto> [glopath \<mapsto> hash_pair c @ [CHR 0x0A]]))"
proof -
  have wipe: "fs w1 = (fs w0)(root c \<mapsto> [glopath \<mapsto> hash_pair c @ [CHR 0x0A]]) \<and>
        trace w1 = trace w0 @
          [EvReadFile (token_file c), EvRemoveAll (root c), EvMkdir (root c),
           EvOpenFile (token_file c), EvFprintf (token_file c), EvClose (token_file c)]"
    if cv: "checkValid e c w0 = (None, w1)" for e w0 w1
  proof -
    from u have "TrimSpace (token_read c w0) \<noteq> hash_pair c" by (rule TrimSpace_neq)
    with cv show ?thesis by (cases rule: checkValid_ok_cases) simp_all
  qed
  have again: "fs w'' = fs w'"
    if "checkValid env c w = (None, w')" and "checkValid env2 c w' = (None, w'')"
    using wipe [OF that(1)] wipe [OF that(2)] by simp
  have mk: "fs w' = (fs w)(root c \<mapsto> [glopath \<mapsto> hash_pair c @ [CHR 0x0A]])"
    if m: "Make env (repohash c) (goroothash c) (root c) v w = (Inr c2, w')"
  proof -
    from Make_ok [OF m] have c2: "root c2 = root c" "repohash c2 = repohash c"
      "goroothash c2 = goroothash c"
      and cv: "checkValid env c2 (snd (os_Mkdir env (root c) w)) = (None, w')"
      by auto
    from u c2 have "TrimSpace (token_read c2 (snd (os_Mkdir env (root c) w))) \<noteq> hash_pair c2"
      by (simp add: TrimSpace_neq)
    with cv have "fs w' = (fs (snd (os_Mkdir env (root c) w)))
        (root c2 \<mapsto> [glopath \<mapsto> hash_pair c2 @ [CHR 0x0A]])"
      by (cases rule: checkValid_ok_cases) simp_all
    with c2 fs_os_Mkdir [of env "root c" w] show ?thesis by auto
  qed
  from wipe again mk checkValid_no_fault [of env c w] untrimmed_never_hit [OF u, of env dir tag w out]
  show ?thesis by blast
qed

lemma blank_world_check:
  "checkValid example_env empty_hash_cache blank_world =
     (None, \<lparr>fs = [''cachedir'' \<mapsto> [''=glo='' \<mapsto> '' '' @ [CHR 0x0A]]],
             trace = [EvReadFile (''cachedir'', ''=glo=''), EvRemoveAll ''cachedir'', EvMkdir ''cachedir'',
               EvOpenFile (''cachedir'', ''=glo=''), EvFprintf (''cachedir'', ''=glo=''),
               EvClose (''cachedir'', ''=glo='')]\<rparr>)"
  by (simp add: checkValid_def writeToken_def os_defs emit_def put_file_def read_file_def
      example_env_def example_cache_def empty_hash_cache_def blank_world_def glopath_def
      TrimSpace_eval Let_def)

theorem untrimmed_hash_pair_never_trusted_witness:
  "hash_pair empty_hash_cache \<noteq> TrimSpace (hash_pair empty_hash_cache) \<and>
   read_file blank_world (token_file empty_hash_cache) = Some (hash_pair empty_hash_cache @ [CHR 0x0A]) \<and>
   read_file blank_world (cachePath empty_hash_cache ''io'' ''list'') = Some ''{io}'' \<and>
   fst (checkValid example_env empty_hash_cache blank_world) = None \<and>
   trace (snd (checkValid example_env empty_hash_cache blank_world)) =
     [EvReadFile (''cachedir'', ''=glo=''), EvRemoveAll ''cachedir'', EvMkdir ''cachedir'',
      EvOpenFile (''cachedir'', ''=glo=''), EvFprintf (''cachedir'', ''=glo=''),
      EvClose (''cachedir'', ''=glo='')] \<and>
   fst (tryCache example_env empty_hash_cache ''io'' ''list'' blank_world) \<noteq> Inr (Some ''{io}'')"
proof -
  have h: "hash_pair empty_hash_cache \<noteq> TrimSpace (hash_pair empty_hash_cache)"
    by (simp add: empty_hash_cache_def example_cache_def TrimSpace_eval)
  have t: "read_file blank_world (token_file empty_hash_cache) =
      Some (hash_pair empty_hash_cache @ [CHR 0x0A])"
    by (simp add: empty_hash_cache_def example_cache_def blank_world_def read_file_def glopath_def)
  have cp: "cachePath empty_hash_cache ''io'' ''list'' = (''cachedir'', ''io.list'')"
    by (simp add: empty_hash_cache_def example_cache_def cachePath_def ReplaceAll_def)
  have e: "read_file blank_world (cachePath empty_hash_cache ''io'' ''list'') = Some ''{io}''"
    by (simp add: cp blank_world_def read_file_def)
  have r: "fst (checkValid example_env empty_hash_cache blank_world) = None"
    by (simp add: blank_world_check)
  have tr: "trace (snd (checkValid example_env empty_hash_cache blank_world)) =
     [EvReadFile (''cachedir'', ''=glo=''), EvRemoveAll ''cachedir'', EvMkdir ''cachedir'',
      EvOpenFile (''cachedir'', ''=glo=''), EvFprintf (''cachedir'', ''=glo=''),
      EvClose (''cachedir'', ''=glo='')]"
    by (simp add: blank_world_check)
  from untrimmed_hash_pair_never_trusted
         [OF h, where env = example_env and dir = "''io''" and tag = "''list''"
            and w = blank_world and out = "''{io}''"]
  have "fst (tryCache example_env empty_hash_cache ''io'' ''list'' blank_world) \<noteq> Inr (Some ''{io}'')"
    by blast
  with h t e r tr show ?thesis by blast
qed

section \<open>Reading an entry\<close>

lemma TrimSpace_Nil [simp]: "TrimSpace [] = []"
  by (simp add: TrimSpace_eval)

lemma read_file_fs: "fs w' = fs w \<Longrightarrow> read_file w' p = read_file w p"
  by (simp add: read_file_def)

lemma checkValid_ok_dir:
  assumes "checkValid env c w = (None, w1)"
  shows "fs w1 (root c) \<noteq> None"
  using assms
proof (cases rule: checkValid_ok_cases)
  case trusted
  then have "token_read c w \<noteq> []" by auto
  then have "read_file w (token_file c) \<noteq> None" by (auto split: option.splits)
  with trusted show ?thesis using read_file_dir [of w "token_file c"] by auto
next
  case wiped
  then show ?thesis by simp
qed

lemma tryCache_hit:
  assumes "tryCache env c dir tag w = (Inr (Some out), w2)"
  shows "TrimSpace (token_read c w) = hash_pair c"
    and "read_file w (cachePath c dir tag) = Some out"
    and "w2 = emit (EvReadFile (cachePath c dir tag)) (emit (EvReadFile (token_file c)) w)"
proof -
  from assms obtain w1 where cv: "checkValid env c w = (None, w1)"
    and rd: "Some out = read_file w1 (cachePath c dir tag)"
    and w2: "w2 = emit (EvReadFile (cachePath c dir tag)) w1"
    using tryCache_result by blast
  have "TrimSpace (token_read c w) = hash_pair c \<and> w1 = emit (EvReadFile (token_file c)) w"
    using cv
  proof (cases rule: checkValid_ok_cases)
    case trusted
    then show ?thesis by simp
  next
    case wiped
    then have "read_file w1 (cachePath c dir tag) = None"
      using cachePath_not_token [of c dir tag "root c"]
      by (cases "cachePath c dir tag") (auto simp: read_file_def cachePath_def)
    with rd show ?thesis by simp
  qed
  with rd w2 show "TrimSpace (token_read c w) = hash_pair c"
    and "read_file w (cachePath c dir tag) = Some out"
    and "w2 = emit (EvReadFile (cachePath c dir tag)) (emit (EvReadFile (token_file c)) w)"
    by simp_all
qed

lemma tryCache_trusted:
  assumes "\<not> os_fault env (trace w) (EvReadFile (token_file c))"
    and "TrimSpace (token_read c w) = hash_pair c"
    and "\<not> os_fault env (trace w @ [EvReadFile (token_file c)]) (EvReadFile (cachePath c dir tag))"
  shows "tryCache env c dir tag w =
     (Inr (read_file w (cachePath c dir tag)),
      emit (EvReadFile (cachePath c dir tag)) (emit (EvReadFile (token_file c)) w))"
  using assms
  by (simp add: tryCache_def checkValid_trusted os_ReadFile_def split: option.splits)

lemma tryCache_miss:
  assumes "tryCache env c dir tag w = (Inr None, w2)"
  shows "read_file w2 (cachePath c dir tag) = None" and "fs w2 (root c) \<noteq> None"
proof -
  from assms obtain w1 where cv: "checkValid env c w = (None, w1)"
    and rd: "None = read_file w1 (cachePath c dir tag)"
    and w2: "w2 = emit (EvReadFile (cachePath c dir tag)) w1"
    using tryCache_result by blast
  from rd w2 show "read_file w2 (cachePath c dir tag) = None" by simp
  from cv w2 show "fs w2 (root c) \<noteq> None" by (simp add: checkValid_ok_dir)
qed

lemma tryCache_absent:
  assumes "read_file w (cachePath c dir tag) = None"
    and "tryCache env c dir tag w = (Inr v, w2)"
  shows "v = None"
proof -
  from assms obtain w1 where cv: "checkValid env c w = (None, w1)"
    and rd: "v = read_file w1 (cachePath c dir tag)"
    using tryCache_result by blast
  obtain name where n: "cachePath c dir tag = (root c, name)"
    by (simp add: cachePath_def)
  with cachePath_not_token [of c dir tag "root c"] have "name \<noteq> glopath" by auto
  from checkValid_entry [OF cv this] n assms(1) rd read_file_fs [of w1 w "cachePath c dir tag"]
  show ?thesis by auto
qed

lemma checkValid_trace_take:
  "checkValid env c w = (r, w') \<Longrightarrow> take (length (trace w)) (trace w') = trace w"
  by (auto simp: checkValid_def writeToken_def os_defs emit_def put_file_def Let_def
      split: option.splits if_splits prod.splits)

lemma checkValid_trace:
  assumes "checkValid env c w = (r, w')"
  shows "\<exists>evs. trace w' = trace w @ evs"
  using checkValid_trace_take [OF assms] by (metis append_take_drop_id)

lemma tryCache_trace_take:
  assumes "tryCache env c dir tag w = (r, w')"
  shows "take (length (trace w)) (trace w') = trace w"
proof -
  obtain r1 w1 where cv: "checkValid env c w = (r1, w1)" by (cases "checkValid env c w")
  then obtain evs where evs: "trace w1 = trace w @ evs" using checkValid_trace by blast
  from assms cv have "w' = w1 \<or> w' = emit (EvReadFile (cachePath c dir tag)) w1"
    by (cases r1) (auto simp: tryCache_def os_ReadFile_def split: option.splits if_splits)
  with evs show ?thesis by auto
qed

lemma tryCache_trace:
  assumes "tryCache env c dir tag w = (r, w')"
  shows "\<exists>evs. trace w' = trace w @ evs"
  using tryCache_trace_take [OF assms] by (metis append_take_drop_id)

lemma cachePath_update [simp]:
  "cachePath (c\<lparr>listcache := m\<rparr>) dir tag = cachePath c dir tag"
  "cachePath (c\<lparr>pkgsizecache := n\<rparr>) dir tag = cachePath c dir tag"
  by (simp_all add: cachePath_def)

lemma WriteCache_update [simp]:
  "WriteCache env (c\<lparr>listcache := m\<rparr>) dir tag b w = WriteCache env c dir tag b w"
  by (simp add: WriteCache_def)

section \<open>Digits and white space\<close>

declare Fields.simps [simp del] SkipSpace.simps [simp del] skip_blanks.simps [simp del]
  digits_of.simps [simp del]

lemma leading_space_Cons_None:
  "x \<notin> set space_starts \<Longrightarrow> leading_space (x # xs) = None"
  by (simp add: leading_space_def space_runes_def space_starts_def)

lemma leading_space_ascii:
  "leading_space (CHR 0x09 # xs) = Some xs" "leading_space (CHR 0x0A # xs) = Some xs"
  "leading_space (CHR 0x0B # xs) = Some xs" "leading_space (CHR 0x0C # xs) = Some xs"
  "leading_space (CHR 0x0D # xs) = Some xs" "leading_space (CHR 0x20 # xs) = Some xs"
  by (simp_all add: leading_space_def space_runes_def)

lemma leading_space_Nil [simp]: "leading_space [] = None"
  by (simp add: leading_space_def space_runes_def)


lemma digit_char_eval:
  "digit_char 0 = CHR ''0''" "digit_char 1 = CHR ''1''" "digit_char 2 = CHR ''2''"
  "digit_char 3 = CHR ''3''" "digit_char 4 = CHR ''4''" "digit_char 5 = CHR ''5''"
  "digit_char 6 = CHR ''6''" "digit_char 7 = CHR ''7''" "digit_char 8 = CHR ''8''"
  "digit_char 9 = CHR ''9''" "digit_char (Suc 0) = CHR ''1''"
  by (simp_all add: digit_char_def char_of_eq_iff)














section \<open>Scanning what was printed\<close>

lemma SkipSpace_Nil [simp]: "SkipSpace [] = Inr []"
  by (simp add: SkipSpace.simps)
















section \<open>The size payload\<close>

lemmas space_eval = leading_space_Cons_None leading_space_ascii space_starts_def

lemmas scan_eval = Sscanf_d_d_def verb_d_def scanInt_def SkipSpace.simps skip_blanks.simps
  format_space_def ParseInt_def decimal_def digit_val_def is_digit_def space_eval

lemmas fmt_eval = fmt_d_def digits_of.simps digit_char_eval

lemmas run_defs = checkValid_def writeToken_def tryCache_def WriteCache_def goListUncached_def
  GoList_def computePkgInfo_def PkgSize_def Make_def run_go_build_def cachePath_def ReplaceAll_def
  os_defs emit_def put_file_def del_file_def read_file_def glopath_def Let_def

lemmas example_defs = example_env_def example_cache_def example_world_def io_pkg_def






section \<open>A run on a fresh cache directory\<close>

lemmas cache_eval = run_defs example_defs TrimSpace_eval

lemma example_cache_empty:
  "listcache example_cache dir = None" "pkgsizecache example_cache dir = None"
  by (simp_all add: example_cache_def)

lemma example_paths:
  "cachePath example_cache ''io'' ''list'' = (''cachedir'', ''io.list'')"
  "cachePath example_cache ''io'' ''build'' = (''cachedir'', ''io.build'')"
  "cachePath example_cache ''io'' ''archive'' = (''cachedir'', ''io.archive'')"
  by (simp_all add: cachePath_def ReplaceAll_def example_cache_def)

lemma fresh_tryCache:
  "tryCache write_fails_env example_cache ''io'' ''list'' fresh_world =
    (Inr None, \<lparr>fs = [''cachedir'' \<mapsto> [''=glo='' \<mapsto> ''xyz def'' @ [CHR 0x0A]]],
       trace = [EvReadFile (''cachedir'', ''=glo=''), EvReadFile (''cachedir'', ''io.list'')]\<rparr>)"
  "tryCache write_fails_env example_cache ''io'' ''build'' fresh_world =
    (Inr None, \<lparr>fs = [''cachedir'' \<mapsto> [''=glo='' \<mapsto> ''xyz def'' @ [CHR 0x0A]]],
       trace = [EvReadFile (''cachedir'', ''=glo=''), EvReadFile (''cachedir'', ''io.build'')]\<rparr>)"
  "tryCache example_env example_cache ''io'' ''build'' fresh_world =
    (Inr None, \<lparr>fs = [''cachedir'' \<mapsto> [''=glo='' \<mapsto> ''xyz def'' @ [CHR 0x0A]]],
       trace = [EvReadFile (''cachedir'', ''=glo=''), EvReadFile (''cachedir'', ''io.build'')]\<rparr>)"
  by (simp_all add: cache_eval write_fails_env_def fresh_world_def)

lemma fresh_build:
  "run_go_build write_fails_env (''cachedir'', ''io.archive'') ''io''
     (os_RemoveAllFile write_fails_env (''cachedir'', ''io.archive'')
       \<lparr>fs = [''cachedir'' \<mapsto> [''=glo='' \<mapsto> ''xyz def'' @ [CHR 0x0A]]],
        trace = [EvReadFile (''cachedir'', ''=glo=''), EvReadFile (''cachedir'', ''io.build'')]\<rparr>) =
    ([], False,
     \<lparr>fs = [''cachedir'' \<mapsto> [''=glo='' \<mapsto> ''xyz def'' @ [CHR 0x0A], ''io.archive'' \<mapsto> ''!<arch>'']],
      trace = [EvReadFile (''cachedir'', ''=glo=''), EvReadFile (''cachedir'', ''io.build''),
        EvRemoveAllFile (''cachedir'', ''io.archive''),
        EvGoBuild (''cachedir'', ''io.archive'') ''io'']\<rparr>)"
  "run_go_build example_env (''cachedir'', ''io.archive'') ''io''
     (os_RemoveAllFile example_env (''cachedir'', ''io.archive'')
       \<lparr>fs = [''cachedir'' \<mapsto> [''=glo='' \<mapsto> ''xyz def'' @ [CHR 0x0A]]],
        trace = [EvReadFile (''cachedir'', ''=glo=''), EvReadFile (''cachedir'', ''io.build'')]\<rparr>) =
    ([], False,
     \<lparr>fs = [''cachedir'' \<mapsto> [''=glo='' \<mapsto> ''xyz def'' @ [CHR 0x0A], ''io.archive'' \<mapsto> ''!<arch>'']],
      trace = [EvReadFile (''cachedir'', ''=glo=''), EvReadFile (''cachedir'', ''io.build''),
        EvRemoveAllFile (''cachedir'', ''io.archive''),
        EvGoBuild (''cachedir'', ''io.archive'') ''io'']\<rparr>)"
  by (simp_all add: cache_eval write_fails_env_def)

lemma fresh_payload:
  "computePkgInfo write_fails_env (''cachedir'', ''io.archive'')
     \<lparr>fs = [''cachedir'' \<mapsto> [''=glo='' \<mapsto> ''xyz def'' @ [CHR 0x0A], ''io.archive'' \<mapsto> ''!<arch>'']],
      trace = [EvReadFile (''cachedir'', ''=glo=''), EvReadFile (''cachedir'', ''io.build''),
        EvRemoveAllFile (''cachedir'', ''io.archive''),
        EvGoBuild (''cachedir'', ''io.archive'') ''io'']\<rparr> =
    (Inr (''7 2'' @ [CHR 0x0A]),
     \<lparr>fs = [''cachedir'' \<mapsto> [''=glo='' \<mapsto> ''xyz def'' @ [CHR 0x0A], ''io.archive'' \<mapsto> ''!<arch>'']],
      trace = [EvReadFile (''cachedir'', ''=glo=''), EvReadFile (''cachedir'', ''io.build''),
        EvRemoveAllFile (''cachedir'', ''io.archive''),
        EvGoBuild (''cachedir'', ''io.archive'') ''io'',
        EvStat (''cachedir'', ''io.archive''), EvGoNm (''cachedir'', ''io.archive'')]\<rparr>)"
  "computePkgInfo example_env (''cachedir'', ''io.archive'')
     \<lparr>fs = [''cachedir'' \<mapsto> [''=glo='' \<mapsto> ''xyz def'' @ [CHR 0x0A], ''io.archive'' \<mapsto> ''!<arch>'']],
      trace = [EvReadFile (''cachedir'', ''=glo=''), EvReadFile (''cachedir'', ''io.build''),
        EvRemoveAllFile (''cachedir'', ''io.archive''),
        EvGoBuild (''cachedir'', ''io.archive'') ''io'']\<rparr> =
    (Inr (''7 2'' @ [CHR 0x0A]),
     \<lparr>fs = [''cachedir'' \<mapsto> [''=glo='' \<mapsto> ''xyz def'' @ [CHR 0x0A], ''io.archive'' \<mapsto> ''!<arch>'']],
      trace = [EvReadFile (''cachedir'', ''=glo=''), EvReadFile (''cachedir'', ''io.build''),
        EvRemoveAllFile (''cachedir'', ''io.archive''),
        EvGoBuild (''cachedir'', ''io.archive'') ''io'',
        EvStat (''cachedir'', ''io.archive''), EvGoNm (''cachedir'', ''io.archive'')]\<rparr>)"
  by (simp_all add: computePkgInfo_def os_defs emit_def read_file_def example_env_def write_fails_env_def
      count_funcs_def Fields.simps space_eval fmt_eval Let_def)

section \<open>Memory and disk on a miss\<close>

text \<open>
  C10. On a miss \<^verbatim>\<open>GoList\<close> stores the package in its mapping before it writes the entry:
  when the write fails, \<^verbatim>\<open>GoList\<close> returns the error and the mapping holds the package, so
  the next \<^verbatim>\<open>GoList\<close> of the identifier returns it from memory, in any environment and
  with no call at all. \<^verbatim>\<open>PkgSize\<close> writes first: when the write fails it returns the error
  and the cache object is as it was; its mapping is extended when the write and the
  decoding of the payload have succeeded.
\<close>

theorem GoList_memory_before_disk:
  "(listcache c dir = None \<and> tryCache env c dir ''list'' w = (Inr None, wm) \<and>
    go_list env dir [] = Some out \<and> json_Unmarshal env out = Some pk \<and>
    WriteCache env c dir ''list'' out (emit (EvGoList dir []) wm) = (Some e, ww) \<longrightarrow>
      GoList env c dir w =
        (Inl (Errorf ''writing cache'' e), c\<lparr>listcache := (listcache c)(dir \<mapsto> pk)\<rparr>, ww) \<and>
      GoList env' (c\<lparr>listcache := (listcache c)(dir \<mapsto> pk)\<rparr>) dir w' =
        (Inr pk, c\<lparr>listcache := (listcache c)(dir \<mapsto> pk)\<rparr>, w')) \<and>
   (dir \<noteq> ''unsafe'' \<and> pkgsizecache c dir = None \<and>
    tryCache env c dir ''build'' w = (Inr None, vm) \<and>
    run_go_build env (cachePath c dir ''archive'') dir
      (os_RemoveAllFile env (cachePath c dir ''archive'') vm) = (bout, False, vb) \<and>
    computePkgInfo env (cachePath c dir ''archive'') vb = (Inr payload, vp) \<and>
    WriteCache env c dir ''build'' payload vp = (Some e', vw) \<longrightarrow>
      PkgSize env c dir w = (Inl (Errorf ''writing cache'' e'), c, vw)) \<and>
   (dir \<noteq> ''unsafe'' \<and> pkgsizecache c dir = None \<and>
    tryCache env c dir ''build'' w = (Inr None, vm) \<and>
    run_go_build env (cachePath c dir ''archive'') dir
      (os_RemoveAllFile env (cachePath c dir ''archive'') vm) = (bout, False, vb) \<and>
    computePkgInfo env (cachePath c dir ''archive'') vb = (Inr payload, vp) \<and>
    WriteCache env c dir ''build'' payload vp = (None, vw) \<and>
    Sscanf_d_d payload = ((2, None), (sz, nf)) \<longrightarrow>
      PkgSize env c dir w =
        (Inr \<lparr>Size = sz, NumFuncs = nf\<rparr>,
         c\<lparr>pkgsizecache := (pkgsizecache c)(dir \<mapsto> \<lparr>Size = sz, NumFuncs = nf\<rparr>)\<rparr>,
         os_Remove env (cachePath c dir ''archive'') vw))"
proof (intro conjI impI)
  assume a: "listcache c dir = None \<and> tryCache env c dir ''list'' w = (Inr None, wm) \<and>
    go_list env dir [] = Some out \<and> json_Unmarshal env out = Some pk \<and>
    WriteCache env c dir ''list'' out (emit (EvGoList dir []) wm) = (Some e, ww)"
  then show "GoList env c dir w =
        (Inl (Errorf ''writing cache'' e), c\<lparr>listcache := (listcache c)(dir \<mapsto> pk)\<rparr>, ww)"
    by (simp add: GoList_def goListUncached_def)
  show "GoList env' (c\<lparr>listcache := (listcache c)(dir \<mapsto> pk)\<rparr>) dir w' =
        (Inr pk, c\<lparr>listcache := (listcache c)(dir \<mapsto> pk)\<rparr>, w')"
    by (simp add: GoList_def)
next
  assume "dir \<noteq> ''unsafe'' \<and> pkgsizecache c dir = None \<and>
    tryCache env c dir ''build'' w = (Inr None, vm) \<and>
    run_go_build env (cachePath c dir ''archive'') dir
      (os_RemoveAllFile env (cachePath c dir ''archive'') vm) = (bout, False, vb) \<and>
    computePkgInfo env (cachePath c dir ''archive'') vb = (Inr payload, vp) \<and>
    WriteCache env c dir ''build'' payload vp = (Some e', vw)"
  then show "PkgSize env c dir w = (Inl (Errorf ''writing cache'' e'), c, vw)"
    by (simp add: PkgSize_def)
next
  assume "dir \<noteq> ''unsafe'' \<and> pkgsizecache c dir = None \<and>
    tryCache env c dir ''build'' w = (Inr None, vm) \<and>
    run_go_build env (cachePath c dir ''archive'') dir
      (os_RemoveAllFile env (cachePath c dir ''archive'') vm) = (bout, False, vb) \<and>
    computePkgInfo env (cachePath c dir ''archive'') vb = (Inr payload, vp) \<and>
    WriteCache env c dir ''build'' payload vp = (None, vw) \<and>
    Sscanf_d_d payload = ((2, None), (sz, nf))"
  then show "PkgSize env c dir w =
        (Inr \<lparr>Size = sz, NumFuncs = nf\<rparr>,
         c\<lparr>pkgsizecache := (pkgsizecache c)(dir \<mapsto> \<lparr>Size = sz, NumFuncs = nf\<rparr>)\<rparr>,
         os_Remove env (cachePath c dir ''archive'') vw)"
    by (simp add: PkgSize_def Let_def)
qed



theorem GoList_memory_before_disk_witness:
  "listcache example_cache ''io'' = None \<and>
   fst (tryCache write_fails_env example_cache ''io'' ''list'' fresh_world) = Inr None \<and>
   go_list write_fails_env ''io'' [] = Some ''{io}'' \<and>
   json_Unmarshal write_fails_env ''{io}'' = Some io_pkg \<and>
   GoList write_fails_env example_cache ''io'' fresh_world =
     (Inl (Errorf ''writing cache'' (OsError ErrOther)),
      example_cache\<lparr>listcache := (listcache example_cache)(''io'' \<mapsto> io_pkg)\<rparr>,
      emit (EvWriteFile (''cachedir'', ''io.list'')) (emit (EvGoList ''io'' [])
        (snd (tryCache write_fails_env example_cache ''io'' ''list'' fresh_world)))) \<and>
   GoList example_env (example_cache\<lparr>listcache := (listcache example_cache)(''io'' \<mapsto> io_pkg)\<rparr>)
       ''io'' example_world =
     (Inr io_pkg, example_cache\<lparr>listcache := (listcache example_cache)(''io'' \<mapsto> io_pkg)\<rparr>,
      example_world) \<and>
   fst (PkgSize write_fails_env example_cache ''io'' fresh_world) =
     Inl (Errorf ''writing cache'' (OsError ErrOther)) \<and>
   fst (snd (PkgSize write_fails_env example_cache ''io'' fresh_world)) = example_cache \<and>
   fst (PkgSize example_env example_cache ''io'' fresh_world) = Inr \<lparr>Size = 7, NumFuncs = 2\<rparr> \<and>
   pkgsizecache (fst (snd (PkgSize example_env example_cache ''io'' fresh_world))) ''io'' =
     Some \<lparr>Size = 7, NumFuncs = 2\<rparr>"
proof -
  let ?w1 = "snd (tryCache write_fails_env example_cache ''io'' ''list'' fresh_world)"
  let ?v1 = "\<lparr>fs = [''cachedir'' \<mapsto> [''=glo='' \<mapsto> ''xyz def'' @ [CHR 0x0A]]],
       trace = [EvReadFile (''cachedir'', ''=glo=''), EvReadFile (''cachedir'', ''io.build'')]\<rparr>"
  let ?v3 = "\<lparr>fs = [''cachedir'' \<mapsto> [''=glo='' \<mapsto> ''xyz def'' @ [CHR 0x0A], ''io.archive'' \<mapsto> ''!<arch>'']],
      trace = [EvReadFile (''cachedir'', ''=glo=''), EvReadFile (''cachedir'', ''io.build''),
        EvRemoveAllFile (''cachedir'', ''io.archive''),
        EvGoBuild (''cachedir'', ''io.archive'') ''io'']\<rparr>"
  let ?v4 = "\<lparr>fs = [''cachedir'' \<mapsto> [''=glo='' \<mapsto> ''xyz def'' @ [CHR 0x0A], ''io.archive'' \<mapsto> ''!<arch>'']],
      trace = [EvReadFile (''cachedir'', ''=glo=''), EvReadFile (''cachedir'', ''io.build''),
        EvRemoveAllFile (''cachedir'', ''io.archive''),
        EvGoBuild (''cachedir'', ''io.archive'') ''io'',
        EvStat (''cachedir'', ''io.archive''), EvGoNm (''cachedir'', ''io.archive'')]\<rparr>"
  have m: "listcache example_cache ''io'' = None" "pkgsizecache example_cache ''io'' = None"
    by (rule example_cache_empty)+
  have t: "tryCache write_fails_env example_cache ''io'' ''list'' fresh_world = (Inr None, ?w1)"
    by (simp add: fresh_tryCache(1))
  have g: "go_list write_fails_env ''io'' [] = Some ''{io}''"
    and j: "json_Unmarshal write_fails_env ''{io}'' = Some io_pkg"
    by (simp_all add: write_fails_env_def example_env_def)
  have wr: "WriteCache write_fails_env example_cache ''io'' ''list'' ''{io}''
      (emit (EvGoList ''io'' []) ?w1) =
      (Some (OsError ErrOther), emit (EvWriteFile (''cachedir'', ''io.list'')) (emit (EvGoList ''io'' []) ?w1))"
    by (simp add: WriteCache_def os_WriteFile_def example_paths write_fails_env_def)
  have u: "''io'' \<noteq> ''unsafe''" by simp
  have b: "run_go_build write_fails_env (cachePath example_cache ''io'' ''archive'') ''io''
      (os_RemoveAllFile write_fails_env (cachePath example_cache ''io'' ''archive'') ?v1) = ([], False, ?v3)"
    "run_go_build example_env (cachePath example_cache ''io'' ''archive'') ''io''
      (os_RemoveAllFile example_env (cachePath example_cache ''io'' ''archive'') ?v1) = ([], False, ?v3)"
    by (simp_all only: example_paths fresh_build)
  have p: "computePkgInfo write_fails_env (cachePath example_cache ''io'' ''archive'') ?v3 =
      (Inr (''7 2'' @ [CHR 0x0A]), ?v4)"
    "computePkgInfo example_env (cachePath example_cache ''io'' ''archive'') ?v3 =
      (Inr (''7 2'' @ [CHR 0x0A]), ?v4)"
    by (simp_all only: example_paths fresh_payload)
  have wf: "WriteCache write_fails_env example_cache ''io'' ''build'' (''7 2'' @ [CHR 0x0A]) ?v4 =
      (Some (OsError ErrOther), emit (EvWriteFile (''cachedir'', ''io.build'')) ?v4)"
    by (simp add: WriteCache_def os_WriteFile_def example_paths write_fails_env_def)
  have wo: "WriteCache example_env example_cache ''io'' ''build'' (''7 2'' @ [CHR 0x0A]) ?v4 =
      (None, emit (EvWriteFile (''cachedir'', ''io.build''))
        (put_file (''cachedir'', ''io.build'') (''7 2'' @ [CHR 0x0A]) ?v4))"
    by (simp add: WriteCache_def os_WriteFile_def example_paths example_env_def)
  have sc: "Sscanf_d_d (''7 2'' @ [CHR 0x0A]) = ((2, None), (7, 2))"
    by (simp add: scan_eval)
  note claim = GoList_memory_before_disk
  from claim [where env = write_fails_env and c = example_cache and dir = "''io''"
      and w = fresh_world and wm = ?w1 and out = "''{io}''" and pk = io_pkg
      and e = "OsError ErrOther" and env' = example_env and w' = example_world]
    m t g j wr
  have 1: "GoList write_fails_env example_cache ''io'' fresh_world =
     (Inl (Errorf ''writing cache'' (OsError ErrOther)),
      example_cache\<lparr>listcache := (listcache example_cache)(''io'' \<mapsto> io_pkg)\<rparr>,
      emit (EvWriteFile (''cachedir'', ''io.list'')) (emit (EvGoList ''io'' []) ?w1))"
    and 2: "GoList example_env (example_cache\<lparr>listcache := (listcache example_cache)(''io'' \<mapsto> io_pkg)\<rparr>)
       ''io'' example_world =
     (Inr io_pkg, example_cache\<lparr>listcache := (listcache example_cache)(''io'' \<mapsto> io_pkg)\<rparr>,
      example_world)"
    by blast+
  from claim [where env = write_fails_env and c = example_cache and dir = "''io''"
      and w = fresh_world and vm = ?v1 and vb = ?v3 and vp = ?v4 and bout = "[]"
      and payload = "''7 2'' @ [CHR 0x0A]" and e' = "OsError ErrOther"]
    u m fresh_tryCache(2) b(1) p(1) wf
  have 3: "PkgSize write_fails_env example_cache ''io'' fresh_world =
      (Inl (Errorf ''writing cache'' (OsError ErrOther)), example_cache,
       emit (EvWriteFile (''cachedir'', ''io.build'')) ?v4)"
    by blast
  from claim [where env = example_env and c = example_cache and dir = "''io''"
      and w = fresh_world and vm = ?v1 and vb = ?v3 and vp = ?v4 and bout = "[]"
      and payload = "''7 2'' @ [CHR 0x0A]" and sz = 7 and nf = 2
      and vw = "emit (EvWriteFile (''cachedir'', ''io.build''))
        (put_file (''cachedir'', ''io.build'') (''7 2'' @ [CHR 0x0A]) ?v4)"]
    u m fresh_tryCache(3) b(2) p(2) wo sc
  have 4: "PkgSize example_env example_cache ''io'' fresh_world =
        (Inr \<lparr>Size = 7, NumFuncs = 2\<rparr>,
         example_cache\<lparr>pkgsizecache := (pkgsizecache example_cache)(''io'' \<mapsto> \<lparr>Size = 7, NumFuncs = 2\<rparr>)\<rparr>,
         os_Remove example_env (cachePath example_cache ''io'' ''archive'')
           (emit (EvWriteFile (''cachedir'', ''io.build''))
             (put_file (''cachedir'', ''io.build'') (''7 2'' @ [CHR 0x0A]) ?v4)))"
    by blast
  have t': "fst (tryCache write_fails_env example_cache ''io'' ''list'' fresh_world) = Inr None"
    by (simp add: fresh_tryCache(1))
  from m t' g j 1 2 3 4 show ?thesis by simp
qed

section \<open>A failing command\<close>

lemma tryCache_error:
  "tryCache env c dir tag w = (Inl e, w') \<Longrightarrow> \<exists>e'. e = Errorf ''problems reading cache'' e'"
  by (auto simp: tryCache_def os_ReadFile_def split: prod.splits option.splits if_splits)

lemma in_drop_append:
  assumes "x \<in> set (drop (length (xs @ evs)) ys)"
  shows "x \<in> set (drop (length xs) ys)"
proof -
  from assms have "x \<in> set (drop (length evs) (drop (length xs) ys))"
    by (simp add: add.commute)
  then show ?thesis by (rule in_set_dropD)
qed

lemma GoList_tryCache_error:
  "listcache c dir = None \<Longrightarrow> tryCache env c dir ''list'' w = (Inl e, w1) \<Longrightarrow>
   GoList env c dir w = (Inl e, c, w1)"
  by (simp add: GoList_def)

lemma PkgSize_tryCache_error:
  "dir \<noteq> ''unsafe'' \<Longrightarrow> pkgsizecache c dir = None \<Longrightarrow>
   tryCache env c dir ''build'' w = (Inl e, w1) \<Longrightarrow> PkgSize env c dir w = (Inl e, c, w1)"
  by (simp add: PkgSize_def)

lemma GoList_miss_trace:
  assumes "listcache c dir = None" and "tryCache env c dir ''list'' w = (Inr None, wm)"
    and "GoList env c dir w = (r, c', w')"
  shows "EvGoList dir [] \<in> set (drop (length (trace wm)) (trace w'))"
  using assms
  by (auto simp: GoList_def goListUncached_def WriteCache_def os_WriteFile_def Let_def
      split: option.splits if_splits)

lemma computePkgInfo_frame:
  "computePkgInfo env p w = (r, w') \<Longrightarrow>
   fs w' = fs w \<and> take (length (trace w)) (trace w') = trace w"
  by (auto simp: computePkgInfo_def os_Stat_def Let_def split: option.splits if_splits)

lemma run_go_build_trace:
  "run_go_build env p dir w = (out, err, w') \<Longrightarrow> trace w' = trace w @ [EvGoBuild p dir]"
  by (auto simp: run_go_build_def split: prod.splits option.splits)

lemma run_go_build_frame:
  "run_go_build env p dir w = (out, err, w') \<Longrightarrow> q \<noteq> p \<Longrightarrow> read_file w' q = read_file w q"
  by (auto simp: run_go_build_def split: prod.splits option.splits)

lemma os_RemoveAllFile_frame:
  "q \<noteq> p \<Longrightarrow> read_file (os_RemoveAllFile env p w) q = read_file w q"
  "trace (os_RemoveAllFile env p w) = trace w @ [EvRemoveAllFile p]"
  by (simp_all add: os_RemoveAllFile_def)

lemma WriteCache_trace:
  "WriteCache env c dir tag b w = (e, w') \<Longrightarrow> trace w' = trace w @ [EvWriteFile (cachePath c dir tag)]"
  by (auto simp: WriteCache_def os_WriteFile_def split: if_splits)

lemma os_Remove_trace: "trace (os_Remove env p w) = trace w @ [EvRemove p]"
  by (simp add: os_Remove_def)

lemma PkgSize_miss_trace:
  assumes "dir \<noteq> ''unsafe''" and "pkgsizecache c dir = None"
    and "tryCache env c dir ''build'' w = (Inr None, vm)"
    and "PkgSize env c dir w = (r, c', w')"
  shows "EvGoBuild (cachePath c dir ''archive'') dir \<in> set (drop (length (trace vm)) (trace w'))"
proof -
  let ?p = "cachePath c dir ''archive''"
  obtain bout berr vb where b: "run_go_build env ?p dir (os_RemoveAllFile env ?p vm) = (bout, berr, vb)"
    by (metis prod_cases3)
  then have tb: "trace vb = trace vm @ [EvRemoveAllFile ?p, EvGoBuild ?p dir]"
    by (simp add: run_go_build_trace os_RemoveAllFile_frame)
  have "\<exists>more. trace w' = trace vb @ more"
  proof (cases berr)
    case True
    with assms b have "w' = vb" by (simp add: PkgSize_def)
    then show ?thesis by simp
  next
    case False
    obtain pr vp where p: "computePkgInfo env ?p vb = (pr, vp)" by (cases "computePkgInfo env ?p vb")
    then have "take (length (trace vb)) (trace vp) = trace vb"
      by (simp add: computePkgInfo_frame)
    then obtain evs where evs: "trace vp = trace vb @ evs" by (metis append_take_drop_id)
    show ?thesis
    proof (cases pr)
      case (Inl perr)
      with assms b p False have "w' = vp" by (simp add: PkgSize_def)
      with evs show ?thesis by simp
    next
      case (Inr payload)
      obtain we vw where wc: "WriteCache env c dir ''build'' payload vp = (we, vw)"
        by (cases "WriteCache env c dir ''build'' payload vp")
      then have tw: "trace vw = trace vp @ [EvWriteFile (cachePath c dir ''build'')]"
        by (rule WriteCache_trace)
      from assms b p False Inr wc have "w' = vw \<or> w' = os_Remove env ?p vw"
        by (cases we) (auto simp: PkgSize_def Let_def split: prod.splits if_splits)
      with evs tw show ?thesis by (auto simp: os_Remove_trace)
    qed
  qed
  with tb show ?thesis by auto
qed

lemma GoList_command_fails:
  assumes "listcache c dir = None" and "tryCache env c dir ''list'' w = (Inr None, wm)"
    and "go_list env dir [] = None"
  shows "GoList env c dir w = (Inl (Errorf ''go list -json'' ExitError), c, emit (EvGoList dir []) wm)"
    and "read_file (emit (EvGoList dir []) wm) (cachePath c dir ''list'') = None"
    and "GoList env' c dir (emit (EvGoList dir []) wm) = (r', c', w') \<Longrightarrow>
         (\<exists>e. r' = Inl (Errorf ''problems reading cache'' e)) \<or>
         EvGoList dir [] \<in> set (drop (Suc (length (trace wm))) (trace w'))"
proof -
  from assms show "GoList env c dir w = (Inl (Errorf ''go list -json'' ExitError), c, emit (EvGoList dir []) wm)"
    by (simp add: GoList_def goListUncached_def)
  from assms show absent: "read_file (emit (EvGoList dir []) wm) (cachePath c dir ''list'') = None"
    by (auto dest: tryCache_miss(1))
  assume g: "GoList env' c dir (emit (EvGoList dir []) wm) = (r', c', w')"
  let ?w = "emit (EvGoList dir []) wm"
  obtain r1 w1 where t: "tryCache env' c dir ''list'' ?w = (r1, w1)"
    by (cases "tryCache env' c dir ''list'' ?w")
  show "(\<exists>e. r' = Inl (Errorf ''problems reading cache'' e)) \<or>
         EvGoList dir [] \<in> set (drop (Suc (length (trace wm))) (trace w'))"
  proof (cases r1)
    case (Inl e)
    with t obtain e' where "e = Errorf ''problems reading cache'' e'"
      using tryCache_error by blast
    with assms(1) g t Inl show ?thesis using GoList_tryCache_error [of c dir env' ?w e w1] by auto
  next
    case (Inr v)
    with t absent have "v = None" using tryCache_absent by blast
    with t Inr have t': "tryCache env' c dir ''list'' ?w = (Inr None, w1)" by simp
    from assms(1) t' g have "EvGoList dir [] \<in> set (drop (length (trace w1)) (trace w'))"
      using GoList_miss_trace by blast
    moreover from t' obtain evs where "trace w1 = trace ?w @ evs"
      using tryCache_trace by blast
    ultimately have "EvGoList dir [] \<in> set (drop (length (trace ?w)) (trace w'))"
      using in_drop_append [of "EvGoList dir []" "trace ?w" evs "trace w'"] by simp
    then show ?thesis by simp
  qed
qed

lemma PkgSize_command_fails:
  assumes "dir \<noteq> ''unsafe''" and "pkgsizecache c dir = None"
    and "tryCache env c dir ''build'' w = (Inr None, vm)"
    and b: "run_go_build env (cachePath c dir ''archive'') dir
      (os_RemoveAllFile env (cachePath c dir ''archive'') vm) = (bout, True, vb)"
  shows "PkgSize env c dir w = (Inl (Errorf ''go build'' ExitError), c, vb)"
    and "read_file vb (cachePath c dir ''build'') = None"
    and "\<forall>q. q \<noteq> cachePath c dir ''archive'' \<longrightarrow> read_file vb q = read_file vm q"
    and "trace vb = trace vm @
           [EvRemoveAllFile (cachePath c dir ''archive''), EvGoBuild (cachePath c dir ''archive'') dir]"
    and "PkgSize env' c dir vb = (s', d', v') \<Longrightarrow>
         (\<exists>e. s' = Inl (Errorf ''problems reading cache'' e)) \<or>
         EvGoBuild (cachePath c dir ''archive'') dir \<in> set (drop (length (trace vb)) (trace v'))"
proof -
  let ?p = "cachePath c dir ''archive''"
  from assms show "PkgSize env c dir w = (Inl (Errorf ''go build'' ExitError), c, vb)"
    by (simp add: PkgSize_def)
  have frame: "read_file vb q = read_file vm q" if "q \<noteq> ?p" for q
    using run_go_build_frame [OF b that] os_RemoveAllFile_frame(1) [OF that, of env vm] by simp
  then show "\<forall>q. q \<noteq> ?p \<longrightarrow> read_file vb q = read_file vm q" by blast
  from assms(3) have "read_file vm (cachePath c dir ''build'') = None" by (auto dest: tryCache_miss(1))
  with frame [of "cachePath c dir ''build''"]
  show absent: "read_file vb (cachePath c dir ''build'') = None" by simp
  from run_go_build_trace [OF b] show "trace vb = trace vm @ [EvRemoveAllFile ?p, EvGoBuild ?p dir]"
    by (simp add: os_RemoveAllFile_frame(2))
  assume g: "PkgSize env' c dir vb = (s', d', v')"
  obtain r1 w1 where t: "tryCache env' c dir ''build'' vb = (r1, w1)"
    by (cases "tryCache env' c dir ''build'' vb")
  show "(\<exists>e. s' = Inl (Errorf ''problems reading cache'' e)) \<or>
         EvGoBuild ?p dir \<in> set (drop (length (trace vb)) (trace v'))"
  proof (cases r1)
    case (Inl e)
    with t obtain e' where "e = Errorf ''problems reading cache'' e'"
      using tryCache_error by blast
    with assms(1,2) g t Inl show ?thesis using PkgSize_tryCache_error [of dir c env' vb e w1] by auto
  next
    case (Inr v)
    with t absent have "v = None" using tryCache_absent by blast
    with t Inr have t': "tryCache env' c dir ''build'' vb = (Inr None, w1)" by simp
    from assms(1,2) t' g have "EvGoBuild ?p dir \<in> set (drop (length (trace w1)) (trace v'))"
      using PkgSize_miss_trace by blast
    moreover from t' obtain evs where "trace w1 = trace vb @ evs"
      using tryCache_trace by blast
    ultimately show ?thesis
      using in_drop_append [of "EvGoBuild ?p dir" "trace vb" evs "trace v'"] by simp
  qed
qed

text \<open>
  C4, as the code has it. On a miss, when \<^verbatim>\<open>go list\<close> fails in \<^verbatim>\<open>GoList\<close>, or \<^verbatim>\<open>go build\<close> in
  \<^verbatim>\<open>PkgSize\<close>, the call returns the error and the cache object is as it was; the world it
  leaves holds no entry for the identifier, and a next call for the identifier from there,
  in any environment, runs the command again, unless the validity check or the read of the
  entry fails. When moreover the token file holds the current pair of hashes, the two reads
  do not fail and the entry is not there, the files are as the call found them:
  \<^verbatim>\<open>GoList\<close> has read the token file and the entry file and run the command, and the file
  system is the same; \<^verbatim>\<open>PkgSize\<close> has read the two files, removed the file of the artifact
  and run the command, and every file but the one of the artifact reads as before.
\<close>

theorem collaborator_failure_caches_nothing:
  "(listcache c dir = None \<and> tryCache env c dir ''list'' w = (Inr None, wm) \<and>
    go_list env dir [] = None \<longrightarrow>
      GoList env c dir w = (Inl (Errorf ''go list -json'' ExitError), c, emit (EvGoList dir []) wm) \<and>
      read_file (emit (EvGoList dir []) wm) (cachePath c dir ''list'') = None \<and>
      (GoList env' c dir (emit (EvGoList dir []) wm) = (r', c', w') \<longrightarrow>
         (\<exists>e. r' = Inl (Errorf ''problems reading cache'' e)) \<or>
         EvGoList dir [] \<in> set (drop (Suc (length (trace wm))) (trace w')))) \<and>
   (dir \<noteq> ''unsafe'' \<and> pkgsizecache c dir = None \<and>
    tryCache env c dir ''build'' w = (Inr None, vm) \<and>
    run_go_build env (cachePath c dir ''archive'') dir
      (os_RemoveAllFile env (cachePath c dir ''archive'') vm) = (bout, True, vb) \<longrightarrow>
      PkgSize env c dir w = (Inl (Errorf ''go build'' ExitError), c, vb) \<and>
      read_file vb (cachePath c dir ''build'') = None \<and>
      (PkgSize env' c dir vb = (s', d', v') \<longrightarrow>
         (\<exists>e. s' = Inl (Errorf ''problems reading cache'' e)) \<or>
         EvGoBuild (cachePath c dir ''archive'') dir \<in> set (drop (length (trace vb)) (trace v')))) \<and>
   (\<not> os_fault env (trace w) (EvReadFile (token_file c)) \<and>
    TrimSpace (token_read c w) = hash_pair c \<and>
    \<not> os_fault env (trace w @ [EvReadFile (token_file c)]) (EvReadFile (cachePath c dir ''list'')) \<and>
    listcache c dir = None \<and> read_file w (cachePath c dir ''list'') = None \<and>
    go_list env dir [] = None \<longrightarrow>
      GoList env c dir w =
        (Inl (Errorf ''go list -json'' ExitError), c,
         emit (EvGoList dir [])
           (emit (EvReadFile (cachePath c dir ''list'')) (emit (EvReadFile (token_file c)) w))) \<and>
      fs (snd (snd (GoList env c dir w))) = fs w) \<and>
   (\<not> os_fault env (trace w) (EvReadFile (token_file c)) \<and>
    TrimSpace (token_read c w) = hash_pair c \<and>
    \<not> os_fault env (trace w @ [EvReadFile (token_file c)]) (EvReadFile (cachePath c dir ''build'')) \<and>
    dir \<noteq> ''unsafe'' \<and> pkgsizecache c dir = None \<and> read_file w (cachePath c dir ''build'') = None \<and>
    run_go_build env (cachePath c dir ''archive'') dir
      (os_RemoveAllFile env (cachePath c dir ''archive'')
        (emit (EvReadFile (cachePath c dir ''build'')) (emit (EvReadFile (token_file c)) w))) =
      (bout, True, vb) \<longrightarrow>
      PkgSize env c dir w = (Inl (Errorf ''go build'' ExitError), c, vb) \<and>
      (\<forall>q. q \<noteq> cachePath c dir ''archive'' \<longrightarrow> read_file vb q = read_file w q) \<and>
      dom (fs vb) = dom (fs w) \<and>
      trace vb = trace w @
        [EvReadFile (token_file c), EvReadFile (cachePath c dir ''build''),
         EvRemoveAllFile (cachePath c dir ''archive''), EvGoBuild (cachePath c dir ''archive'') dir])"
proof (intro conjI impI)
  assume a: "listcache c dir = None \<and> tryCache env c dir ''list'' w = (Inr None, wm) \<and>
    go_list env dir [] = None"
  then have a1: "listcache c dir = None" and a2: "tryCache env c dir ''list'' w = (Inr None, wm)"
    and a3: "go_list env dir [] = None"
    by simp_all
  show "GoList env c dir w = (Inl (Errorf ''go list -json'' ExitError), c, emit (EvGoList dir []) wm)"
    by (rule GoList_command_fails(1) [OF a1 a2 a3])
  show "read_file (emit (EvGoList dir []) wm) (cachePath c dir ''list'') = None"
    by (rule GoList_command_fails(2) [OF a1 a2 a3])
  assume "GoList env' c dir (emit (EvGoList dir []) wm) = (r', c', w')"
  then show "(\<exists>e. r' = Inl (Errorf ''problems reading cache'' e)) \<or>
         EvGoList dir [] \<in> set (drop (Suc (length (trace wm))) (trace w'))"
    by (rule GoList_command_fails(3) [OF a1 a2 a3])
next
  let ?p = "cachePath c dir ''archive''"
  assume a: "dir \<noteq> ''unsafe'' \<and> pkgsizecache c dir = None \<and>
    tryCache env c dir ''build'' w = (Inr None, vm) \<and>
    run_go_build env ?p dir (os_RemoveAllFile env ?p vm) = (bout, True, vb)"
  then have a1: "dir \<noteq> ''unsafe''" and a2: "pkgsizecache c dir = None"
    and a3: "tryCache env c dir ''build'' w = (Inr None, vm)"
    and a4: "run_go_build env ?p dir (os_RemoveAllFile env ?p vm) = (bout, True, vb)"
    by simp_all
  show "PkgSize env c dir w = (Inl (Errorf ''go build'' ExitError), c, vb)"
    by (rule PkgSize_command_fails(1) [OF a1 a2 a3 a4])
  show "read_file vb (cachePath c dir ''build'') = None"
    by (rule PkgSize_command_fails(2) [OF a1 a2 a3 a4])
  assume "PkgSize env' c dir vb = (s', d', v')"
  then show "(\<exists>e. s' = Inl (Errorf ''problems reading cache'' e)) \<or>
         EvGoBuild ?p dir \<in> set (drop (length (trace vb)) (trace v'))"
    by (rule PkgSize_command_fails(5) [OF a1 a2 a3 a4])
next
  assume a: "\<not> os_fault env (trace w) (EvReadFile (token_file c)) \<and>
    TrimSpace (token_read c w) = hash_pair c \<and>
    \<not> os_fault env (trace w @ [EvReadFile (token_file c)]) (EvReadFile (cachePath c dir ''list'')) \<and>
    listcache c dir = None \<and> read_file w (cachePath c dir ''list'') = None \<and>
    go_list env dir [] = None"
  then have t: "tryCache env c dir ''list'' w =
      (Inr None, emit (EvReadFile (cachePath c dir ''list'')) (emit (EvReadFile (token_file c)) w))"
    using tryCache_trusted [of env w c dir "''list''"] by simp
  from a have a1: "listcache c dir = None" and a3: "go_list env dir [] = None" by simp_all
  show g: "GoList env c dir w =
        (Inl (Errorf ''go list -json'' ExitError), c,
         emit (EvGoList dir [])
           (emit (EvReadFile (cachePath c dir ''list'')) (emit (EvReadFile (token_file c)) w)))"
    by (rule GoList_command_fails(1) [OF a1 t a3])
  show "fs (snd (snd (GoList env c dir w))) = fs w"
    by (simp only: g snd_conv fs_emit)
next
  let ?p = "cachePath c dir ''archive''"
  let ?vm = "emit (EvReadFile (cachePath c dir ''build'')) (emit (EvReadFile (token_file c)) w)"
  assume a: "\<not> os_fault env (trace w) (EvReadFile (token_file c)) \<and>
    TrimSpace (token_read c w) = hash_pair c \<and>
    \<not> os_fault env (trace w @ [EvReadFile (token_file c)]) (EvReadFile (cachePath c dir ''build'')) \<and>
    dir \<noteq> ''unsafe'' \<and> pkgsizecache c dir = None \<and> read_file w (cachePath c dir ''build'') = None \<and>
    run_go_build env ?p dir (os_RemoveAllFile env ?p ?vm) = (bout, True, vb)"
  then have t: "tryCache env c dir ''build'' w = (Inr None, ?vm)"
    using tryCache_trusted [of env w c dir "''build''"] by simp
  from a have a1: "dir \<noteq> ''unsafe''" and a2: "pkgsizecache c dir = None"
    and a4: "run_go_build env ?p dir (os_RemoveAllFile env ?p ?vm) = (bout, True, vb)"
    by simp_all
  show "PkgSize env c dir w = (Inl (Errorf ''go build'' ExitError), c, vb)"
    by (rule PkgSize_command_fails(1) [OF a1 a2 t a4])
  from PkgSize_command_fails(3) [OF a1 a2 t a4]
  show "\<forall>q. q \<noteq> ?p \<longrightarrow> read_file vb q = read_file w q"
    by (simp add: read_file_emit)
  from PkgSize_command_fails(4) [OF a1 a2 t a4]
  show "trace vb = trace w @
        [EvReadFile (token_file c), EvReadFile (cachePath c dir ''build''),
         EvRemoveAllFile ?p, EvGoBuild ?p dir]"
    by simp
  from a4 show "dom (fs vb) = dom (fs w)"
    by (auto simp: run_go_build_def os_RemoveAllFile_def put_file_def del_file_def
        split: prod.splits option.splits if_splits)
qed

lemma offline_tryCache:
  "tryCache offline_env example_cache ''io'' ''list'' fresh_world =
    (Inr None, \<lparr>fs = [''cachedir'' \<mapsto> [''=glo='' \<mapsto> ''xyz def'' @ [CHR 0x0A]]],
       trace = [EvReadFile (''cachedir'', ''=glo=''), EvReadFile (''cachedir'', ''io.list'')]\<rparr>)"
  "tryCache offline_env example_cache ''io'' ''build'' fresh_world =
    (Inr None, \<lparr>fs = [''cachedir'' \<mapsto> [''=glo='' \<mapsto> ''xyz def'' @ [CHR 0x0A]]],
       trace = [EvReadFile (''cachedir'', ''=glo=''), EvReadFile (''cachedir'', ''io.build'')]\<rparr>)"
  by (simp_all add: cache_eval offline_env_def fresh_world_def)

lemma offline_build:
  "run_go_build offline_env (''cachedir'', ''io.archive'') ''io''
     (os_RemoveAllFile offline_env (''cachedir'', ''io.archive'')
       \<lparr>fs = [''cachedir'' \<mapsto> [''=glo='' \<mapsto> ''xyz def'' @ [CHR 0x0A]]],
        trace = [EvReadFile (''cachedir'', ''=glo=''), EvReadFile (''cachedir'', ''io.build'')]\<rparr>) =
    (''go: no network'', True,
     \<lparr>fs = [''cachedir'' \<mapsto> [''=glo='' \<mapsto> ''xyz def'' @ [CHR 0x0A]]],
      trace = [EvReadFile (''cachedir'', ''=glo=''), EvReadFile (''cachedir'', ''io.build''),
        EvRemoveAllFile (''cachedir'', ''io.archive''),
        EvGoBuild (''cachedir'', ''io.archive'') ''io'']\<rparr>)"
  by (simp add: cache_eval offline_env_def)

lemma retry_GoList:
  "GoList example_env example_cache ''io''
     (emit (EvGoList ''io'' [])
       \<lparr>fs = [''cachedir'' \<mapsto> [''=glo='' \<mapsto> ''xyz def'' @ [CHR 0x0A]]],
        trace = [EvReadFile (''cachedir'', ''=glo=''), EvReadFile (''cachedir'', ''io.list'')]\<rparr>) =
   (Inr io_pkg, example_cache\<lparr>listcache := [''io'' \<mapsto> io_pkg]\<rparr>,
    \<lparr>fs = [''cachedir'' \<mapsto> [''=glo='' \<mapsto> ''xyz def'' @ [CHR 0x0A], ''io.list'' \<mapsto> ''{io}'']],
     trace = [EvReadFile (''cachedir'', ''=glo=''), EvReadFile (''cachedir'', ''io.list''),
       EvGoList ''io'' [],
       EvReadFile (''cachedir'', ''=glo=''), EvReadFile (''cachedir'', ''io.list''),
       EvGoList ''io'' [], EvWriteFile (''cachedir'', ''io.list'')]\<rparr>)"
  by (simp add: cache_eval)

lemma retry_build:
  "tryCache offline_env example_cache ''io'' ''build''
     \<lparr>fs = [''cachedir'' \<mapsto> [''=glo='' \<mapsto> ''xyz def'' @ [CHR 0x0A]]],
      trace = [EvReadFile (''cachedir'', ''=glo=''), EvReadFile (''cachedir'', ''io.build''),
        EvRemoveAllFile (''cachedir'', ''io.archive''),
        EvGoBuild (''cachedir'', ''io.archive'') ''io'']\<rparr> =
    (Inr None,
     \<lparr>fs = [''cachedir'' \<mapsto> [''=glo='' \<mapsto> ''xyz def'' @ [CHR 0x0A]]],
      trace = [EvReadFile (''cachedir'', ''=glo=''), EvReadFile (''cachedir'', ''io.build''),
        EvRemoveAllFile (''cachedir'', ''io.archive''),
        EvGoBuild (''cachedir'', ''io.archive'') ''io'',
        EvReadFile (''cachedir'', ''=glo=''), EvReadFile (''cachedir'', ''io.build'')]\<rparr>)"
  "run_go_build offline_env (''cachedir'', ''io.archive'') ''io''
     (os_RemoveAllFile offline_env (''cachedir'', ''io.archive'')
       \<lparr>fs = [''cachedir'' \<mapsto> [''=glo='' \<mapsto> ''xyz def'' @ [CHR 0x0A]]],
        trace = [EvReadFile (''cachedir'', ''=glo=''), EvReadFile (''cachedir'', ''io.build''),
          EvRemoveAllFile (''cachedir'', ''io.archive''),
          EvGoBuild (''cachedir'', ''io.archive'') ''io'',
          EvReadFile (''cachedir'', ''=glo=''), EvReadFile (''cachedir'', ''io.build'')]\<rparr>) =
    (''go: no network'', True,
     \<lparr>fs = [''cachedir'' \<mapsto> [''=glo='' \<mapsto> ''xyz def'' @ [CHR 0x0A]]],
      trace = [EvReadFile (''cachedir'', ''=glo=''), EvReadFile (''cachedir'', ''io.build''),
        EvRemoveAllFile (''cachedir'', ''io.archive''),
        EvGoBuild (''cachedir'', ''io.archive'') ''io'',
        EvReadFile (''cachedir'', ''=glo=''), EvReadFile (''cachedir'', ''io.build''),
        EvRemoveAllFile (''cachedir'', ''io.archive''),
        EvGoBuild (''cachedir'', ''io.archive'') ''io'']\<rparr>)"
  by (simp_all add: cache_eval offline_env_def)

text \<open>
  The theorem of C4 on the example: a cache directory of the current revision with no
  entry, and commands that fail.
\<close>

theorem collaborator_failure_caches_nothing_witness:
  "listcache example_cache ''io'' = None \<and>
   fst (tryCache offline_env example_cache ''io'' ''list'' fresh_world) = Inr None \<and>
   go_list offline_env ''io'' [] = None \<and>
   GoList offline_env example_cache ''io'' fresh_world =
     (Inl (Errorf ''go list -json'' ExitError), example_cache,
      emit (EvGoList ''io'' []) (snd (tryCache offline_env example_cache ''io'' ''list'' fresh_world))) \<and>
   read_file (snd (snd (GoList offline_env example_cache ''io'' fresh_world)))
     (cachePath example_cache ''io'' ''list'') = None \<and>
   fst (GoList example_env example_cache ''io''
          (snd (snd (GoList offline_env example_cache ''io'' fresh_world)))) = Inr io_pkg \<and>
   EvGoList ''io'' [] \<in> set (drop 3 (trace (snd (snd (GoList example_env example_cache ''io''
          (snd (snd (GoList offline_env example_cache ''io'' fresh_world)))))))) \<and>
   ''io'' \<noteq> ''unsafe'' \<and> pkgsizecache example_cache ''io'' = None \<and>
   fst (tryCache offline_env example_cache ''io'' ''build'' fresh_world) = Inr None \<and>
   fst (PkgSize offline_env example_cache ''io'' fresh_world) = Inl (Errorf ''go build'' ExitError) \<and>
   fst (snd (PkgSize offline_env example_cache ''io'' fresh_world)) = example_cache \<and>
   read_file (snd (snd (PkgSize offline_env example_cache ''io'' fresh_world)))
     (cachePath example_cache ''io'' ''build'') = None \<and>
   EvGoBuild (''cachedir'', ''io.archive'') ''io'' \<in> set (drop 4 (trace (snd (snd
     (PkgSize offline_env example_cache ''io''
        (snd (snd (PkgSize offline_env example_cache ''io'' fresh_world)))))))) \<and>
   TrimSpace (token_read example_cache fresh_world) = hash_pair example_cache \<and>
   read_file fresh_world (cachePath example_cache ''io'' ''list'') = None \<and>
   read_file fresh_world (cachePath example_cache ''io'' ''build'') = None \<and>
   fs (snd (snd (GoList offline_env example_cache ''io'' fresh_world))) = fs fresh_world \<and>
   read_file (snd (snd (PkgSize offline_env example_cache ''io'' fresh_world)))
     (token_file example_cache) = read_file fresh_world (token_file example_cache) \<and>
   dom (fs (snd (snd (PkgSize offline_env example_cache ''io'' fresh_world)))) = dom (fs fresh_world) \<and>
   trace (snd (snd (PkgSize offline_env example_cache ''io'' fresh_world))) =
     trace fresh_world @
       [EvReadFile (''cachedir'', ''=glo=''), EvReadFile (''cachedir'', ''io.build''),
        EvRemoveAllFile (''cachedir'', ''io.archive''), EvGoBuild (''cachedir'', ''io.archive'') ''io'']"
proof -
  let ?wm = "\<lparr>fs = [''cachedir'' \<mapsto> [''=glo='' \<mapsto> ''xyz def'' @ [CHR 0x0A]]],
       trace = [EvReadFile (''cachedir'', ''=glo=''), EvReadFile (''cachedir'', ''io.list'')]\<rparr>"
  let ?vm = "\<lparr>fs = [''cachedir'' \<mapsto> [''=glo='' \<mapsto> ''xyz def'' @ [CHR 0x0A]]],
       trace = [EvReadFile (''cachedir'', ''=glo=''), EvReadFile (''cachedir'', ''io.build'')]\<rparr>"
  let ?vb = "\<lparr>fs = [''cachedir'' \<mapsto> [''=glo='' \<mapsto> ''xyz def'' @ [CHR 0x0A]]],
      trace = [EvReadFile (''cachedir'', ''=glo=''), EvReadFile (''cachedir'', ''io.build''),
        EvRemoveAllFile (''cachedir'', ''io.archive''),
        EvGoBuild (''cachedir'', ''io.archive'') ''io'']\<rparr>"
  let ?vm' = "\<lparr>fs = [''cachedir'' \<mapsto> [''=glo='' \<mapsto> ''xyz def'' @ [CHR 0x0A]]],
      trace = [EvReadFile (''cachedir'', ''=glo=''), EvReadFile (''cachedir'', ''io.build''),
        EvRemoveAllFile (''cachedir'', ''io.archive''),
        EvGoBuild (''cachedir'', ''io.archive'') ''io'',
        EvReadFile (''cachedir'', ''=glo=''), EvReadFile (''cachedir'', ''io.build'')]\<rparr>"
  let ?vb' = "\<lparr>fs = [''cachedir'' \<mapsto> [''=glo='' \<mapsto> ''xyz def'' @ [CHR 0x0A]]],
      trace = [EvReadFile (''cachedir'', ''=glo=''), EvReadFile (''cachedir'', ''io.build''),
        EvRemoveAllFile (''cachedir'', ''io.archive''),
        EvGoBuild (''cachedir'', ''io.archive'') ''io'',
        EvReadFile (''cachedir'', ''=glo=''), EvReadFile (''cachedir'', ''io.build''),
        EvRemoveAllFile (''cachedir'', ''io.archive''),
        EvGoBuild (''cachedir'', ''io.archive'') ''io'']\<rparr>"
  have m: "listcache example_cache ''io'' = None" "pkgsizecache example_cache ''io'' = None"
    by (rule example_cache_empty)+
  have g: "go_list offline_env ''io'' [] = None" by (simp add: offline_env_def)
  have u: "''io'' \<noteq> ''unsafe''" by simp
  have b: "run_go_build offline_env (cachePath example_cache ''io'' ''archive'') ''io''
      (os_RemoveAllFile offline_env (cachePath example_cache ''io'' ''archive'') ?vm) =
      (''go: no network'', True, ?vb)"
    by (simp only: example_paths offline_build)
  have b': "run_go_build offline_env (cachePath example_cache ''io'' ''archive'') ''io''
      (os_RemoveAllFile offline_env (cachePath example_cache ''io'' ''archive'') ?vm') =
      (''go: no network'', True, ?vb')"
    by (simp only: example_paths retry_build)
  from collaborator_failure_caches_nothing
    [where env = offline_env and c = example_cache and dir = "''io''" and w = ?vb
       and vm = ?vm' and vb = ?vb' and bout = "''go: no network''" and wm = ?wm
       and r' = "Inr io_pkg" and c' = example_cache and w' = ?vb and env' = offline_env
       and s' = "Inl (Errorf ''go build'' ExitError)" and d' = example_cache and v' = ?vb',
     THEN conjunct2, THEN conjunct1]
    m u b' retry_build(1)
  have ps: "PkgSize offline_env example_cache ''io'' ?vb =
      (Inl (Errorf ''go build'' ExitError), example_cache, ?vb')"
    by simp
  note claim = collaborator_failure_caches_nothing
    [where env = offline_env and c = example_cache and dir = "''io''" and w = fresh_world
       and wm = ?wm and vm = ?vm and vb = ?vb and bout = "''go: no network''"
       and r' = "Inr io_pkg" and c' = "example_cache\<lparr>listcache := [''io'' \<mapsto> io_pkg]\<rparr>"
       and w' = "snd (snd (GoList example_env example_cache ''io'' (emit (EvGoList ''io'' []) ?wm)))"
       and s' = "Inl (Errorf ''go build'' ExitError)" and d' = example_cache and v' = ?vb']
  from claim [where env' = example_env, THEN conjunct1]
    claim [where env' = offline_env, THEN conjunct2, THEN conjunct1]
    m g u b offline_tryCache retry_GoList ps
  have 1: "GoList offline_env example_cache ''io'' fresh_world =
       (Inl (Errorf ''go list -json'' ExitError), example_cache, emit (EvGoList ''io'' []) ?wm)"
    and 2: "read_file (emit (EvGoList ''io'' []) ?wm) (cachePath example_cache ''io'' ''list'') = None"
    and 3: "EvGoList ''io'' [] \<in> set (drop (Suc (length (trace ?wm)))
        (trace (snd (snd (GoList example_env example_cache ''io'' (emit (EvGoList ''io'' []) ?wm))))))"
    and 4: "PkgSize offline_env example_cache ''io'' fresh_world =
       (Inl (Errorf ''go build'' ExitError), example_cache, ?vb)"
    and 5: "read_file ?vb (cachePath example_cache ''io'' ''build'') = None"
    and 6: "PkgSize offline_env example_cache ''io'' ?vb =
      (Inl (Errorf ''go build'' ExitError), example_cache, ?vb')"
    by simp_all
  have nf: "\<not> os_fault offline_env t e" for t e
    by (simp add: offline_env_def example_env_def)
  have tk: "TrimSpace (token_read example_cache fresh_world) = hash_pair example_cache"
    by (simp add: example_cache_def fresh_world_def read_file_def glopath_def TrimSpace_eval)
  have ab: "read_file fresh_world (cachePath example_cache ''io'' ''list'') = None"
    "read_file fresh_world (cachePath example_cache ''io'' ''build'') = None"
    by (simp_all add: example_paths fresh_world_def read_file_def)
  have vm: "emit (EvReadFile (cachePath example_cache ''io'' ''build''))
      (emit (EvReadFile (token_file example_cache)) fresh_world) = ?vm"
    unfolding example_paths by (simp add: emit_def fresh_world_def example_cache_def glopath_def)
  have hg: "\<not> os_fault offline_env (trace fresh_world) (EvReadFile (token_file example_cache)) \<and>
    TrimSpace (token_read example_cache fresh_world) = hash_pair example_cache \<and>
    \<not> os_fault offline_env (trace fresh_world @ [EvReadFile (token_file example_cache)])
        (EvReadFile (cachePath example_cache ''io'' ''list'')) \<and>
    listcache example_cache ''io'' = None \<and>
    read_file fresh_world (cachePath example_cache ''io'' ''list'') = None \<and>
    go_list offline_env ''io'' [] = None"
    using nf tk m(1) ab(1) g by blast
  have hs: "\<not> os_fault offline_env (trace fresh_world) (EvReadFile (token_file example_cache)) \<and>
    TrimSpace (token_read example_cache fresh_world) = hash_pair example_cache \<and>
    \<not> os_fault offline_env (trace fresh_world @ [EvReadFile (token_file example_cache)])
        (EvReadFile (cachePath example_cache ''io'' ''build'')) \<and>
    ''io'' \<noteq> ''unsafe'' \<and> pkgsizecache example_cache ''io'' = None \<and>
    read_file fresh_world (cachePath example_cache ''io'' ''build'') = None \<and>
    run_go_build offline_env (cachePath example_cache ''io'' ''archive'') ''io''
      (os_RemoveAllFile offline_env (cachePath example_cache ''io'' ''archive'')
        (emit (EvReadFile (cachePath example_cache ''io'' ''build''))
          (emit (EvReadFile (token_file example_cache)) fresh_world))) =
      (''go: no network'', True, ?vb)"
    using nf tk m(2) ab(2) u b unfolding vm by blast
  have 7: "fs (snd (snd (GoList offline_env example_cache ''io'' fresh_world))) = fs fresh_world"
    by (rule claim [where env' = offline_env, THEN conjunct2, THEN conjunct2, THEN conjunct1,
          THEN mp, OF hg, THEN conjunct2])
  note d = claim [where env' = offline_env, THEN conjunct2, THEN conjunct2, THEN conjunct2,
          THEN mp, OF hs]
  have 8: "read_file ?vb (token_file example_cache) = read_file fresh_world (token_file example_cache)"
    by (rule d [THEN conjunct2, THEN conjunct1, THEN spec, THEN mp]) (rule not_sym [OF cachePath_not_token])
  have 9: "dom (fs ?vb) = dom (fs fresh_world)"
    by (rule d [THEN conjunct2, THEN conjunct2, THEN conjunct1])
  have 10: "trace ?vb = trace fresh_world @
       [EvReadFile (''cachedir'', ''=glo=''), EvReadFile (''cachedir'', ''io.build''),
        EvRemoveAllFile (''cachedir'', ''io.archive''), EvGoBuild (''cachedir'', ''io.archive'') ''io'']"
    using d [THEN conjunct2, THEN conjunct2, THEN conjunct2] unfolding example_paths
    by (simp add: example_cache_def glopath_def)
  from 1 2 3 4 5 6 m g u offline_tryCache retry_GoList
  have old: "listcache example_cache ''io'' = None \<and>
   fst (tryCache offline_env example_cache ''io'' ''list'' fresh_world) = Inr None \<and>
   go_list offline_env ''io'' [] = None \<and>
   GoList offline_env example_cache ''io'' fresh_world =
     (Inl (Errorf ''go list -json'' ExitError), example_cache,
      emit (EvGoList ''io'' []) (snd (tryCache offline_env example_cache ''io'' ''list'' fresh_world))) \<and>
   read_file (snd (snd (GoList offline_env example_cache ''io'' fresh_world)))
     (cachePath example_cache ''io'' ''list'') = None \<and>
   fst (GoList example_env example_cache ''io''
          (snd (snd (GoList offline_env example_cache ''io'' fresh_world)))) = Inr io_pkg \<and>
   EvGoList ''io'' [] \<in> set (drop 3 (trace (snd (snd (GoList example_env example_cache ''io''
          (snd (snd (GoList offline_env example_cache ''io'' fresh_world)))))))) \<and>
   ''io'' \<noteq> ''unsafe'' \<and> pkgsizecache example_cache ''io'' = None \<and>
   fst (tryCache offline_env example_cache ''io'' ''build'' fresh_world) = Inr None \<and>
   fst (PkgSize offline_env example_cache ''io'' fresh_world) = Inl (Errorf ''go build'' ExitError) \<and>
   fst (snd (PkgSize offline_env example_cache ''io'' fresh_world)) = example_cache \<and>
   read_file (snd (snd (PkgSize offline_env example_cache ''io'' fresh_world)))
     (cachePath example_cache ''io'' ''build'') = None \<and>
   EvGoBuild (''cachedir'', ''io.archive'') ''io'' \<in> set (drop 4 (trace (snd (snd
     (PkgSize offline_env example_cache ''io''
        (snd (snd (PkgSize offline_env example_cache ''io'' fresh_world))))))))"
    by (simp add: example_paths)
  have new: "TrimSpace (token_read example_cache fresh_world) = hash_pair example_cache \<and>
   read_file fresh_world (cachePath example_cache ''io'' ''list'') = None \<and>
   read_file fresh_world (cachePath example_cache ''io'' ''build'') = None \<and>
   fs (snd (snd (GoList offline_env example_cache ''io'' fresh_world))) = fs fresh_world \<and>
   read_file (snd (snd (PkgSize offline_env example_cache ''io'' fresh_world)))
     (token_file example_cache) = read_file fresh_world (token_file example_cache) \<and>
   dom (fs (snd (snd (PkgSize offline_env example_cache ''io'' fresh_world)))) = dom (fs fresh_world) \<and>
   trace (snd (snd (PkgSize offline_env example_cache ''io'' fresh_world))) =
     trace fresh_world @
       [EvReadFile (''cachedir'', ''=glo=''), EvReadFile (''cachedir'', ''io.build''),
        EvRemoveAllFile (''cachedir'', ''io.archive''), EvGoBuild (''cachedir'', ''io.archive'') ''io'']"
    unfolding 4 snd_conv using tk ab 7 8 9 10 by blast
  from old new show ?thesis by blast
qed

lemma stale_failing_GoList:
  "GoList offline_env example_cache ''io'' stale_world =
     (Inl (Errorf ''go list -json'' ExitError), example_cache,
      \<lparr>fs = [''cachedir'' \<mapsto> [''=glo='' \<mapsto> ''xyz def'' @ [CHR 0x0A]]],
       trace = [EvReadFile (''cachedir'', ''=glo=''), EvRemoveAll ''cachedir'', EvMkdir ''cachedir'',
         EvOpenFile (''cachedir'', ''=glo=''), EvFprintf (''cachedir'', ''=glo=''),
         EvClose (''cachedir'', ''=glo=''), EvReadFile (''cachedir'', ''io.list''),
         EvGoList ''io'' []]\<rparr>)"
  by (simp add: cache_eval offline_env_def stale_world_def)

lemma built_failing_PkgSize:
  "PkgSize offline_env example_cache ''io'' built_world =
     (Inl (Errorf ''go build'' ExitError), example_cache,
      \<lparr>fs = [''cachedir'' \<mapsto> [''=glo='' \<mapsto> ''xyz def'' @ [CHR 0x0A]]],
       trace = [EvReadFile (''cachedir'', ''=glo=''), EvReadFile (''cachedir'', ''io.build''),
         EvRemoveAllFile (''cachedir'', ''io.archive''),
         EvGoBuild (''cachedir'', ''io.archive'') ''io'']\<rparr>)"
  by (simp add: cache_eval offline_env_def built_world_def)

text \<open>
  C4 as stated fails. On a cache directory left by another revision, the validity check of
  the failing \<^verbatim>\<open>GoList\<close> removes the entry of the identifier before \<^verbatim>\<open>go list\<close> is run. And on
  a cache directory of the current revision that holds the artifact of the identifier, the
  failing \<^verbatim>\<open>PkgSize\<close> has removed it before \<^verbatim>\<open>go build\<close> is run.
\<close>

theorem failing_command_changes_disk:
  "listcache example_cache ''io'' = None \<and> go_list offline_env ''io'' [] = None \<and>
   read_file stale_world (cachePath example_cache ''io'' ''list'') = Some ''{io}'' \<and>
   fst (tryCache offline_env example_cache ''io'' ''list'' stale_world) = Inr None \<and>
   fst (GoList offline_env example_cache ''io'' stale_world) =
     Inl (Errorf ''go list -json'' ExitError) \<and>
   read_file (snd (snd (GoList offline_env example_cache ''io'' stale_world)))
     (cachePath example_cache ''io'' ''list'') = None \<and>
   pkgsizecache example_cache ''io'' = None \<and>
   fst (go_build offline_env (cachePath example_cache ''io'' ''archive'') ''io'') = ''go: no network'' \<and>
   read_file built_world (cachePath example_cache ''io'' ''archive'') = Some ''!<arch>'' \<and>
   fst (tryCache offline_env example_cache ''io'' ''build'' built_world) = Inr None \<and>
   fst (PkgSize offline_env example_cache ''io'' built_world) = Inl (Errorf ''go build'' ExitError) \<and>
   read_file (snd (snd (PkgSize offline_env example_cache ''io'' built_world)))
     (cachePath example_cache ''io'' ''archive'') = None"
  by (simp add: stale_failing_GoList built_failing_PkgSize example_cache_empty example_paths)
     (simp add: cache_eval offline_env_def stale_world_def built_world_def)

section \<open>An entry that does not decode\<close>

text \<open>
  C3, as the code has it. Take an identifier that is not in the mapping of its query (and,
  for \<^verbatim>\<open>PkgSize\<close>, is not \<^verbatim>\<open>unsafe\<close>), a token file that holds the current pair of hashes,
  and reads that do not fail. When the entry file is there and its bytes do not decode,
  the query returns the decode error; the cache object is as it was, and the two reads
  are the only calls: no command is run and nothing is written.
\<close>

theorem malformed_entry_is_an_error:
  "(listcache c dir = None \<and>
    \<not> os_fault env (trace w) (EvReadFile (token_file c)) \<and>
    TrimSpace (token_read c w) = hash_pair c \<and>
    \<not> os_fault env (trace w @ [EvReadFile (token_file c)]) (EvReadFile (cachePath c dir ''list'')) \<and>
    read_file w (cachePath c dir ''list'') = Some out \<and> json_Unmarshal env out = None \<longrightarrow>
      GoList env c dir w =
        (Inl (Errorf ''go list -json: unmarshal'' SyntaxError), c,
         emit (EvReadFile (cachePath c dir ''list'')) (emit (EvReadFile (token_file c)) w))) \<and>
   (dir \<noteq> ''unsafe'' \<and> pkgsizecache c dir = None \<and>
    \<not> os_fault env (trace w) (EvReadFile (token_file c)) \<and>
    TrimSpace (token_read c w) = hash_pair c \<and>
    \<not> os_fault env (trace w @ [EvReadFile (token_file c)]) (EvReadFile (cachePath c dir ''build'')) \<and>
    read_file w (cachePath c dir ''build'') = Some out \<and>
    Sscanf_d_d out = ((n, err), vals) \<and> (err \<noteq> None \<or> n \<noteq> 2) \<longrightarrow>
      PkgSize env c dir w =
        (Inl (Errorf ''interpreting pksize'' (ScanError n err)), c,
         emit (EvReadFile (cachePath c dir ''build'')) (emit (EvReadFile (token_file c)) w)))"
proof (intro conjI impI)
  assume a: "listcache c dir = None \<and>
    \<not> os_fault env (trace w) (EvReadFile (token_file c)) \<and>
    TrimSpace (token_read c w) = hash_pair c \<and>
    \<not> os_fault env (trace w @ [EvReadFile (token_file c)]) (EvReadFile (cachePath c dir ''list'')) \<and>
    read_file w (cachePath c dir ''list'') = Some out \<and> json_Unmarshal env out = None"
  then have "tryCache env c dir ''list'' w =
     (Inr (Some out), emit (EvReadFile (cachePath c dir ''list'')) (emit (EvReadFile (token_file c)) w))"
    using tryCache_trusted [of env w c dir "''list''"] by simp
  with a show "GoList env c dir w =
        (Inl (Errorf ''go list -json: unmarshal'' SyntaxError), c,
         emit (EvReadFile (cachePath c dir ''list'')) (emit (EvReadFile (token_file c)) w))"
    by (simp add: GoList_def)
next
  assume a: "dir \<noteq> ''unsafe'' \<and> pkgsizecache c dir = None \<and>
    \<not> os_fault env (trace w) (EvReadFile (token_file c)) \<and>
    TrimSpace (token_read c w) = hash_pair c \<and>
    \<not> os_fault env (trace w @ [EvReadFile (token_file c)]) (EvReadFile (cachePath c dir ''build'')) \<and>
    read_file w (cachePath c dir ''build'') = Some out \<and>
    Sscanf_d_d out = ((n, err), vals) \<and> (err \<noteq> None \<or> n \<noteq> 2)"
  then have "tryCache env c dir ''build'' w =
     (Inr (Some out), emit (EvReadFile (cachePath c dir ''build'')) (emit (EvReadFile (token_file c)) w))"
    using tryCache_trusted [of env w c dir "''build''"] by simp
  with a show "PkgSize env c dir w =
        (Inl (Errorf ''interpreting pksize'' (ScanError n err)), c,
         emit (EvReadFile (cachePath c dir ''build'')) (emit (EvReadFile (token_file c)) w))"
    by (cases vals) (auto simp: PkgSize_def)
qed

lemma corrupt_world_facts:
  "\<not> os_fault example_env t e"
  "TrimSpace (token_read example_cache corrupt_world) = hash_pair example_cache"
  "read_file corrupt_world (cachePath example_cache ''io'' ''list'') = Some ''{io''"
  "read_file corrupt_world (cachePath example_cache ''io'' ''build'') = Some ''7''"
  "json_Unmarshal example_env ''{io'' = None"
  "Sscanf_d_d ''7'' = ((1, Some ErrUnexpectedEOF), (7, 0))"
  by (simp_all add: example_env_def example_cache_def corrupt_world_def read_file_def glopath_def
      cachePath_def ReplaceAll_def TrimSpace_eval scan_eval)

theorem malformed_entry_is_an_error_witness:
  "listcache example_cache ''io'' = None \<and> pkgsizecache example_cache ''io'' = None \<and>
   TrimSpace (token_read example_cache corrupt_world) = hash_pair example_cache \<and>
   read_file corrupt_world (cachePath example_cache ''io'' ''list'') = Some ''{io'' \<and>
   json_Unmarshal example_env ''{io'' = None \<and>
   GoList example_env example_cache ''io'' corrupt_world =
     (Inl (Errorf ''go list -json: unmarshal'' SyntaxError), example_cache,
      emit (EvReadFile (cachePath example_cache ''io'' ''list''))
        (emit (EvReadFile (token_file example_cache)) corrupt_world)) \<and>
   read_file corrupt_world (cachePath example_cache ''io'' ''build'') = Some ''7'' \<and>
   Sscanf_d_d ''7'' = ((1, Some ErrUnexpectedEOF), (7, 0)) \<and>
   PkgSize example_env example_cache ''io'' corrupt_world =
     (Inl (Errorf ''interpreting pksize'' (ScanError 1 (Some ErrUnexpectedEOF))), example_cache,
      emit (EvReadFile (cachePath example_cache ''io'' ''build''))
        (emit (EvReadFile (token_file example_cache)) corrupt_world))"
  using malformed_entry_is_an_error
      [where env = example_env and c = example_cache and dir = "''io''" and w = corrupt_world
         and out = "''{io''"]
    malformed_entry_is_an_error
      [where env = example_env and c = example_cache and dir = "''io''" and w = corrupt_world
         and out = "''7''" and n = 1 and err = "Some ErrUnexpectedEOF" and vals = "(7, 0)"]
    corrupt_world_facts example_cache_empty
  by simp

lemma corrupt_stale_GoList:
  "GoList example_env example_cache ''io'' corrupt_stale_world =
   (Inr io_pkg, example_cache\<lparr>listcache := [''io'' \<mapsto> io_pkg]\<rparr>,
    \<lparr>fs = [''cachedir'' \<mapsto> [''=glo='' \<mapsto> ''xyz def'' @ [CHR 0x0A], ''io.list'' \<mapsto> ''{io}'']],
     trace = [EvReadFile (''cachedir'', ''=glo=''), EvRemoveAll ''cachedir'', EvMkdir ''cachedir'',
       EvOpenFile (''cachedir'', ''=glo=''), EvFprintf (''cachedir'', ''=glo=''),
       EvClose (''cachedir'', ''=glo=''), EvReadFile (''cachedir'', ''io.list''),
       EvGoList ''io'' [], EvWriteFile (''cachedir'', ''io.list'')]\<rparr>)"
  by (simp add: cache_eval corrupt_stale_world_def)

text \<open>
  C3 as stated fails: with the token of another revision, the validity check removes the
  entry that does not decode, the read finds no entry, and \<^verbatim>\<open>GoList\<close> runs \<^verbatim>\<open>go list\<close> and
  returns its package.
\<close>

theorem malformed_entry_refetched:
  "listcache example_cache ''io'' = None \<and>
   read_file corrupt_stale_world (cachePath example_cache ''io'' ''list'') = Some ''{io'' \<and>
   json_Unmarshal example_env ''{io'' = None \<and>
   fst (GoList example_env example_cache ''io'' corrupt_stale_world) = Inr io_pkg \<and>
   EvGoList ''io'' [] \<in> set (trace (snd (snd (GoList example_env example_cache ''io'' corrupt_stale_world))))"
  by (simp add: corrupt_stale_GoList example_cache_empty)
     (simp add: example_env_def example_paths corrupt_stale_world_def read_file_def)

section \<open>The artifact of \<^verbatim>\<open>PkgSize\<close>\<close>

text \<open>
  \<^verbatim>\<open>PkgSize\<close> removes the artifact in one place, after the entry is written. When
  \<^verbatim>\<open>computePkgInfo\<close> or \<^verbatim>\<open>WriteCache\<close> fails it returns before that line, with the file
  system as \<^verbatim>\<open>go build\<close> left it.
\<close>

lemma WriteCache_failed_frame:
  "WriteCache env c dir tag b w = (Some e, w') \<Longrightarrow> fs w' = fs w"
  by (auto simp: WriteCache_def os_WriteFile_def split: if_splits)

lemma PkgSize_early_returns:
  "(dir \<noteq> ''unsafe'' \<and> pkgsizecache c dir = None \<and>
    tryCache env c dir ''build'' w = (Inr None, vm) \<and>
    run_go_build env (cachePath c dir ''archive'') dir
      (os_RemoveAllFile env (cachePath c dir ''archive'') vm) = (bout, False, vb) \<and>
    computePkgInfo env (cachePath c dir ''archive'') vb = (Inl perr, vp) \<longrightarrow>
      PkgSize env c dir w = (Inl perr, c, vp) \<and> fs vp = fs vb) \<and>
   (dir \<noteq> ''unsafe'' \<and> pkgsizecache c dir = None \<and>
    tryCache env c dir ''build'' w = (Inr None, vm) \<and>
    run_go_build env (cachePath c dir ''archive'') dir
      (os_RemoveAllFile env (cachePath c dir ''archive'') vm) = (bout, False, vb) \<and>
    computePkgInfo env (cachePath c dir ''archive'') vb = (Inr payload, vp) \<and>
    WriteCache env c dir ''build'' payload vp = (Some e, vw) \<longrightarrow>
      PkgSize env c dir w = (Inl (Errorf ''writing cache'' e), c, vw) \<and> fs vw = fs vb)"
proof (intro conjI impI)
  assume a: "dir \<noteq> ''unsafe'' \<and> pkgsizecache c dir = None \<and>
    tryCache env c dir ''build'' w = (Inr None, vm) \<and>
    run_go_build env (cachePath c dir ''archive'') dir
      (os_RemoveAllFile env (cachePath c dir ''archive'') vm) = (bout, False, vb) \<and>
    computePkgInfo env (cachePath c dir ''archive'') vb = (Inl perr, vp)"
  then show "PkgSize env c dir w = (Inl perr, c, vp)" by (simp add: PkgSize_def)
  from a have "computePkgInfo env (cachePath c dir ''archive'') vb = (Inl perr, vp)" by simp
  then show "fs vp = fs vb" by (simp add: computePkgInfo_frame)
next
  assume a: "dir \<noteq> ''unsafe'' \<and> pkgsizecache c dir = None \<and>
    tryCache env c dir ''build'' w = (Inr None, vm) \<and>
    run_go_build env (cachePath c dir ''archive'') dir
      (os_RemoveAllFile env (cachePath c dir ''archive'') vm) = (bout, False, vb) \<and>
    computePkgInfo env (cachePath c dir ''archive'') vb = (Inr payload, vp) \<and>
    WriteCache env c dir ''build'' payload vp = (Some e, vw)"
  then show "PkgSize env c dir w = (Inl (Errorf ''writing cache'' e), c, vw)"
    by (simp add: PkgSize_def)
  from a have "computePkgInfo env (cachePath c dir ''archive'') vb = (Inr payload, vp)"
    and "WriteCache env c dir ''build'' payload vp = (Some e, vw)" by simp_all
  then show "fs vw = fs vb"
    using computePkgInfo_frame WriteCache_failed_frame by metis
qed

lemma nm_fails_payload:
  "computePkgInfo nm_fails_env (''cachedir'', ''io.archive'')
     \<lparr>fs = [''cachedir'' \<mapsto> [''=glo='' \<mapsto> ''xyz def'' @ [CHR 0x0A], ''io.archive'' \<mapsto> ''!<arch>'']],
      trace = [EvReadFile (''cachedir'', ''=glo=''), EvReadFile (''cachedir'', ''io.build''),
        EvRemoveAllFile (''cachedir'', ''io.archive''),
        EvGoBuild (''cachedir'', ''io.archive'') ''io'']\<rparr> =
    (Inl (Errorf ''go tool nm'' ExitError),
     \<lparr>fs = [''cachedir'' \<mapsto> [''=glo='' \<mapsto> ''xyz def'' @ [CHR 0x0A], ''io.archive'' \<mapsto> ''!<arch>'']],
      trace = [EvReadFile (''cachedir'', ''=glo=''), EvReadFile (''cachedir'', ''io.build''),
        EvRemoveAllFile (''cachedir'', ''io.archive''),
        EvGoBuild (''cachedir'', ''io.archive'') ''io'',
        EvStat (''cachedir'', ''io.archive''), EvGoNm (''cachedir'', ''io.archive'')]\<rparr>)"
  by (simp add: computePkgInfo_def os_defs emit_def read_file_def example_env_def nm_fails_env_def)

lemma nm_fails_steps:
  "tryCache nm_fails_env example_cache ''io'' ''build'' fresh_world =
    (Inr None, \<lparr>fs = [''cachedir'' \<mapsto> [''=glo='' \<mapsto> ''xyz def'' @ [CHR 0x0A]]],
       trace = [EvReadFile (''cachedir'', ''=glo=''), EvReadFile (''cachedir'', ''io.build'')]\<rparr>)"
  "run_go_build nm_fails_env (''cachedir'', ''io.archive'') ''io''
     (os_RemoveAllFile nm_fails_env (''cachedir'', ''io.archive'')
       \<lparr>fs = [''cachedir'' \<mapsto> [''=glo='' \<mapsto> ''xyz def'' @ [CHR 0x0A]]],
        trace = [EvReadFile (''cachedir'', ''=glo=''), EvReadFile (''cachedir'', ''io.build'')]\<rparr>) =
    ([], False,
     \<lparr>fs = [''cachedir'' \<mapsto> [''=glo='' \<mapsto> ''xyz def'' @ [CHR 0x0A], ''io.archive'' \<mapsto> ''!<arch>'']],
      trace = [EvReadFile (''cachedir'', ''=glo=''), EvReadFile (''cachedir'', ''io.build''),
        EvRemoveAllFile (''cachedir'', ''io.archive''),
        EvGoBuild (''cachedir'', ''io.archive'') ''io'']\<rparr>)"
  by (simp_all add: cache_eval nm_fails_env_def fresh_world_def)

text \<open>
  C6 fails on the code. On a fresh cache directory where \<^verbatim>\<open>go build\<close> succeeds and
  \<^verbatim>\<open>go tool nm\<close> fails, \<^verbatim>\<open>PkgSize("io")\<close> returns the error of \<^verbatim>\<open>go tool nm\<close>; the artifact
  \<^verbatim>\<open>io.archive\<close>, which was not there before the call, is in the cache directory when the
  call returns, and the trace holds no \<^verbatim>\<open>os.Remove\<close>.
\<close>

theorem PkgSize_leaves_artifact:
  "read_file fresh_world (cachePath example_cache ''io'' ''archive'') = None \<and>
   PkgSize nm_fails_env example_cache ''io'' fresh_world =
     (Inl (Errorf ''go tool nm'' ExitError), example_cache,
      \<lparr>fs = [''cachedir'' \<mapsto> [''=glo='' \<mapsto> ''xyz def'' @ [CHR 0x0A], ''io.archive'' \<mapsto> ''!<arch>'']],
       trace = [EvReadFile (''cachedir'', ''=glo=''), EvReadFile (''cachedir'', ''io.build''),
         EvRemoveAllFile (''cachedir'', ''io.archive''),
         EvGoBuild (''cachedir'', ''io.archive'') ''io'',
         EvStat (''cachedir'', ''io.archive''), EvGoNm (''cachedir'', ''io.archive'')]\<rparr>)"
proof -
  have u: "''io'' \<noteq> ''unsafe''" by simp
  have a: "read_file fresh_world (cachePath example_cache ''io'' ''archive'') = None"
    by (simp add: example_paths fresh_world_def read_file_def)
  let ?vm = "\<lparr>fs = [''cachedir'' \<mapsto> [''=glo='' \<mapsto> ''xyz def'' @ [CHR 0x0A]]],
       trace = [EvReadFile (''cachedir'', ''=glo=''), EvReadFile (''cachedir'', ''io.build'')]\<rparr>"
  let ?vb = "\<lparr>fs = [''cachedir'' \<mapsto> [''=glo='' \<mapsto> ''xyz def'' @ [CHR 0x0A], ''io.archive'' \<mapsto> ''!<arch>'']],
      trace = [EvReadFile (''cachedir'', ''=glo=''), EvReadFile (''cachedir'', ''io.build''),
        EvRemoveAllFile (''cachedir'', ''io.archive''),
        EvGoBuild (''cachedir'', ''io.archive'') ''io'']\<rparr>"
  let ?vp = "\<lparr>fs = [''cachedir'' \<mapsto> [''=glo='' \<mapsto> ''xyz def'' @ [CHR 0x0A], ''io.archive'' \<mapsto> ''!<arch>'']],
       trace = [EvReadFile (''cachedir'', ''=glo=''), EvReadFile (''cachedir'', ''io.build''),
         EvRemoveAllFile (''cachedir'', ''io.archive''),
         EvGoBuild (''cachedir'', ''io.archive'') ''io'',
         EvStat (''cachedir'', ''io.archive''), EvGoNm (''cachedir'', ''io.archive'')]\<rparr>"
  have b: "run_go_build nm_fails_env (cachePath example_cache ''io'' ''archive'') ''io''
      (os_RemoveAllFile nm_fails_env (cachePath example_cache ''io'' ''archive'') ?vm) = ([], False, ?vb)"
    by (simp only: example_paths nm_fails_steps)
  have p: "computePkgInfo nm_fails_env (cachePath example_cache ''io'' ''archive'') ?vb =
      (Inl (Errorf ''go tool nm'' ExitError), ?vp)"
    by (simp only: example_paths nm_fails_payload)
  from PkgSize_early_returns
      [where env = nm_fails_env and c = example_cache and dir = "''io''" and w = fresh_world
         and perr = "Errorf ''go tool nm'' ExitError" and vm = ?vm and vb = ?vb and vp = ?vp
         and bout = "[]", THEN conjunct1]
    u example_cache_empty(2) [of "''io''"] nm_fails_steps(1) b p
  have "PkgSize nm_fails_env example_cache ''io'' fresh_world =
     (Inl (Errorf ''go tool nm'' ExitError), example_cache, ?vp)"
    by blast
  with a show ?thesis by simp
qed

theorem PkgSize_leaves_artifact_witness:
  "fst (PkgSize nm_fails_env example_cache ''io'' fresh_world) = Inl (Errorf ''go tool nm'' ExitError) \<and>
   read_file (snd (snd (PkgSize nm_fails_env example_cache ''io'' fresh_world)))
     (''cachedir'', ''io.archive'') = Some ''!<arch>'' \<and>
   EvRemove (''cachedir'', ''io.archive'') \<notin>
     set (trace (snd (snd (PkgSize nm_fails_env example_cache ''io'' fresh_world))))"
proof -
  from PkgSize_leaves_artifact
  have e: "PkgSize nm_fails_env example_cache ''io'' fresh_world =
     (Inl (Errorf ''go tool nm'' ExitError), example_cache,
      \<lparr>fs = [''cachedir'' \<mapsto> [''=glo='' \<mapsto> ''xyz def'' @ [CHR 0x0A], ''io.archive'' \<mapsto> ''!<arch>'']],
       trace = [EvReadFile (''cachedir'', ''=glo=''), EvReadFile (''cachedir'', ''io.build''),
         EvRemoveAllFile (''cachedir'', ''io.archive''),
         EvGoBuild (''cachedir'', ''io.archive'') ''io'',
         EvStat (''cachedir'', ''io.archive''), EvGoNm (''cachedir'', ''io.archive'')]\<rparr>)"
    by (rule conjunct2)
  show ?thesis unfolding e by (simp add: read_file_def)
qed

section \<open>Asking again\<close>

lemma token_not_cachePath [simp]: "(d, glopath) \<noteq> cachePath c dir tag"
  by (rule not_sym [OF cachePath_not_token])

lemma token_read_fs: "fs w' = fs w \<Longrightarrow> token_read c w' = token_read c w"
  by (simp add: read_file_def)

lemma hash_pair_not_Nil: "hash_pair c \<noteq> []"
  by simp

lemma token_valid_exists:
  assumes "TrimSpace (token_read c w) = hash_pair c"
  shows "read_file w (token_file c) \<noteq> None" and "fs w (root c) \<noteq> None"
proof -
  from assms have "token_read c w \<noteq> []" by auto
  then show "read_file w (token_file c) \<noteq> None" by (auto split: option.splits)
  then show "fs w (root c) \<noteq> None" using read_file_dir [of w "token_file c"] by auto
qed

text \<open>After a validity check without error the token file holds the current pair.\<close>

lemma checkValid_ok_token:
  assumes "checkValid env c w = (None, w1)"
    and "TrimSpace (hash_pair c @ [CHR 0x0A]) = hash_pair c"
  shows "TrimSpace (token_read c w1) = hash_pair c"
  using assms(1)
proof (cases rule: checkValid_ok_cases)
  case trusted
  then show ?thesis by simp
next
  case wiped
  then have "token_read c w1 = hash_pair c @ [CHR 0x0A]" by (simp add: read_file_def)
  with assms(2) show ?thesis by simp
qed

lemma tryCache_ok_token:
  assumes "tryCache env c dir tag w = (Inr v, w1)"
    and "TrimSpace (hash_pair c @ [CHR 0x0A]) = hash_pair c"
  shows "TrimSpace (token_read c w1) = hash_pair c" and "read_file w1 (cachePath c dir tag) = v"
proof -
  from assms(1) obtain wv where cv: "checkValid env c w = (None, wv)"
    and v: "v = read_file wv (cachePath c dir tag)"
    and w1: "w1 = emit (EvReadFile (cachePath c dir tag)) wv"
    using tryCache_result by blast
  from checkValid_ok_token [OF cv assms(2)] w1
  show "TrimSpace (token_read c w1) = hash_pair c" by simp
  from v w1 show "read_file w1 (cachePath c dir tag) = v" by simp
qed

text \<open>A successful write leaves the entry on disk and the other files as they were.\<close>

lemma WriteCache_ok:
  assumes "WriteCache env c dir tag b w = (None, w')"
  shows "read_file w' (cachePath c dir tag) = Some b"
    and "q \<noteq> cachePath c dir tag \<Longrightarrow> read_file w' q = read_file w q"
  using assms
  by (auto simp: WriteCache_def os_WriteFile_def split: if_splits)

lemma os_Remove_frame: "q \<noteq> p \<Longrightarrow> read_file (os_Remove env p w) q = read_file w q"
  by (simp add: os_Remove_def)

text \<open>What a successful \<^verbatim>\<open>GoList\<close> that did not find the identifier in memory leaves.\<close>

lemma GoList_ok_mem:
  assumes "GoList env c dir w = (Inr p, c', w')"
  shows "listcache c' dir = Some p"
  using assms
  by (auto simp: GoList_def goListUncached_def Let_def
      split: option.splits prod.splits sum.splits if_splits)

lemma GoList_disk_post:
  assumes m: "listcache c dir = None" and g: "GoList env c dir w = (Inr p, c', w')"
    and rt: "TrimSpace (hash_pair c @ [CHR 0x0A]) = hash_pair c"
  shows "\<exists>out. read_file w' (cachePath c dir ''list'') = Some out \<and>
           json_Unmarshal env out = Some p \<and> TrimSpace (token_read c w') = hash_pair c"
proof -
  obtain r1 w1 where t: "tryCache env c dir ''list'' w = (r1, w1)"
    by (cases "tryCache env c dir ''list'' w")
  show ?thesis
  proof (cases r1)
    case (Inl e)
    with m g t show ?thesis by (simp add: GoList_def)
  next
    case (Inr v)
    with t have t': "tryCache env c dir ''list'' w = (Inr v, w1)" by simp
    note tok = tryCache_ok_token [OF t' rt]
    show ?thesis
    proof (cases v)
      case (Some out)
      with m g t' have "json_Unmarshal env out = Some p \<and> w' = w1"
        by (auto simp: GoList_def split: option.splits)
      with tok Some show ?thesis by auto
    next
      case None
      with m g t' obtain out where gl: "go_list env dir [] = Some out"
        and um: "json_Unmarshal env out = Some p"
        and wr: "WriteCache env c dir ''list'' out (emit (EvGoList dir []) w1) = (None, w')"
        by (auto simp: GoList_def goListUncached_def Let_def split: option.splits prod.splits)
      have ne: "token_file c \<noteq> cachePath c dir ''list''"
        by (rule token_not_cachePath)
      from WriteCache_ok(1) [OF wr] WriteCache_ok(2) [OF wr ne]
      have "read_file w' (cachePath c dir ''list'') = Some out"
        and "token_read c w' = token_read c w1"
        by simp_all
      with um tok(1) show ?thesis by auto
    qed
  qed
qed

lemma PkgSize_ok_cases:
  assumes "dir \<noteq> ''unsafe''" and "pkgsizecache c dir = None"
    and "PkgSize env c dir w = (Inr q, c', w')"
  obtains (hit) out w1 where "tryCache env c dir ''build'' w = (Inr (Some out), w1)"
      "Sscanf_d_d out = ((2, None), (Size q, NumFuncs q))"
      "c' = c\<lparr>pkgsizecache := (pkgsizecache c)(dir \<mapsto> q)\<rparr>" "w' = w1"
  | (miss) vm bout vb payload vp vw where "tryCache env c dir ''build'' w = (Inr None, vm)"
      "run_go_build env (cachePath c dir ''archive'') dir
         (os_RemoveAllFile env (cachePath c dir ''archive'') vm) = (bout, False, vb)"
      "computePkgInfo env (cachePath c dir ''archive'') vb = (Inr payload, vp)"
      "WriteCache env c dir ''build'' payload vp = (None, vw)"
      "Sscanf_d_d payload = ((2, None), (Size q, NumFuncs q))"
      "c' = c\<lparr>pkgsizecache := (pkgsizecache c)(dir \<mapsto> q)\<rparr>"
      "w' = os_Remove env (cachePath c dir ''archive'') vw"
proof -
  have unpack: "Sscanf_d_d out = ((2, None), (Size q, NumFuncs q)) \<and>
      c' = c\<lparr>pkgsizecache := (pkgsizecache c)(dir \<mapsto> q)\<rparr> \<and> w' = wx"
    if "(case Sscanf_d_d out of
           ((n, err), (sz, nf)) \<Rightarrow>
             if err \<noteq> None \<or> n \<noteq> 2
             then (Inl (Errorf ''interpreting pksize'' (ScanError n err)), c, wx)
             else (let pi = \<lparr>Size = sz, NumFuncs = nf\<rparr>
                   in (Inr pi, c\<lparr>pkgsizecache := (pkgsizecache c)(dir \<mapsto> pi)\<rparr>, wx))) =
           (Inr q, c', w')" for out wx
    using that by (auto simp: Let_def split: prod.splits if_splits)
  obtain r1 w1 where t: "tryCache env c dir ''build'' w = (r1, w1)"
    by (cases "tryCache env c dir ''build'' w")
  show ?thesis
  proof (cases r1)
    case (Inl e)
    with assms t show ?thesis by (simp add: PkgSize_def)
  next
    case (Inr v)
    show ?thesis
    proof (cases v)
      case (Some out)
      with assms t Inr have "Sscanf_d_d out = ((2, None), (Size q, NumFuncs q)) \<and>
          c' = c\<lparr>pkgsizecache := (pkgsizecache c)(dir \<mapsto> q)\<rparr> \<and> w' = w1"
        by (intro unpack) (simp add: PkgSize_def)
      with t Inr Some hit show ?thesis by simp
    next
      case None
      let ?p = "cachePath c dir ''archive''"
      obtain bout berr vb where b: "run_go_build env ?p dir (os_RemoveAllFile env ?p w1) = (bout, berr, vb)"
        by (metis prod_cases3)
      obtain pr vp where p: "computePkgInfo env ?p vb = (pr, vp)" by (cases "computePkgInfo env ?p vb")
      from assms t Inr None b have nb: "\<not> berr"
        by (cases berr) (simp_all add: PkgSize_def)
      with b have b': "run_go_build env ?p dir (os_RemoveAllFile env ?p w1) = (bout, False, vb)"
        by simp
      from assms t Inr None b' p obtain payload where pr: "pr = Inr payload"
        by (cases pr) (simp_all add: PkgSize_def)
      obtain we vw where wc: "WriteCache env c dir ''build'' payload vp = (we, vw)"
        by (cases "WriteCache env c dir ''build'' payload vp")
      from assms t Inr None b' p pr wc have we: "we = None"
        by (cases we) (simp_all add: PkgSize_def)
      from assms t Inr None b' p pr wc we
      have "Sscanf_d_d payload = ((2, None), (Size q, NumFuncs q)) \<and>
          c' = c\<lparr>pkgsizecache := (pkgsizecache c)(dir \<mapsto> q)\<rparr> \<and> w' = os_Remove env ?p vw"
        by (intro unpack) (simp add: PkgSize_def)
      with t Inr None b' p pr wc we miss show ?thesis by simp
    qed
  qed
qed

lemma PkgSize_ok_mem:
  assumes "dir \<noteq> ''unsafe''" and "PkgSize env c dir w = (Inr q, c', w')"
  shows "pkgsizecache c' dir = Some q"
proof (cases "pkgsizecache c dir")
  case (Some cachedv)
  with assms show ?thesis by (simp add: PkgSize_def)
next
  case None
  from assms(1) None assms(2) show ?thesis
    by (cases rule: PkgSize_ok_cases) simp_all
qed

lemma PkgSize_disk_post:
  assumes u: "dir \<noteq> ''unsafe''" and m: "pkgsizecache c dir = None"
    and g: "PkgSize env c dir w = (Inr q, c', w')"
    and rt: "TrimSpace (hash_pair c @ [CHR 0x0A]) = hash_pair c"
  shows "\<exists>out. read_file w' (cachePath c dir ''build'') = Some out \<and>
           Sscanf_d_d out = ((2, None), (Size q, NumFuncs q)) \<and>
           TrimSpace (token_read c w') = hash_pair c"
  using u m g
proof (cases rule: PkgSize_ok_cases)
  case (hit out w1)
  from tryCache_ok_token [OF hit(1) rt] hit show ?thesis by auto
next
  case (miss vm bout vb payload vp vw)
  let ?p = "cachePath c dir ''archive''"
  let ?e = "cachePath c dir ''build''"
  have ne: "token_file c \<noteq> ?p" "token_file c \<noteq> ?e" "?e \<noteq> ?p"
    by simp_all
  note tok = tryCache_ok_token(1) [OF miss(1) rt]
  have 1: "read_file vb (token_file c) = read_file vm (token_file c)"
    using run_go_build_frame [OF miss(2) ne(1)] os_RemoveAllFile_frame(1) [OF ne(1), of env vm]
    by simp
  have 2: "fs vp = fs vb" using computePkgInfo_frame [OF miss(3)] by simp
  have 3: "read_file vw (token_file c) = read_file vp (token_file c)"
    using WriteCache_ok(2) [OF miss(4) ne(2)] .
  have 4: "read_file w' (token_file c) = read_file vw (token_file c)"
    using os_Remove_frame [OF ne(1), of env vw] miss(7) by simp
  have 5: "read_file w' ?e = Some payload"
    using os_Remove_frame [OF ne(3), of env vw] miss(7) WriteCache_ok(1) [OF miss(4)] by simp
  from 1 2 3 4 have "token_read c w' = token_read c vm"
    by (simp add: read_file_fs [OF 2])
  with tok 5 miss(5) show ?thesis by auto
qed

text \<open>A new instance on a cache directory whose token is valid, when no call fails.\<close>

lemma Make_on_valid:
  assumes nf: "\<forall>t e. \<not> os_fault envn t e"
    and tok: "TrimSpace (token_read c wn) = hash_pair c"
  shows "Make envn (repohash c) (goroothash c) (root c) v wn =
     (Inr (new_cache (repohash c) (goroothash c) (root c) v),
      emit (EvReadFile (token_file c)) (emit (EvMkdir (root c)) wn))"
proof -
  let ?cn = "new_cache (repohash c) (goroothash c) (root c) v"
  from tok have d: "fs wn (root c) \<noteq> None" by (rule token_valid_exists(2))
  with nf have mk: "os_Mkdir envn (root c) wn = (Some ErrExist, emit (EvMkdir (root c)) wn)"
    by (simp add: os_Mkdir_def)
  have "token_read ?cn (emit (EvMkdir (root c)) wn) = token_read c wn" by simp
  with tok have "TrimSpace (token_read ?cn (emit (EvMkdir (root c)) wn)) = hash_pair ?cn"
    by simp
  with nf have "checkValid envn ?cn (emit (EvMkdir (root c)) wn) =
      (None, emit (EvReadFile (token_file ?cn)) (emit (EvMkdir (root c)) wn))"
    by (intro checkValid_trusted) simp_all
  with mk show ?thesis by (simp add: Make_def)
qed

lemma tryCache_new_instance:
  assumes nf: "\<forall>t e. \<not> os_fault envn t e"
    and tok: "TrimSpace (token_read c wm) = hash_pair c"
  shows "tryCache envn (new_cache (repohash c) (goroothash c) (root c) v) dir tag wm =
     (Inr (read_file wm (cachePath c dir tag)),
      emit (EvReadFile (cachePath c dir tag)) (emit (EvReadFile (token_file c)) wm))"
proof -
  let ?cn = "new_cache (repohash c) (goroothash c) (root c) v"
  have p: "cachePath ?cn dir tag = cachePath c dir tag" by (simp add: cachePath_def)
  from nf tok have "tryCache envn ?cn dir tag wm =
     (Inr (read_file wm (cachePath ?cn dir tag)),
      emit (EvReadFile (cachePath ?cn dir tag)) (emit (EvReadFile (token_file ?cn)) wm))"
    by (intro tryCache_trusted) simp_all
  then show ?thesis by (simp add: p)
qed

text \<open>
  C1, as the code has it. A query that succeeded returns the same result when it is asked
  again on the cache object it left, whatever the file system and the commands do then: the
  cache object and the world are as they were, so nothing is read, written or run. And when
  the query that succeeded did not find the identifier in the mapping (and, for
  \<^verbatim>\<open>PkgSize\<close>, the identifier is not \<^verbatim>\<open>unsafe\<close>), the text of the token file trims back to the
  pair of hashes, the files of the cache directory are as the query left them, and no call
  of the new process fails, then \<^verbatim>\<open>Make\<close> with the same directory and hashes succeeds and
  leaves the files alone, and the query on the new cache object returns the same result from
  the entry file: it reads the token file and the entry file, and does nothing else.
\<close>

theorem repeated_query_same_result:
  "(GoList env c dir w = (Inr p, c', w') \<longrightarrow> GoList envb c' dir wb = (Inr p, c', wb)) \<and>
   (PkgSize env c dir w = (Inr q, d', v') \<longrightarrow> PkgSize envb d' dir wb = (Inr q, d', wb)) \<and>
   (listcache c dir = None \<and> GoList env c dir w = (Inr p, c', w') \<and>
    TrimSpace (hash_pair c @ [CHR 0x0A]) = hash_pair c \<and> fs wn = fs w' \<and>
    (\<forall>t e. \<not> os_fault envn t e) \<and> json_Unmarshal envn = json_Unmarshal env \<longrightarrow>
      (\<exists>wm. Make envn (repohash c) (goroothash c) (root c) v wn =
              (Inr (new_cache (repohash c) (goroothash c) (root c) v), wm) \<and>
            fs wm = fs wn \<and>
            GoList envn (new_cache (repohash c) (goroothash c) (root c) v) dir wm =
              (Inr p, (new_cache (repohash c) (goroothash c) (root c) v)\<lparr>listcache := [dir \<mapsto> p]\<rparr>,
               emit (EvReadFile (cachePath c dir ''list'')) (emit (EvReadFile (token_file c)) wm)))) \<and>
   (dir \<noteq> ''unsafe'' \<and> pkgsizecache c dir = None \<and> PkgSize env c dir w = (Inr q, d', v') \<and>
    TrimSpace (hash_pair c @ [CHR 0x0A]) = hash_pair c \<and> fs wn = fs v' \<and>
    (\<forall>t e. \<not> os_fault envn t e) \<longrightarrow>
      (\<exists>wm. Make envn (repohash c) (goroothash c) (root c) v wn =
              (Inr (new_cache (repohash c) (goroothash c) (root c) v), wm) \<and>
            fs wm = fs wn \<and>
            PkgSize envn (new_cache (repohash c) (goroothash c) (root c) v) dir wm =
              (Inr q, (new_cache (repohash c) (goroothash c) (root c) v)\<lparr>pkgsizecache := [dir \<mapsto> q]\<rparr>,
               emit (EvReadFile (cachePath c dir ''build'')) (emit (EvReadFile (token_file c)) wm))))"
proof (intro conjI impI)
  assume "GoList env c dir w = (Inr p, c', w')"
  then have "listcache c' dir = Some p" by (rule GoList_ok_mem)
  then show "GoList envb c' dir wb = (Inr p, c', wb)" by (simp add: GoList_def)
next
  assume g: "PkgSize env c dir w = (Inr q, d', v')"
  show "PkgSize envb d' dir wb = (Inr q, d', wb)"
  proof (cases "dir = ''unsafe''")
    case True
    with g show ?thesis by (simp add: PkgSize_def)
  next
    case False
    with g have "pkgsizecache d' dir = Some q" by (simp add: PkgSize_ok_mem)
    with False show ?thesis by (simp add: PkgSize_def)
  qed
next
  let ?cn = "new_cache (repohash c) (goroothash c) (root c) v"
  let ?wm = "emit (EvReadFile (token_file c)) (emit (EvMkdir (root c)) wn)"
  assume a: "listcache c dir = None \<and> GoList env c dir w = (Inr p, c', w') \<and>
    TrimSpace (hash_pair c @ [CHR 0x0A]) = hash_pair c \<and> fs wn = fs w' \<and>
    (\<forall>t e. \<not> os_fault envn t e) \<and> json_Unmarshal envn = json_Unmarshal env"
  then obtain out where e: "read_file w' (cachePath c dir ''list'') = Some out"
    and um: "json_Unmarshal env out = Some p"
    and tok: "TrimSpace (token_read c w') = hash_pair c"
    using GoList_disk_post [of c dir env w p c' w'] by blast
  from a have f: "fs wn = fs w'" and nf: "\<forall>t e. \<not> os_fault envn t e" by simp_all
  from tok f have tokn: "TrimSpace (token_read c wn) = hash_pair c"
    by (simp add: read_file_def)
  then have tokm: "TrimSpace (token_read c ?wm) = hash_pair c" by simp
  from e f have em: "read_file ?wm (cachePath c dir ''list'') = Some out"
    by (simp add: read_file_def)
  have mk: "Make envn (repohash c) (goroothash c) (root c) v wn = (Inr ?cn, ?wm)"
    using nf tokn by (rule Make_on_valid)
  have "tryCache envn ?cn dir ''list'' ?wm =
      (Inr (read_file ?wm (cachePath c dir ''list'')),
       emit (EvReadFile (cachePath c dir ''list'')) (emit (EvReadFile (token_file c)) ?wm))"
    using nf tokm by (rule tryCache_new_instance)
  with em um a have "GoList envn ?cn dir ?wm =
      (Inr p, ?cn\<lparr>listcache := [dir \<mapsto> p]\<rparr>,
       emit (EvReadFile (cachePath c dir ''list'')) (emit (EvReadFile (token_file c)) ?wm))"
    by (simp add: GoList_def)
  with mk show "\<exists>wm. Make envn (repohash c) (goroothash c) (root c) v wn = (Inr ?cn, wm) \<and>
            fs wm = fs wn \<and>
            GoList envn ?cn dir wm =
              (Inr p, ?cn\<lparr>listcache := [dir \<mapsto> p]\<rparr>,
               emit (EvReadFile (cachePath c dir ''list'')) (emit (EvReadFile (token_file c)) wm))"
    by (intro exI [of _ ?wm]) simp
next
  let ?cn = "new_cache (repohash c) (goroothash c) (root c) v"
  let ?wm = "emit (EvReadFile (token_file c)) (emit (EvMkdir (root c)) wn)"
  assume a: "dir \<noteq> ''unsafe'' \<and> pkgsizecache c dir = None \<and>
    PkgSize env c dir w = (Inr q, d', v') \<and>
    TrimSpace (hash_pair c @ [CHR 0x0A]) = hash_pair c \<and> fs wn = fs v' \<and>
    (\<forall>t e. \<not> os_fault envn t e)"
  then obtain out where e: "read_file v' (cachePath c dir ''build'') = Some out"
    and sc: "Sscanf_d_d out = ((2, None), (Size q, NumFuncs q))"
    and tok: "TrimSpace (token_read c v') = hash_pair c"
    using PkgSize_disk_post [of dir c env w q d' v'] by blast
  from a have f: "fs wn = fs v'" and nf: "\<forall>t e. \<not> os_fault envn t e"
    and u: "dir \<noteq> ''unsafe''" by simp_all
  from tok f have tokn: "TrimSpace (token_read c wn) = hash_pair c"
    by (simp add: read_file_def)
  then have tokm: "TrimSpace (token_read c ?wm) = hash_pair c" by simp
  from e f have em: "read_file ?wm (cachePath c dir ''build'') = Some out"
    by (simp add: read_file_def)
  have mk: "Make envn (repohash c) (goroothash c) (root c) v wn = (Inr ?cn, ?wm)"
    using nf tokn by (rule Make_on_valid)
  have eta: "\<lparr>Size = Size q, NumFuncs = NumFuncs q\<rparr> = q" by (cases q) simp
  have "tryCache envn ?cn dir ''build'' ?wm =
      (Inr (read_file ?wm (cachePath c dir ''build'')),
       emit (EvReadFile (cachePath c dir ''build'')) (emit (EvReadFile (token_file c)) ?wm))"
    using nf tokm by (rule tryCache_new_instance)
  with em sc u have "PkgSize envn ?cn dir ?wm =
      (Inr q, ?cn\<lparr>pkgsizecache := [dir \<mapsto> q]\<rparr>,
       emit (EvReadFile (cachePath c dir ''build'')) (emit (EvReadFile (token_file c)) ?wm))"
    by (simp add: PkgSize_def Let_def eta)
  with mk show "\<exists>wm. Make envn (repohash c) (goroothash c) (root c) v wn = (Inr ?cn, wm) \<and>
            fs wm = fs wn \<and>
            PkgSize envn ?cn dir wm =
              (Inr q, ?cn\<lparr>pkgsizecache := [dir \<mapsto> q]\<rparr>,
               emit (EvReadFile (cachePath c dir ''build'')) (emit (EvReadFile (token_file c)) wm))"
    by (intro exI [of _ ?wm]) simp
qed

lemma first_process_eval:
  "Make example_env [] [] ''cachedir'' 3 example_world =
     (Inr empty_hash_cache,
      \<lparr>fs = [''cachedir'' \<mapsto> [''=glo='' \<mapsto> '' '' @ [CHR 0x0A]]],
       trace = [EvMkdir ''cachedir'', EvReadFile (''cachedir'', ''=glo=''), EvRemoveAll ''cachedir'',
         EvMkdir ''cachedir'', EvOpenFile (''cachedir'', ''=glo=''),
         EvFprintf (''cachedir'', ''=glo=''), EvClose (''cachedir'', ''=glo='')]\<rparr>)"
  "first_process =
     (Inr io_pkg, empty_hash_cache\<lparr>listcache := [''io'' \<mapsto> io_pkg]\<rparr>,
      \<lparr>fs = [''cachedir'' \<mapsto> [''=glo='' \<mapsto> '' '' @ [CHR 0x0A], ''io.list'' \<mapsto> ''{io}'']],
       trace = [EvMkdir ''cachedir'', EvReadFile (''cachedir'', ''=glo=''), EvRemoveAll ''cachedir'',
         EvMkdir ''cachedir'', EvOpenFile (''cachedir'', ''=glo=''),
         EvFprintf (''cachedir'', ''=glo=''), EvClose (''cachedir'', ''=glo=''),
         EvReadFile (''cachedir'', ''=glo=''), EvRemoveAll ''cachedir'',
         EvMkdir ''cachedir'', EvOpenFile (''cachedir'', ''=glo=''),
         EvFprintf (''cachedir'', ''=glo=''), EvClose (''cachedir'', ''=glo=''),
         EvReadFile (''cachedir'', ''io.list''), EvGoList ''io'' [],
         EvWriteFile (''cachedir'', ''io.list'')]\<rparr>)"
  by (simp_all add: first_process_def cache_eval empty_hash_cache_def)

lemma second_process_eval:
  "fst second_process = Inr empty_hash_cache"
  "read_file (snd second_process) (''cachedir'', ''io.list'') = None"
  "fst (GoList offline_env empty_hash_cache ''io'' (snd second_process)) =
     Inl (Errorf ''go list -json'' ExitError)"
  by (simp_all add: second_process_def first_process_eval cache_eval empty_hash_cache_def
      offline_env_def)

text \<open>
  C1 as stated fails. \<^verbatim>\<open>PkgSize\<close> of \<^verbatim>\<open>unsafe\<close> is answered by a constant and never looks at
  the disk, in a new process as in the first one. And with an empty pair of hashes the
  first process gets the package \<^verbatim>\<open>io\<close> and writes its entry, the second process is made
  with the same directory and hashes and removes the entry, and its query, with no \<^verbatim>\<open>go\<close>
  command at hand, fails.
\<close>

theorem same_hashes_not_served_from_disk:
  "snd (snd (PkgSize offline_env example_cache ''unsafe'' fresh_world)) = fresh_world \<and>
   fst (Make example_env [] [] ''cachedir'' 3 example_world) = Inr empty_hash_cache \<and>
   fst first_process = Inr io_pkg \<and>
   read_file (snd (snd first_process)) (''cachedir'', ''io.list'') = Some ''{io}'' \<and>
   fst second_process = Inr empty_hash_cache \<and>
   read_file (snd second_process) (''cachedir'', ''io.list'') = None \<and>
   fst (GoList offline_env empty_hash_cache ''io'' (snd second_process)) =
     Inl (Errorf ''go list -json'' ExitError)"
  by (simp add: second_process_eval first_process_eval) (simp add: PkgSize_def read_file_def)

lemma PkgSize_miss_ok:
  assumes "dir \<noteq> ''unsafe''" and "pkgsizecache c dir = None"
    and "tryCache env c dir ''build'' w = (Inr None, vm)"
    and "run_go_build env (cachePath c dir ''archive'') dir
      (os_RemoveAllFile env (cachePath c dir ''archive'') vm) = (bout, False, vb)"
    and "computePkgInfo env (cachePath c dir ''archive'') vb = (Inr payload, vp)"
    and "WriteCache env c dir ''build'' payload vp = (None, vw)"
    and "Sscanf_d_d payload = ((2, None), (sz, nf))"
  shows "PkgSize env c dir w =
        (Inr \<lparr>Size = sz, NumFuncs = nf\<rparr>,
         c\<lparr>pkgsizecache := (pkgsizecache c)(dir \<mapsto> \<lparr>Size = sz, NumFuncs = nf\<rparr>)\<rparr>,
         os_Remove env (cachePath c dir ''archive'') vw)"
  using assms by (simp add: PkgSize_def Let_def)

lemma fresh_GoList_ok:
  "GoList example_env example_cache ''io'' fresh_world =
   (Inr io_pkg, example_cache\<lparr>listcache := [''io'' \<mapsto> io_pkg]\<rparr>,
    \<lparr>fs = [''cachedir'' \<mapsto> [''=glo='' \<mapsto> ''xyz def'' @ [CHR 0x0A], ''io.list'' \<mapsto> ''{io}'']],
     trace = [EvReadFile (''cachedir'', ''=glo=''), EvReadFile (''cachedir'', ''io.list''),
       EvGoList ''io'' [], EvWriteFile (''cachedir'', ''io.list'')]\<rparr>)"
  by (simp add: cache_eval fresh_world_def)

lemma fresh_PkgSize_ok:
  "fst (PkgSize example_env example_cache ''io'' fresh_world) = Inr \<lparr>Size = 7, NumFuncs = 2\<rparr>"
proof -
  let ?vm = "\<lparr>fs = [''cachedir'' \<mapsto> [''=glo='' \<mapsto> ''xyz def'' @ [CHR 0x0A]]],
       trace = [EvReadFile (''cachedir'', ''=glo=''), EvReadFile (''cachedir'', ''io.build'')]\<rparr>"
  let ?vb = "\<lparr>fs = [''cachedir'' \<mapsto> [''=glo='' \<mapsto> ''xyz def'' @ [CHR 0x0A], ''io.archive'' \<mapsto> ''!<arch>'']],
      trace = [EvReadFile (''cachedir'', ''=glo=''), EvReadFile (''cachedir'', ''io.build''),
        EvRemoveAllFile (''cachedir'', ''io.archive''),
        EvGoBuild (''cachedir'', ''io.archive'') ''io'']\<rparr>"
  let ?vp = "\<lparr>fs = [''cachedir'' \<mapsto> [''=glo='' \<mapsto> ''xyz def'' @ [CHR 0x0A], ''io.archive'' \<mapsto> ''!<arch>'']],
      trace = [EvReadFile (''cachedir'', ''=glo=''), EvReadFile (''cachedir'', ''io.build''),
        EvRemoveAllFile (''cachedir'', ''io.archive''),
        EvGoBuild (''cachedir'', ''io.archive'') ''io'',
        EvStat (''cachedir'', ''io.archive''), EvGoNm (''cachedir'', ''io.archive'')]\<rparr>"
  let ?vw = "emit (EvWriteFile (''cachedir'', ''io.build''))
        (put_file (''cachedir'', ''io.build'') (''7 2'' @ [CHR 0x0A]) ?vp)"
  have u: "''io'' \<noteq> ''unsafe''" by simp
  have b: "run_go_build example_env (cachePath example_cache ''io'' ''archive'') ''io''
      (os_RemoveAllFile example_env (cachePath example_cache ''io'' ''archive'') ?vm) = ([], False, ?vb)"
    by (simp only: example_paths fresh_build)
  have p: "computePkgInfo example_env (cachePath example_cache ''io'' ''archive'') ?vb =
      (Inr (''7 2'' @ [CHR 0x0A]), ?vp)"
    by (simp only: example_paths fresh_payload)
  have wo: "WriteCache example_env example_cache ''io'' ''build'' (''7 2'' @ [CHR 0x0A]) ?vp = (None, ?vw)"
    by (simp add: WriteCache_def os_WriteFile_def example_paths example_env_def)
  have sc: "Sscanf_d_d (''7 2'' @ [CHR 0x0A]) = ((2, None), (7, 2))"
    by (simp add: scan_eval)
  have "PkgSize example_env example_cache ''io'' fresh_world =
        (Inr \<lparr>Size = 7, NumFuncs = 2\<rparr>,
         example_cache\<lparr>pkgsizecache := (pkgsizecache example_cache)(''io'' \<mapsto> \<lparr>Size = 7, NumFuncs = 2\<rparr>)\<rparr>,
         os_Remove example_env (cachePath example_cache ''io'' ''archive'') ?vw)"
    using u example_cache_empty(2) fresh_tryCache(3) b p wo sc by (rule PkgSize_miss_ok)
  then show ?thesis by simp
qed

text \<open>
  The theorem of C1 on the example: the package \<^verbatim>\<open>io\<close> and its size, asked in a first process,
  asked again there, and asked in a new process that cannot run the \<^verbatim>\<open>go\<close> command.
\<close>

theorem repeated_query_same_result_witness:
  "listcache example_cache ''io'' = None \<and> pkgsizecache example_cache ''io'' = None \<and>
   TrimSpace (hash_pair example_cache @ [CHR 0x0A]) = hash_pair example_cache \<and>
   fst (GoList example_env example_cache ''io'' fresh_world) = Inr io_pkg \<and>
   fst (GoList offline_env (fst (snd (GoList example_env example_cache ''io'' fresh_world)))
          ''io'' example_world) = Inr io_pkg \<and>
   fst (Make offline_env ''xyz'' ''def'' ''cachedir'' 3
          (snd (snd (GoList example_env example_cache ''io'' fresh_world)))) = Inr example_cache \<and>
   fst (GoList offline_env example_cache ''io''
          (snd (Make offline_env ''xyz'' ''def'' ''cachedir'' 3
             (snd (snd (GoList example_env example_cache ''io'' fresh_world)))))) = Inr io_pkg \<and>
   fst (PkgSize example_env example_cache ''io'' fresh_world) = Inr \<lparr>Size = 7, NumFuncs = 2\<rparr> \<and>
   fst (PkgSize offline_env (fst (snd (PkgSize example_env example_cache ''io'' fresh_world)))
          ''io'' example_world) = Inr \<lparr>Size = 7, NumFuncs = 2\<rparr> \<and>
   fst (PkgSize offline_env example_cache ''io''
          (snd (Make offline_env ''xyz'' ''def'' ''cachedir'' 3
             (snd (snd (PkgSize example_env example_cache ''io'' fresh_world)))))) =
     Inr \<lparr>Size = 7, NumFuncs = 2\<rparr>"
proof -
  let ?g = "GoList example_env example_cache ''io'' fresh_world"
  let ?s = "PkgSize example_env example_cache ''io'' fresh_world"
  have m: "listcache example_cache ''io'' = None" "pkgsizecache example_cache ''io'' = None"
    by (rule example_cache_empty)+
  have rt: "TrimSpace (hash_pair example_cache @ [CHR 0x0A]) = hash_pair example_cache"
    by (simp add: example_cache_def TrimSpace_eval)
  have g: "?g = (Inr io_pkg, fst (snd ?g), snd (snd ?g))"
    by (simp add: fresh_GoList_ok)
  have s: "?s = (Inr \<lparr>Size = 7, NumFuncs = 2\<rparr>, fst (snd ?s), snd (snd ?s))"
    using fresh_PkgSize_ok by (metis prod.collapse)
  have nf: "\<forall>t e. \<not> os_fault offline_env t e"
    and um: "json_Unmarshal offline_env = json_Unmarshal example_env"
    by (simp_all add: offline_env_def example_env_def)
  have u: "''io'' \<noteq> ''unsafe''" by simp
  have nc: "new_cache (repohash example_cache) (goroothash example_cache) (root example_cache) 3 =
      example_cache"
    and args: "repohash example_cache = ''xyz''" "goroothash example_cache = ''def''"
      "root example_cache = ''cachedir''"
    by (simp_all add: example_cache_def)
  note claim = repeated_query_same_result
    [where env = example_env and c = example_cache and dir = "''io''" and w = fresh_world
       and p = io_pkg and c' = "fst (snd ?g)" and w' = "snd (snd ?g)"
       and q = "\<lparr>Size = 7, NumFuncs = 2\<rparr>" and d' = "fst (snd ?s)" and v' = "snd (snd ?s)"
       and envb = offline_env and wb = example_world and envn = offline_env and v = 3]
  have hg: "listcache example_cache ''io'' = None \<and> ?g = (Inr io_pkg, fst (snd ?g), snd (snd ?g)) \<and>
      TrimSpace (hash_pair example_cache @ [CHR 0x0A]) = hash_pair example_cache \<and>
      fs (snd (snd ?g)) = fs (snd (snd ?g)) \<and>
      (\<forall>t e. \<not> os_fault offline_env t e) \<and>
      json_Unmarshal offline_env = json_Unmarshal example_env"
    using m(1) g rt nf um by blast
  have hs: "''io'' \<noteq> ''unsafe'' \<and> pkgsizecache example_cache ''io'' = None \<and>
      ?s = (Inr \<lparr>Size = 7, NumFuncs = 2\<rparr>, fst (snd ?s), snd (snd ?s)) \<and>
      TrimSpace (hash_pair example_cache @ [CHR 0x0A]) = hash_pair example_cache \<and>
      fs (snd (snd ?s)) = fs (snd (snd ?s)) \<and>
      (\<forall>t e. \<not> os_fault offline_env t e)"
    using m(2) s rt nf u by blast
  have 1: "GoList offline_env (fst (snd ?g)) ''io'' example_world =
      (Inr io_pkg, fst (snd ?g), example_world)"
    by (rule claim [where wn = "snd (snd ?g)", THEN conjunct1, THEN mp, OF g])
  have 3: "PkgSize offline_env (fst (snd ?s)) ''io'' example_world =
      (Inr \<lparr>Size = 7, NumFuncs = 2\<rparr>, fst (snd ?s), example_world)"
    by (rule claim [where wn = "snd (snd ?s)", THEN conjunct2, THEN conjunct1, THEN mp, OF s])
  from claim [where wn = "snd (snd ?g)", THEN conjunct2, THEN conjunct2, THEN conjunct1, THEN mp,
      OF hg, unfolded args, folded example_cache_def]
  obtain wg where mg: "Make offline_env ''xyz'' ''def'' ''cachedir'' 3 (snd (snd ?g)) =
        (Inr example_cache, wg)"
    and gg: "fst (GoList offline_env example_cache ''io'' wg) = Inr io_pkg"
    by force
  from claim [where wn = "snd (snd ?s)", THEN conjunct2, THEN conjunct2, THEN conjunct2, THEN mp,
      OF hs, unfolded args, folded example_cache_def]
  obtain ws where ms: "Make offline_env ''xyz'' ''def'' ''cachedir'' 3 (snd (snd ?s)) =
        (Inr example_cache, ws)"
    and ss: "fst (PkgSize offline_env example_cache ''io'' ws) = Inr \<lparr>Size = 7, NumFuncs = 2\<rparr>"
    by force
  from mg gg have mk: "fst (Make offline_env ''xyz'' ''def'' ''cachedir'' 3 (snd (snd ?g))) =
      Inr example_cache"
    "fst (GoList offline_env example_cache ''io''
          (snd (Make offline_env ''xyz'' ''def'' ''cachedir'' 3 (snd (snd ?g))))) = Inr io_pkg"
    by simp_all
  from ms ss have sz: "fst (PkgSize offline_env example_cache ''io''
          (snd (Make offline_env ''xyz'' ''def'' ''cachedir'' 3 (snd (snd ?s))))) =
        Inr \<lparr>Size = 7, NumFuncs = 2\<rparr>"
    by simp
  have f1: "fst (GoList offline_env (fst (snd ?g)) ''io'' example_world) = Inr io_pkg"
    by (simp only: 1 fst_conv)
  have f3: "fst (PkgSize offline_env (fst (snd ?s)) ''io'' example_world) =
      Inr \<lparr>Size = 7, NumFuncs = 2\<rparr>"
    by (simp only: 3 fst_conv)
  have f0: "fst ?g = Inr io_pkg" by (simp add: fresh_GoList_ok)
  show ?thesis
    by (intro conjI m rt f0 f1 mk sz f3 fresh_PkgSize_ok)
qed

end
